theory Spec2Isabelle
  imports Complex_Main
begin

section \<open>Numbers, vectors and failures\<close>

text \<open>
  The sources compute with C++ \<^verbatim>\<open>double\<close>. A finite double is modelled as a
  \<^typ>\<open>real\<close> and the arithmetic on coordinates is exact. Rounding is modelled in the
  one place where the sources turn a double into a count, the number of inliers of
  \<^verbatim>\<open>GenerateRandom2D2DPoints\<close>: there a rounding error changes which samples are
  inliers. Where the C++ value would be infinite or NaN (a division by zero), the model
  returns the failure \<open>NonFinite\<close> instead of HOL's \<open>x / 0 = 0\<close>. The one place where
  the sources test a value for NaN is the refractive forward projection; its result type
  \<open>double\<close> below carries NaN and the infinities explicitly.

  \<^verbatim>\<open>size_t\<close> values are natural numbers; the 64-bit bound is not modelled.
\<close>

type_synonym vec2 = "real \<times> real"
type_synonym vec3 = "real \<times> real \<times> real"

datatype double = Fin real | PInf | NInf | NaN

text \<open>
  How a call can fail: a \<^verbatim>\<open>CHECK\<close> that does not hold and \<^verbatim>\<open>LOG(FATAL)\<close> abort
  the process; \<^verbatim>\<open>params_[idx]\<close> beyond the vector is undefined behaviour in C++ and is
  the failure \<open>OutOfRange\<close> here.
\<close>

datatype error = CheckFailed | LogFatal | OutOfRange | NonFinite

definition e_bind :: "error + 'a \<Rightarrow> ('a \<Rightarrow> error + 'b) \<Rightarrow> error + 'b" where
  "e_bind m f = (case m of Inl e \<Rightarrow> Inl e | Inr x \<Rightarrow> f x)"

text \<open>\<^verbatim>\<open>v[i]\<close> read and written on a \<^verbatim>\<open>std::vector<double>\<close>.\<close>

definition elem :: "real list \<Rightarrow> nat \<Rightarrow> error + real" where
  "elem xs i = (if i < length xs then Inr (xs ! i) else Inl OutOfRange)"

definition store :: "real list \<Rightarrow> nat \<Rightarrow> real \<Rightarrow> error + real list" where
  "store xs i v = (if i < length xs then Inr (xs[i := v]) else Inl OutOfRange)"

text \<open>
  \<^verbatim>\<open>std::vector::resize(n, v)\<close>: the first \<open>n\<close> elements are kept, and the vector is
  padded with \<open>v\<close> when it was shorter.
\<close>

definition resize :: "nat \<Rightarrow> 'a \<Rightarrow> 'a list \<Rightarrow> 'a list" where
  "resize n v xs = take n xs @ replicate (n - length xs) v"

text \<open>\<^verbatim>\<open>std::round\<close> (halves away from zero), as an integer.\<close>

definition cround :: "real \<Rightarrow> int" where
  "cround x = (if 0 \<le> x then \<lfloor>x + 1 / 2\<rfloor> else \<lceil>x - 1 / 2\<rceil>)"

text \<open>
  Rounding to the nearest \<^verbatim>\<open>double\<close> (IEEE 754 binary64, ties to even), the rounding
  of every conversion to \<^verbatim>\<open>double\<close> and of every arithmetic operation on doubles.
  A double has 53 significant bits: between \<open>2^e\<close> and \<open>2^(e + 1)\<close> the doubles are
  the multiples of \<open>2^(e - 52)\<close>, and below \<open>2^(- 1022)\<close> the multiples of
  \<open>2^(- 1074)\<close>. Overflow to infinity, beyond \<open>2^1024\<close>, is not modelled.
\<close>

definition round_to_even :: "real \<Rightarrow> int" where
  "round_to_even x =
     (let f = \<lfloor>x\<rfloor>; d = x - of_int f
      in if d < 1 / 2 then f else if 1 / 2 < d then f + 1 else if even f then f else f + 1)"

definition round_double :: "real \<Rightarrow> real" where
  "round_double x =
     (if x = 0 then 0
      else let e = max \<lfloor>log 2 \<bar>x\<bar>\<rfloor> (- 1022);
               ulp = 2 powi (e - 52)
           in of_int (round_to_even (x / ulp)) * ulp)"

section \<open>Vectors, quaternions, rays and rigid transforms\<close>

text \<open>The operations of \<^verbatim>\<open>Eigen::Vector3d\<close> that the sources call.\<close>

fun vadd :: "vec3 \<Rightarrow> vec3 \<Rightarrow> vec3" where
  "vadd (a, b, c) (x, y, z) = (a + x, b + y, c + z)"

fun vsub :: "vec3 \<Rightarrow> vec3 \<Rightarrow> vec3" where
  "vsub (a, b, c) (x, y, z) = (a - x, b - y, c - z)"

fun vneg :: "vec3 \<Rightarrow> vec3" where
  "vneg (x, y, z) = (- x, - y, - z)"

fun smul :: "real \<Rightarrow> vec3 \<Rightarrow> vec3" where
  "smul s (x, y, z) = (s * x, s * y, s * z)"

fun vdiv :: "vec3 \<Rightarrow> real \<Rightarrow> vec3" where
  "vdiv (x, y, z) s = (x / s, y / s, z / s)"

fun dot :: "vec3 \<Rightarrow> vec3 \<Rightarrow> real" where
  "dot (a, b, c) (x, y, z) = a * x + b * y + c * z"

fun cross :: "vec3 \<Rightarrow> vec3 \<Rightarrow> vec3" where
  "cross (a, b, c) (x, y, z) = (b * z - c * y, c * x - a * z, a * y - b * x)"

definition squaredNorm :: "vec3 \<Rightarrow> real" where
  "squaredNorm v = dot v v"

definition vnorm :: "vec3 \<Rightarrow> real" where
  "vnorm v = sqrt (squaredNorm v)"

text \<open>
  \<^verbatim>\<open>normalize()\<close>: Eigen divides by the norm only when the squared norm is positive,
  and leaves the zero vector as it is.
\<close>

definition normalize_vec :: "vec3 \<Rightarrow> vec3" where
  "normalize_vec v = (let z = squaredNorm v in if 0 < z then vdiv v (sqrt z) else v)"

text \<open>\<^verbatim>\<open>hnormalized()\<close> divides by the last coordinate; \<^verbatim>\<open>homogeneous()\<close> appends 1.\<close>

fun hnormalized :: "vec3 \<Rightarrow> error + vec2" where
  "hnormalized (x, y, z) = (if z = 0 then Inl NonFinite else Inr (x / z, y / z))"

fun homogeneous :: "vec2 \<Rightarrow> vec3" where
  "homogeneous (x, y) = (x, y, 1)"

text \<open>\<^verbatim>\<open>Eigen::Quaterniond\<close>, with the coefficients named as Eigen's accessors.\<close>

record Quaterniond =
  qw :: real
  qx :: real
  qy :: real
  qz :: real

definition qvec :: "Quaterniond \<Rightarrow> vec3" where
  "qvec q = (qx q, qy q, qz q)"

definition qsquaredNorm :: "Quaterniond \<Rightarrow> real" where
  "qsquaredNorm q = qw q * qw q + qx q * qx q + qy q * qy q + qz q * qz q"

definition qscale :: "real \<Rightarrow> Quaterniond \<Rightarrow> Quaterniond" where
  "qscale s q = \<lparr>qw = qw q / s, qx = qx q / s, qy = qy q / s, qz = qz q / s\<rparr>"

definition qnormalized :: "Quaterniond \<Rightarrow> Quaterniond" where
  "qnormalized q = (let z = qsquaredNorm q in if 0 < z then qscale (sqrt z) q else q)"

text \<open>\<^verbatim>\<open>inverse()\<close>: the conjugate over the squared norm, and the zero quaternion for zero.\<close>

definition qinverse :: "Quaterniond \<Rightarrow> Quaterniond" where
  "qinverse q =
     (let n2 = qsquaredNorm q
      in if 0 < n2 then \<lparr>qw = qw q / n2, qx = - qx q / n2, qy = - qy q / n2, qz = - qz q / n2\<rparr>
         else \<lparr>qw = 0, qx = 0, qy = 0, qz = 0\<rparr>)"

text \<open>The product of two quaternions.\<close>

definition qmul :: "Quaterniond \<Rightarrow> Quaterniond \<Rightarrow> Quaterniond" where
  "qmul a b =
     \<lparr>qw = qw a * qw b - qx a * qx b - qy a * qy b - qz a * qz b,
      qx = qw a * qx b + qx a * qw b + qy a * qz b - qz a * qy b,
      qy = qw a * qy b + qy a * qw b + qz a * qx b - qx a * qz b,
      qz = qw a * qz b + qz a * qw b + qx a * qy b - qy a * qx b\<rparr>"

text \<open>
  A quaternion applied to a vector, as Eigen computes it:
  \<^verbatim>\<open>uv = vec().cross(v); uv += uv; return v + w() * uv + vec().cross(uv);\<close>
\<close>

definition qrotate :: "Quaterniond \<Rightarrow> vec3 \<Rightarrow> vec3" where
  "qrotate q v =
     (let uv0 = cross (qvec q) v; uv = vadd uv0 uv0
      in vadd (vadd v (smul (qw q) uv)) (cross (qvec q) uv))"

text \<open>
  \<^verbatim>\<open>Eigen::Quaterniond::FromTwoVectors(a, b)\<close> is \<^verbatim>\<open>setFromTwoVectors\<close> of Eigen's
  \<^verbatim>\<open>Geometry/Quaternion.h\<close>, a library outside the repository. It normalises both
  vectors and takes their dot product \<^verbatim>\<open>c\<close>. When the vectors are not nearly opposite
  it answers the quaternion with vector part \<^verbatim>\<open>v0.cross(v1) / s\<close> and scalar part
  \<^verbatim>\<open>s / 2\<close>, where \<^verbatim>\<open>s = sqrt((1 + c) * 2)\<close>. When \<^verbatim>\<open>c\<close> is below
  \<^verbatim>\<open>-1 + 1e-12\<close>, the \<^verbatim>\<open>dummy_precision\<close> of \<^verbatim>\<open>double\<close>, it takes the rotation
  axis from a singular value decomposition of the matrix with rows \<^verbatim>\<open>v0\<close> and
  \<^verbatim>\<open>v1\<close>, the last column of \<^verbatim>\<open>matrixV()\<close>. That column is the parameter
  \<open>matrixV_col2\<close>.
\<close>

definition setFromTwoVectors :: "(vec3 \<Rightarrow> vec3 \<Rightarrow> vec3) \<Rightarrow> vec3 \<Rightarrow> vec3 \<Rightarrow> Quaterniond" where
  "setFromTwoVectors matrixV_col2 a b =
     (let v0 = normalize_vec a; v1 = normalize_vec b; c = dot v1 v0
      in if c < - 1 + 1 / 10 ^ 12 then
           let c' = max c (- 1);
               axis = matrixV_col2 v0 v1;
               w2 = (1 + c') * (1 / 2);
               v = smul (sqrt (1 - w2)) axis
           in \<lparr>qw = sqrt w2, qx = fst v, qy = fst (snd v), qz = snd (snd v)\<rparr>
         else
           let axis = cross v0 v1;
               s = sqrt ((1 + c) * 2);
               invs = 1 / s;
               v = smul invs axis
           in \<lparr>qw = s * (1 / 2), qx = fst v, qy = fst (snd v), qz = snd (snd v)\<rparr>)"

text \<open>
  Modelled from the spec: \<^verbatim>\<open>Ray3D\<close> and \<^verbatim>\<open>Rigid3d\<close> are declared in headers that
  are not among the sources. Specification, section 3: a ray is an origin and a
  direction and can be evaluated at a scalar distance along the direction; a rigid
  transform is a rotation composed with a translation. \<open>Rigid3d_apply\<close> is
  \<^verbatim>\<open>operator*\<close> on a point, \<open>Rigid3d_mul\<close> is \<^verbatim>\<open>operator*\<close> on two transforms and
  \<open>Inverse\<close> is the inverse transform.
\<close>

record Ray3D =
  ori :: vec3
  dir :: vec3

definition At :: "Ray3D \<Rightarrow> real \<Rightarrow> vec3" where
  "At ray distance = vadd (ori ray) (smul distance (dir ray))"

record Rigid3d =
  rotation :: Quaterniond
  translation :: vec3

definition Rigid3d_apply :: "Rigid3d \<Rightarrow> vec3 \<Rightarrow> vec3" where
  "Rigid3d_apply t x = vadd (qrotate (rotation t) x) (translation t)"

definition Inverse :: "Rigid3d \<Rightarrow> Rigid3d" where
  "Inverse b_from_a =
     (let r = qinverse (rotation b_from_a)
      in \<lparr>rotation = r, translation = qrotate r (vneg (translation b_from_a))\<rparr>)"

definition Rigid3d_mul :: "Rigid3d \<Rightarrow> Rigid3d \<Rightarrow> Rigid3d" where
  "Rigid3d_mul c_from_b b_from_a =
     \<lparr>rotation = qnormalized (qmul (rotation c_from_b) (rotation b_from_a)),
      translation = vadd (translation c_from_b) (qrotate (rotation c_from_b) (translation b_from_a))\<rparr>"

section \<open>The model catalogue\<close>

text \<open>
  \<^verbatim>\<open>camera.cc\<close> dispatches into \<^verbatim>\<open>colmap/sensor/models.h\<close>,
  \<^verbatim>\<open>colmap/sensor/models_refrac.h\<close>, \<^verbatim>\<open>colmap/util/misc.h\<close> and Eigen. None of
  them is among the sources, and the specification treats the model catalogue as a
  pluggable collaborator. Their functions are therefore parameters of the model: one
  record holds them, under the names the calls in \<^verbatim>\<open>camera.cc\<close> use.
  \<open>CameraRefracModelImgFromCam\<close> may answer with a non-finite pixel;
  \<open>IntersectLinesWithTolerance\<close> stands for the point the call writes into its output
  argument; \<open>FromTwoVectors\<close> is \<^verbatim>\<open>Eigen::Quaterniond::FromTwoVectors\<close>.
\<close>

record Models =
  ExistsCameraModelWithId :: "int \<Rightarrow> bool"
  ExistsCameraModelWithName :: "string \<Rightarrow> bool"
  CameraModelNameToId :: "string \<Rightarrow> int"
  CameraModelNumParams :: "int \<Rightarrow> nat"
  CameraModelFocalLengthIdxs :: "int \<Rightarrow> nat list"
  CameraModelPrincipalPointIdxs :: "int \<Rightarrow> nat list"
  CameraModelVerifyParams :: "int \<Rightarrow> real list \<Rightarrow> bool"
  CameraModelCamFromImg :: "int \<Rightarrow> real list \<Rightarrow> vec2 \<Rightarrow> vec3"
  CameraModelImgFromCam :: "int \<Rightarrow> real list \<Rightarrow> vec3 \<Rightarrow> vec2"
  ExistsCameraRefracModelWithId :: "int \<Rightarrow> bool"
  ExistsCameraRefracModelWithName :: "string \<Rightarrow> bool"
  CameraRefracModelNameToId :: "string \<Rightarrow> int"
  CameraRefracModelNumParams :: "int \<Rightarrow> nat"
  CameraRefracModelVerifyParams :: "int \<Rightarrow> real list \<Rightarrow> bool"
  CameraRefracModelRefractionAxis :: "int \<Rightarrow> real list \<Rightarrow> vec3"
  CameraRefracModelCamFromImg :: "int \<Rightarrow> int \<Rightarrow> real list \<Rightarrow> real list \<Rightarrow> vec2 \<Rightarrow> Ray3D"
  CameraRefracModelImgFromCam ::
    "int \<Rightarrow> int \<Rightarrow> real list \<Rightarrow> real list \<Rightarrow> vec3 \<Rightarrow> double \<times> double"
  CSVToVector :: "string \<Rightarrow> real list"
  FromTwoVectors :: "vec3 \<Rightarrow> vec3 \<Rightarrow> Quaterniond"
  IntersectLinesWithTolerance :: "vec3 \<Rightarrow> vec3 \<Rightarrow> vec3 \<Rightarrow> vec3 \<Rightarrow> vec3"

section \<open>Camera\<close>

text \<open>The data members of \<^verbatim>\<open>class Camera\<close>, in the order of its constructor.\<close>

record Camera =
  camera_id :: nat
  model_id :: int
  width :: nat
  height :: nat
  prior_focal_length :: bool
  refrac_model_id :: int
  params :: "real list"
  refrac_params :: "real list"

text \<open>
  Modelled from the spec: the three invalid-id constants are declared in headers that
  are not among the sources. The specification only says that the absence of a
  refraction variant means no refraction; their values are immaterial below.
\<close>

definition kInvalidCameraId :: nat where
  "kInvalidCameraId = 4294967295"

definition kInvalidCameraModelId :: int where
  "kInvalidCameraModelId = - 1"

definition kInvalidRefractiveCameraModelId :: int where
  "kInvalidRefractiveCameraModelId = - 1"

text \<open>\<^verbatim>\<open>Camera::Camera()\<close>.\<close>

definition Camera_new :: Camera where
  "Camera_new =
     \<lparr>camera_id = kInvalidCameraId, model_id = kInvalidCameraModelId, width = 0, height = 0,
      prior_focal_length = False, refrac_model_id = kInvalidRefractiveCameraModelId,
      params = [], refrac_params = []\<rparr>"

subsection \<open>Model selection\<close>

definition SetModelId :: "Models \<Rightarrow> int \<Rightarrow> Camera \<Rightarrow> error + Camera" where
  "SetModelId M mid c =
     (if \<not> ExistsCameraModelWithId M mid then Inl CheckFailed
      else Inr (c\<lparr>model_id := mid, params := resize (CameraModelNumParams M mid) 0 (params c)\<rparr>))"

definition SetModelIdFromName :: "Models \<Rightarrow> string \<Rightarrow> Camera \<Rightarrow> error + Camera" where
  "SetModelIdFromName M model_name c =
     (if \<not> ExistsCameraModelWithName M model_name then Inl CheckFailed
      else let mid = CameraModelNameToId M model_name
           in Inr (c\<lparr>model_id := mid, params := resize (CameraModelNumParams M mid) 0 (params c)\<rparr>))"

definition SetRefracModelId :: "Models \<Rightarrow> int \<Rightarrow> Camera \<Rightarrow> error + Camera" where
  "SetRefracModelId M rid c =
     (if \<not> ExistsCameraRefracModelWithId M rid then Inl CheckFailed
      else Inr (c\<lparr>refrac_model_id := rid,
                  refrac_params := resize (CameraRefracModelNumParams M rid) 0 (refrac_params c)\<rparr>))"

definition SetRefracModelIdFromName :: "Models \<Rightarrow> string \<Rightarrow> Camera \<Rightarrow> error + Camera" where
  "SetRefracModelIdFromName M refrac_model_name c =
     (if \<not> ExistsCameraRefracModelWithName M refrac_model_name then Inl CheckFailed
      else let rid = CameraRefracModelNameToId M refrac_model_name
           in Inr (c\<lparr>refrac_model_id := rid,
                     refrac_params := resize (CameraRefracModelNumParams M rid) 0 (refrac_params c)\<rparr>))"

subsection \<open>Parameter assignment\<close>

text \<open>
  \<^verbatim>\<open>bool Camera::SetParamsFromString(const std::string&)\<close> and its refraction twin:
  the result is the returned flag and the camera afterwards.
\<close>

definition SetParamsFromString :: "Models \<Rightarrow> string \<Rightarrow> Camera \<Rightarrow> bool \<times> Camera" where
  "SetParamsFromString M s c =
     (let new_camera_params = CSVToVector M s
      in if \<not> CameraModelVerifyParams M (model_id c) new_camera_params then (False, c)
         else (True, c\<lparr>params := new_camera_params\<rparr>))"

definition SetRefracParamsFromString :: "Models \<Rightarrow> string \<Rightarrow> Camera \<Rightarrow> bool \<times> Camera" where
  "SetRefracParamsFromString M s c =
     (let new_refrac_params = CSVToVector M s
      in if \<not> CameraRefracModelVerifyParams M (refrac_model_id c) new_refrac_params then (False, c)
         else (True, c\<lparr>refrac_params := new_refrac_params\<rparr>))"

text \<open>
  Modelled from the spec: \<^verbatim>\<open>Camera::SetParams\<close> and \<^verbatim>\<open>Camera::SetRefracParams\<close> are
  defined in \<^verbatim>\<open>colmap/scene/camera.h\<close>, which is not among the sources (only calls
  to them are, and every call drops the result). Specification, section 4.1, "Assign
  parameters (from a numeric vector or parsed text)": the assignment succeeds only if
  the vector satisfies the selected variant's validator; otherwise it leaves the state
  unchanged and signals failure.
\<close>

definition SetParams :: "Models \<Rightarrow> real list \<Rightarrow> Camera \<Rightarrow> bool \<times> Camera" where
  "SetParams M ps c =
     (if \<not> CameraModelVerifyParams M (model_id c) ps then (False, c)
      else (True, c\<lparr>params := ps\<rparr>))"

definition SetRefracParams :: "Models \<Rightarrow> real list \<Rightarrow> Camera \<Rightarrow> bool \<times> Camera" where
  "SetRefracParams M ps c =
     (if \<not> CameraRefracModelVerifyParams M (refrac_model_id c) ps then (False, c)
      else (True, c\<lparr>refrac_params := ps\<rparr>))"

subsection \<open>Index lists, focal length and principal point\<close>

definition FocalLengthIdxs :: "Models \<Rightarrow> Camera \<Rightarrow> nat list" where
  "FocalLengthIdxs M c = CameraModelFocalLengthIdxs M (model_id c)"

definition PrincipalPointIdxs :: "Models \<Rightarrow> Camera \<Rightarrow> nat list" where
  "PrincipalPointIdxs M c = CameraModelPrincipalPointIdxs M (model_id c)"

text \<open>The loop of \<^verbatim>\<open>MeanFocalLength\<close>: \<^verbatim>\<open>focal_length += params_[idx]\<close> for every index.\<close>

fun sum_elems :: "real list \<Rightarrow> nat list \<Rightarrow> real \<Rightarrow> error + real" where
  "sum_elems ps [] acc = Inr acc"
| "sum_elems ps (i # idxs) acc = e_bind (elem ps i) (\<lambda>v. sum_elems ps idxs (acc + v))"

text \<open>With no focal length index the C++ quotient is 0 / 0.\<close>

definition MeanFocalLength :: "Models \<Rightarrow> Camera \<Rightarrow> error + real" where
  "MeanFocalLength M c =
     (let focal_length_idxs = FocalLengthIdxs M c
      in e_bind (sum_elems (params c) focal_length_idxs 0) (\<lambda>focal_length.
           if focal_length_idxs = [] then Inl NonFinite
           else Inr (focal_length / real (length focal_length_idxs))))"

definition FocalLength :: "Models \<Rightarrow> Camera \<Rightarrow> error + real" where
  "FocalLength M c =
     (let idxs = FocalLengthIdxs M c
      in if length idxs \<noteq> 1 then Inl CheckFailed else elem (params c) (idxs ! 0))"

definition FocalLengthX :: "Models \<Rightarrow> Camera \<Rightarrow> error + real" where
  "FocalLengthX M c =
     (let idxs = FocalLengthIdxs M c
      in if length idxs \<noteq> 2 then Inl CheckFailed else elem (params c) (idxs ! 0))"

definition FocalLengthY :: "Models \<Rightarrow> Camera \<Rightarrow> error + real" where
  "FocalLengthY M c =
     (let idxs = FocalLengthIdxs M c
      in if length idxs \<noteq> 2 then Inl CheckFailed else elem (params c) (idxs ! 1))"

text \<open>The loop of \<^verbatim>\<open>SetFocalLength\<close>: \<^verbatim>\<open>params_[idx] = focal_length\<close> for every index.\<close>

fun store_all :: "real list \<Rightarrow> nat list \<Rightarrow> real \<Rightarrow> error + real list" where
  "store_all ps [] v = Inr ps"
| "store_all ps (i # idxs) v = e_bind (store ps i v) (\<lambda>ps'. store_all ps' idxs v)"

definition set_param :: "nat \<Rightarrow> real \<Rightarrow> Camera \<Rightarrow> error + Camera" where
  "set_param i v c = e_bind (store (params c) i v) (\<lambda>ps. Inr (c\<lparr>params := ps\<rparr>))"

definition SetFocalLength :: "Models \<Rightarrow> real \<Rightarrow> Camera \<Rightarrow> error + Camera" where
  "SetFocalLength M focal_length c =
     e_bind (store_all (params c) (FocalLengthIdxs M c) focal_length) (\<lambda>ps. Inr (c\<lparr>params := ps\<rparr>))"

definition SetFocalLengthX :: "Models \<Rightarrow> real \<Rightarrow> Camera \<Rightarrow> error + Camera" where
  "SetFocalLengthX M focal_length_x c =
     (let idxs = FocalLengthIdxs M c
      in if length idxs \<noteq> 2 then Inl CheckFailed else set_param (idxs ! 0) focal_length_x c)"

definition SetFocalLengthY :: "Models \<Rightarrow> real \<Rightarrow> Camera \<Rightarrow> error + Camera" where
  "SetFocalLengthY M focal_length_y c =
     (let idxs = FocalLengthIdxs M c
      in if length idxs \<noteq> 2 then Inl CheckFailed else set_param (idxs ! 1) focal_length_y c)"

definition PrincipalPointX :: "Models \<Rightarrow> Camera \<Rightarrow> error + real" where
  "PrincipalPointX M c =
     (let idxs = PrincipalPointIdxs M c
      in if length idxs \<noteq> 2 then Inl CheckFailed else elem (params c) (idxs ! 0))"

definition PrincipalPointY :: "Models \<Rightarrow> Camera \<Rightarrow> error + real" where
  "PrincipalPointY M c =
     (let idxs = PrincipalPointIdxs M c
      in if length idxs \<noteq> 2 then Inl CheckFailed else elem (params c) (idxs ! 1))"

definition SetPrincipalPointX :: "Models \<Rightarrow> real \<Rightarrow> Camera \<Rightarrow> error + Camera" where
  "SetPrincipalPointX M ppx c =
     (let idxs = PrincipalPointIdxs M c
      in if length idxs \<noteq> 2 then Inl CheckFailed else set_param (idxs ! 0) ppx c)"

definition SetPrincipalPointY :: "Models \<Rightarrow> real \<Rightarrow> Camera \<Rightarrow> error + Camera" where
  "SetPrincipalPointY M ppy c =
     (let idxs = PrincipalPointIdxs M c
      in if length idxs \<noteq> 2 then Inl CheckFailed else set_param (idxs ! 1) ppy c)"

subsection \<open>Validity predicates\<close>

definition VerifyParams :: "Models \<Rightarrow> Camera \<Rightarrow> bool" where
  "VerifyParams M c = CameraModelVerifyParams M (model_id c) (params c)"

definition VerifyRefracParams :: "Models \<Rightarrow> Camera \<Rightarrow> bool" where
  "VerifyRefracParams M c = CameraRefracModelVerifyParams M (refrac_model_id c) (refrac_params c)"

definition IsCameraRefractive :: "Camera \<Rightarrow> bool" where
  "IsCameraRefractive c = (refrac_model_id c \<noteq> kInvalidRefractiveCameraModelId)"

subsection \<open>Projection\<close>

definition CamFromImg :: "Models \<Rightarrow> Camera \<Rightarrow> vec2 \<Rightarrow> error + vec2" where
  "CamFromImg M c image_point =
     hnormalized (CameraModelCamFromImg M (model_id c) (params c) image_point)"

definition ImgFromCam :: "Models \<Rightarrow> Camera \<Rightarrow> vec2 \<Rightarrow> vec2" where
  "ImgFromCam M c cam_point =
     CameraModelImgFromCam M (model_id c) (params c) (homogeneous cam_point)"

definition CamFromImgRefrac :: "Models \<Rightarrow> Camera \<Rightarrow> vec2 \<Rightarrow> Ray3D" where
  "CamFromImgRefrac M c image_point =
     CameraRefracModelCamFromImg M (model_id c) (refrac_model_id c) (params c) (refrac_params c)
       image_point"

definition ImgFromCamRefrac :: "Models \<Rightarrow> Camera \<Rightarrow> vec3 \<Rightarrow> double \<times> double" where
  "ImgFromCamRefrac M c cam_point =
     CameraRefracModelImgFromCam M (model_id c) (refrac_model_id c) (params c) (refrac_params c)
       cam_point"

subsection \<open>Rescale\<close>

text \<open>
  The tail both overloads of \<^verbatim>\<open>Rescale\<close> share, from the first
  \<^verbatim>\<open>SetPrincipalPointX\<close> on. The new width and height are already stored.
\<close>

definition rescale_params :: "Models \<Rightarrow> real \<Rightarrow> real \<Rightarrow> Camera \<Rightarrow> error + Camera" where
  "rescale_params M scale_x scale_y c =
     e_bind (PrincipalPointX M c) (\<lambda>ppx.
     e_bind (SetPrincipalPointX M (scale_x * ppx) c) (\<lambda>c1.
     e_bind (PrincipalPointY M c1) (\<lambda>ppy.
     e_bind (SetPrincipalPointY M (scale_y * ppy) c1) (\<lambda>c2.
       if length (FocalLengthIdxs M c2) = 1 then
         e_bind (FocalLength M c2) (\<lambda>f. SetFocalLength M ((scale_x + scale_y) / 2 * f) c2)
       else if length (FocalLengthIdxs M c2) = 2 then
         e_bind (FocalLengthX M c2) (\<lambda>fx.
         e_bind (SetFocalLengthX M (scale_x * fx) c2) (\<lambda>c3.
         e_bind (FocalLengthY M c3) (\<lambda>fy.
           SetFocalLengthY M (scale_y * fy) c3)))
       else Inl LogFatal))))"

text \<open>
  \<^verbatim>\<open>void Camera::Rescale(const double scale)\<close>. A width or height of zero makes the
  C++ scale factor 0 / 0.
\<close>

definition Rescale :: "Models \<Rightarrow> real \<Rightarrow> Camera \<Rightarrow> error + Camera" where
  "Rescale M scale c =
     (if \<not> 0 < scale then Inl CheckFailed
      else if width c = 0 \<or> height c = 0 then Inl NonFinite
      else
        let scale_x = real_of_int (cround (scale * real (width c))) / real (width c);
            scale_y = real_of_int (cround (scale * real (height c))) / real (height c)
        in rescale_params M scale_x scale_y
             (c\<lparr>width := nat (cround (scale * real (width c))),
                height := nat (cround (scale * real (height c)))\<rparr>))"

text \<open>\<^verbatim>\<open>void Camera::Rescale(const size_t width, const size_t height)\<close>.\<close>

definition Rescale_to :: "Models \<Rightarrow> nat \<Rightarrow> nat \<Rightarrow> Camera \<Rightarrow> error + Camera" where
  "Rescale_to M new_width new_height c =
     (if width c = 0 \<or> height c = 0 then Inl NonFinite
      else
        let scale_x = real new_width / real (width c);
            scale_y = real new_height / real (height c)
        in rescale_params M scale_x scale_y (c\<lparr>width := new_width, height := new_height\<rparr>))"

text \<open>
  For statements about \<^verbatim>\<open>Rescale\<close>: a camera whose model has two principal point
  indices and one or two focal length indices, all within the parameter vector and all
  different; and the relation between the camera before and after that says the
  principal point was scaled by \<open>sx\<close> and \<open>sy\<close>, a single focal length by their mean,
  and two focal lengths by \<open>sx\<close> and \<open>sy\<close> (each accessor of the camera after
  returns the scaled value of the same accessor before).
\<close>

definition well_indexed :: "Models \<Rightarrow> Camera \<Rightarrow> bool" where
  "well_indexed M c \<longleftrightarrow>
     length (PrincipalPointIdxs M c) = 2 \<and>
     (length (FocalLengthIdxs M c) = 1 \<or> length (FocalLengthIdxs M c) = 2) \<and>
     (\<forall>i \<in> set (PrincipalPointIdxs M c @ FocalLengthIdxs M c). i < length (params c)) \<and>
     distinct (PrincipalPointIdxs M c @ FocalLengthIdxs M c)"

definition params_scaled :: "Models \<Rightarrow> real \<Rightarrow> real \<Rightarrow> Camera \<Rightarrow> Camera \<Rightarrow> bool" where
  "params_scaled M sx sy c c' \<longleftrightarrow>
     PrincipalPointX M c' = e_bind (PrincipalPointX M c) (\<lambda>ppx. Inr (sx * ppx)) \<and>
     PrincipalPointY M c' = e_bind (PrincipalPointY M c) (\<lambda>ppy. Inr (sy * ppy)) \<and>
     (if length (FocalLengthIdxs M c) = 1
      then FocalLength M c' = e_bind (FocalLength M c) (\<lambda>f. Inr ((sx + sy) / 2 * f))
      else FocalLengthX M c' = e_bind (FocalLengthX M c) (\<lambda>fx. Inr (sx * fx)) \<and>
           FocalLengthY M c' = e_bind (FocalLengthY M c) (\<lambda>fy. Inr (sy * fy)))"

subsection \<open>Virtual cameras\<close>

text \<open>
  Modelled from the spec: the projection of the \<^verbatim>\<open>SIMPLE_PINHOLE\<close> model is defined
  in \<^verbatim>\<open>colmap/sensor/models.h\<close>, which is not among the sources. Specification,
  sections 3 and 4.1: the virtual camera is a minimal single-focal-length pinhole with a
  principal point; its parameters are \<open>f, cx, cy\<close> in \<^verbatim>\<open>Camera::VirtualCamera\<close>. A
  point \<open>(u, v, w)\<close> of the camera frame projects to \<open>(f u / w + cx, f v / w + cy)\<close>.
\<close>

definition SimplePinhole_ImgFromCam :: "real list \<Rightarrow> vec3 \<Rightarrow> vec2" where
  "SimplePinhole_ImgFromCam ps p =
     (case p of (u, v, w) \<Rightarrow> (ps ! 0 * (u / w) + ps ! 1, ps ! 0 * (v / w) + ps ! 2))"

definition RefractionAxis :: "Models \<Rightarrow> Camera \<Rightarrow> vec3" where
  "RefractionAxis M c = CameraRefracModelRefractionAxis M (refrac_model_id c) (refrac_params c)"

definition VirtualFromRealRotation :: "Models \<Rightarrow> Camera \<Rightarrow> Quaterniond" where
  "VirtualFromRealRotation M c = qnormalized (FromTwoVectors M (RefractionAxis M c) (0, 0, 1))"

definition VirtualCameraCenter :: "Models \<Rightarrow> Camera \<Rightarrow> Ray3D \<Rightarrow> vec3" where
  "VirtualCameraCenter M c ray_refrac =
     IntersectLinesWithTolerance M (0, 0, 0) (RefractionAxis M c) (ori ray_refrac)
       (vneg (dir ray_refrac))"

text \<open>
  \<^verbatim>\<open>Camera::VirtualCamera\<close>. The focal length is read before the principal point is
  solved; \<^verbatim>\<open>SetWidth\<close> and \<^verbatim>\<open>SetHeight\<close> store their argument.
\<close>

definition VirtualCamera :: "Models \<Rightarrow> Camera \<Rightarrow> vec2 \<Rightarrow> vec2 \<Rightarrow> error + Camera" where
  "VirtualCamera M c image_point cam_point =
     e_bind (SetModelIdFromName M ''SIMPLE_PINHOLE'' Camera_new) (\<lambda>vc0.
       let virtual_camera = vc0\<lparr>width := width c, height := height c\<rparr>;
           idxs = FocalLengthIdxs M c
       in e_bind
            (if length idxs = 1 then elem (params c) (idxs ! 0)
             else if length idxs = 2 then
               e_bind (elem (params c) (idxs ! 0)) (\<lambda>f0.
               e_bind (elem (params c) (idxs ! 1)) (\<lambda>f1. Inr ((f0 + f1) / 2)))
             else Inl LogFatal)
            (\<lambda>f.
               let cx = fst image_point - f * fst cam_point;
                   cy = snd image_point - f * snd cam_point
               in Inr (snd (SetParams M [f, cx, cy] virtual_camera))))"

definition ComputeVirtual :: "Models \<Rightarrow> Camera \<Rightarrow> vec2 \<Rightarrow> error + Camera \<times> Rigid3d" where
  "ComputeVirtual M c point2D =
     (let virtual_from_real_rotation = VirtualFromRealRotation M c;
          ray_refrac = CamFromImgRefrac M c point2D;
          virtual_cam_center = VirtualCameraCenter M c ray_refrac;
          virtual_from_real =
            \<lparr>rotation = virtual_from_real_rotation,
             translation = qrotate virtual_from_real_rotation (vneg virtual_cam_center)\<rparr>
      in e_bind (hnormalized (qrotate virtual_from_real_rotation (dir ray_refrac))) (\<lambda>cam_point.
         e_bind (VirtualCamera M c point2D cam_point) (\<lambda>virtual_camera.
           Inr (virtual_camera, virtual_from_real))))"

text \<open>
  \<^verbatim>\<open>Camera::ComputeVirtuals\<close>: the two output vectors are arguments, and every pixel
  pushes one element onto the back of each.
\<close>

fun ComputeVirtuals ::
  "Models \<Rightarrow> Camera \<Rightarrow> vec2 list \<Rightarrow> Camera list \<times> Rigid3d list \<Rightarrow> error + Camera list \<times> Rigid3d list"
where
  "ComputeVirtuals M c [] (virtual_cameras, virtual_from_reals) =
     Inr (virtual_cameras, virtual_from_reals)"
| "ComputeVirtuals M c (point # points2D) (virtual_cameras, virtual_from_reals) =
     e_bind (ComputeVirtual M c point) (\<lambda>(virtual_camera, virtual_from_real).
       ComputeVirtuals M c points2D
         (virtual_cameras @ [virtual_camera], virtual_from_reals @ [virtual_from_real]))"

section \<open>The refraction dispatch, as the specification describes it\<close>

text \<open>
  Modelled from the spec: \<^verbatim>\<open>CameraRefracModelCamFromImg\<close> and
  \<^verbatim>\<open>CameraRefracModelImgFromCam\<close> are defined in
  \<^verbatim>\<open>colmap/sensor/models_refrac.h\<close>, which is not among the sources;
  \<^verbatim>\<open>Camera::CamFromImgRefrac\<close> and \<^verbatim>\<open>Camera::ImgFromCamRefrac\<close> only forward to
  them. Specification, section 4.1: the first unprojects through the intrinsic model and
  then bends the ray through the refraction model, and "if the refraction model has no
  selected variant, this degenerates to returning the plain unprojected ray (direction
  only, origin at the nominal center)"; the second projects a point through the
  refraction model and then the intrinsic model and may answer with a non-finite pixel.
  Section 8: with refraction disabled the two must match \<^verbatim>\<open>CamFromImg\<close> and
  \<^verbatim>\<open>ImgFromCam\<close>. What a selected variant does to a ray or a point is the parameter
  \<open>bend\<close> or \<open>refract\<close>. \<open>spec_refraction M bend refract\<close> is the catalogue \<open>M\<close> with
  these two dispatch functions.
\<close>

definition spec_CameraRefracModelCamFromImg ::
  "Models \<Rightarrow> (int \<Rightarrow> real list \<Rightarrow> vec3 \<Rightarrow> Ray3D) \<Rightarrow> int \<Rightarrow> int \<Rightarrow> real list \<Rightarrow> real list \<Rightarrow> vec2 \<Rightarrow> Ray3D"
where
  "spec_CameraRefracModelCamFromImg M bend mid rid ps rps image_point =
     (if rid = kInvalidRefractiveCameraModelId
      then \<lparr>ori = (0, 0, 0), dir = CameraModelCamFromImg M mid ps image_point\<rparr>
      else bend rid rps (CameraModelCamFromImg M mid ps image_point))"

definition spec_CameraRefracModelImgFromCam ::
  "Models \<Rightarrow> (int \<Rightarrow> int \<Rightarrow> real list \<Rightarrow> real list \<Rightarrow> vec3 \<Rightarrow> double \<times> double) \<Rightarrow> int \<Rightarrow> int \<Rightarrow>
     real list \<Rightarrow> real list \<Rightarrow> vec3 \<Rightarrow> double \<times> double"
where
  "spec_CameraRefracModelImgFromCam M refract mid rid ps rps cam_point =
     (if rid = kInvalidRefractiveCameraModelId
      then (case hnormalized cam_point of
              Inl e \<Rightarrow> (NaN, NaN)
            | Inr h \<Rightarrow>
                (Fin (fst (CameraModelImgFromCam M mid ps (homogeneous h))),
                 Fin (snd (CameraModelImgFromCam M mid ps (homogeneous h)))))
      else refract mid rid ps rps cam_point)"

definition spec_refraction ::
  "Models \<Rightarrow> (int \<Rightarrow> real list \<Rightarrow> vec3 \<Rightarrow> Ray3D) \<Rightarrow>
     (int \<Rightarrow> int \<Rightarrow> real list \<Rightarrow> real list \<Rightarrow> vec3 \<Rightarrow> double \<times> double) \<Rightarrow> Models"
where
  "spec_refraction M bend refract =
     M\<lparr>CameraRefracModelCamFromImg := spec_CameraRefracModelCamFromImg M bend,
       CameraRefracModelImgFromCam := spec_CameraRefracModelImgFromCam M refract\<rparr>"

section \<open>Sequences of calls on a camera\<close>

text \<open>
  The public mutating operations of \<^verbatim>\<open>class Camera\<close> that select a model, assign
  parameters or rescale, as the steps of a client program. A step that aborts ends the
  program.
\<close>

datatype camera_op =
    OpSetModelId int
  | OpSetModelIdFromName string
  | OpSetRefracModelId int
  | OpSetRefracModelIdFromName string
  | OpSetParamsFromString string
  | OpSetRefracParamsFromString string
  | OpSetParams "real list"
  | OpSetRefracParams "real list"
  | OpRescale real
  | OpRescale_to nat nat

fun apply_op :: "Models \<Rightarrow> camera_op \<Rightarrow> Camera \<Rightarrow> error + Camera" where
  "apply_op M (OpSetModelId mid) c = SetModelId M mid c"
| "apply_op M (OpSetModelIdFromName n) c = SetModelIdFromName M n c"
| "apply_op M (OpSetRefracModelId rid) c = SetRefracModelId M rid c"
| "apply_op M (OpSetRefracModelIdFromName n) c = SetRefracModelIdFromName M n c"
| "apply_op M (OpSetParamsFromString s) c = Inr (snd (SetParamsFromString M s c))"
| "apply_op M (OpSetRefracParamsFromString s) c = Inr (snd (SetRefracParamsFromString M s c))"
| "apply_op M (OpSetParams ps) c = Inr (snd (SetParams M ps c))"
| "apply_op M (OpSetRefracParams ps) c = Inr (snd (SetRefracParams M ps c))"
| "apply_op M (OpRescale scale) c = Rescale M scale c"
| "apply_op M (OpRescale_to w h) c = Rescale_to M w h c"

fun apply_ops :: "Models \<Rightarrow> camera_op list \<Rightarrow> Camera \<Rightarrow> error + Camera" where
  "apply_ops M [] c = Inr c"
| "apply_ops M (x # xs) c = e_bind (apply_op M x c) (apply_ops M xs)"

text \<open>
  The invariant of the data model, for each of the two vectors: it has its variant's
  canonical length.
\<close>

definition params_fit :: "Models \<Rightarrow> Camera \<Rightarrow> bool" where
  "params_fit M c \<longleftrightarrow> length (params c) = CameraModelNumParams M (model_id c)"

definition refrac_params_fit :: "Models \<Rightarrow> Camera \<Rightarrow> bool" where
  "refrac_params_fit M c \<longleftrightarrow>
     length (refrac_params c) = CameraRefracModelNumParams M (refrac_model_id c)"

section \<open>The evaluation harness: dataset generation\<close>

text \<open>\<^verbatim>\<open>struct PointsData\<close>.\<close>

record PointsData =
  points2D1 :: "vec2 list"
  points2D1_refrac :: "vec2 list"
  points2D2 :: "vec2 list"
  points2D2_refrac :: "vec2 list"
  virtual_cameras1 :: "Camera list"
  virtual_cameras2 :: "Camera list"
  virtual_from_reals1 :: "Rigid3d list"
  virtual_from_reals2 :: "Rigid3d list"
  cam2_from_cam1_gt :: Rigid3d

text \<open>
  The pseudo-random generator of \<^verbatim>\<open>colmap/math/random.h\<close> is global state that
  every draw advances. Its two functions are parameters: each takes the generator's
  state \<open>'g\<close> and returns the number drawn and the state afterwards.
\<close>

record 'g Random =
  RandomUniformReal :: "real \<Rightarrow> real \<Rightarrow> 'g \<Rightarrow> real \<times> 'g"
  RandomGaussian :: "real \<Rightarrow> real \<Rightarrow> 'g \<Rightarrow> real \<times> 'g"

text \<open>\<^verbatim>\<open>std::isnan\<close> and \<^verbatim>\<open><\<close> on doubles that may be non-finite.\<close>

fun isnan :: "double \<Rightarrow> bool" where
  "isnan NaN = True"
| "isnan _ = False"

fun dless :: "double \<Rightarrow> double \<Rightarrow> bool" where
  "dless NaN _ = False"
| "dless _ NaN = False"
| "dless (Fin a) (Fin b) = (a < b)"
| "dless NInf (Fin _) = True"
| "dless NInf PInf = True"
| "dless (Fin _) PInf = True"
| "dless _ _ = False"

fun fin_val :: "double \<Rightarrow> real" where
  "fin_val (Fin a) = a"
| "fin_val _ = 0"

text \<open>
  One pass through the loop body up to the two tests: the pixel drawn in view 1, the
  point on its refractive ray in both camera frames, the refractive projection into
  view 2, and the generator afterwards.
\<close>

definition candidate ::
  "'g Random \<Rightarrow> Models \<Rightarrow> Camera \<Rightarrow> Rigid3d \<Rightarrow> 'g \<Rightarrow> vec2 \<times> vec3 \<times> vec3 \<times> (double \<times> double) \<times> 'g"
where
  "candidate R M camera cam2_from_cam1 g =
     (let (x, g1) = RandomUniformReal R (1 / 2) (real (width camera) - 1 / 2) g;
          (y, g2) = RandomUniformReal R (1 / 2) (real (height camera) - 1 / 2) g1;
          ray_refrac = CamFromImgRefrac M camera (x, y);
          (d, g3) = RandomUniformReal R (1 / 2) 10 g2;
          point3D1 = At ray_refrac d;
          point3D2 = Rigid3d_apply cam2_from_cam1 point3D1
      in ((x, y), point3D1, point3D2, ImgFromCamRefrac M camera point3D2, g3))"

text \<open>The two tests that end a pass with \<^verbatim>\<open>continue\<close>.\<close>

definition rejected :: "Camera \<Rightarrow> double \<times> double \<Rightarrow> bool" where
  "rejected camera p \<longleftrightarrow>
     (isnan (fst p) \<or> isnan (snd p)) \<or>
     (dless (fst p) (Fin 0) \<or> dless (Fin (real (width camera))) (fst p) \<or>
      dless (snd p) (Fin 0) \<or> dless (Fin (real (height camera))) (snd p))"

text \<open>
  Eight draws of \<^verbatim>\<open>RandomGaussian(0.0, sigma)\<close>, one added to each coordinate, in the
  order of the source. The four points are \<open>point2D1\<close>, \<open>point2D1_refrac\<close>,
  \<open>point2D2\<close> and \<open>point2D2_refrac\<close>.
\<close>

definition add_noise ::
  "'g Random \<Rightarrow> real \<Rightarrow> vec2 \<times> vec2 \<times> vec2 \<times> vec2 \<Rightarrow> 'g \<Rightarrow> (vec2 \<times> vec2 \<times> vec2 \<times> vec2) \<times> 'g"
where
  "add_noise R sigma q g =
     (case q of (p1, p1r, p2, p2r) \<Rightarrow>
      let (n1, g1) = RandomGaussian R 0 sigma g;
          (n2, g2) = RandomGaussian R 0 sigma g1;
          (n3, g3) = RandomGaussian R 0 sigma g2;
          (n4, g4) = RandomGaussian R 0 sigma g3;
          (n5, g5) = RandomGaussian R 0 sigma g4;
          (n6, g6) = RandomGaussian R 0 sigma g5;
          (n7, g7) = RandomGaussian R 0 sigma g6;
          (n8, g8) = RandomGaussian R 0 sigma g7
      in (((fst p1 + n1, snd p1 + n2), (fst p1r + n3, snd p1r + n4),
           (fst p2 + n5, snd p2 + n6), (fst p2r + n7, snd p2r + n8)), g8))"

definition perturb ::
  "'g Random \<Rightarrow> real \<Rightarrow> nat \<Rightarrow> nat \<Rightarrow> vec2 \<times> vec2 \<times> vec2 \<times> vec2 \<Rightarrow> 'g \<Rightarrow>
     (vec2 \<times> vec2 \<times> vec2 \<times> vec2) \<times> 'g"
where
  "perturb R noise_level num_inliers cnt q g =
     (if cnt < num_inliers then (if 0 < noise_level then add_noise R noise_level q g else (q, g))
      else add_noise R 200 q g)"

text \<open>
  One pass through the loop body. Past both tests the refractive pixel of view 2 is
  finite (lemma \<open>not_rejected_finite\<close>), and \<open>fin_val\<close> reads it.
\<close>

datatype 'g trial = Rejected 'g | Failed error | Accepted "vec2 \<times> vec2 \<times> vec2 \<times> vec2" 'g

definition trial ::
  "'g Random \<Rightarrow> Models \<Rightarrow> Camera \<Rightarrow> Rigid3d \<Rightarrow> real \<Rightarrow> nat \<Rightarrow> nat \<Rightarrow> 'g \<Rightarrow> 'g trial"
where
  "trial R M camera cam2_from_cam1 noise_level num_inliers cnt g =
     (case candidate R M camera cam2_from_cam1 g of
        (point2D1_refrac, point3D1, point3D2, point2D2_refrac, g3) \<Rightarrow>
          if rejected camera point2D2_refrac then Rejected g3
          else
            (case hnormalized point3D1 of
               Inl e \<Rightarrow> Failed e
             | Inr h1 \<Rightarrow>
                 (case hnormalized point3D2 of
                    Inl e \<Rightarrow> Failed e
                  | Inr h2 \<Rightarrow>
                      (case perturb R noise_level num_inliers cnt
                              (ImgFromCam M camera h1, point2D1_refrac, ImgFromCam M camera h2,
                               (fin_val (fst point2D2_refrac), fin_val (snd point2D2_refrac))) g3
                       of (q, g4) \<Rightarrow> Accepted q g4))))"

definition push_points :: "vec2 \<times> vec2 \<times> vec2 \<times> vec2 \<Rightarrow> PointsData \<Rightarrow> PointsData" where
  "push_points q pd =
     (case q of (p1, p1r, p2, p2r) \<Rightarrow>
        pd\<lparr>points2D1 := points2D1 pd @ [p1], points2D2 := points2D2 pd @ [p2],
           points2D1_refrac := points2D1_refrac pd @ [p1r],
           points2D2_refrac := points2D2_refrac pd @ [p2r]\<rparr>)"

text \<open>
  The \<^verbatim>\<open>while (true)\<close> loop of \<^verbatim>\<open>GenerateRandom2D2DPoints\<close>. The only exit is
  \<^verbatim>\<open>cnt >= num_points\<close>; a loop that never reaches it is the value \<open>None\<close>.
\<close>

partial_function (option) sample_loop ::
  "'g Random \<Rightarrow> Models \<Rightarrow> Camera \<Rightarrow> nat \<Rightarrow> Rigid3d \<Rightarrow> real \<Rightarrow> nat \<Rightarrow> nat \<Rightarrow> PointsData \<Rightarrow> 'g \<Rightarrow>
     (error + PointsData \<times> 'g) option"
where
  "sample_loop R M camera num_points cam2_from_cam1 noise_level num_inliers cnt pd g =
     (if num_points \<le> cnt then Some (Inr (pd, g))
      else
        (case trial R M camera cam2_from_cam1 noise_level num_inliers cnt g of
           Rejected g' \<Rightarrow>
             sample_loop R M camera num_points cam2_from_cam1 noise_level num_inliers cnt pd g'
         | Failed e \<Rightarrow> Some (Inl e)
         | Accepted q g' \<Rightarrow>
             sample_loop R M camera num_points cam2_from_cam1 noise_level num_inliers (cnt + 1)
               (push_points q pd) g'))"

text \<open>
  The two calls of \<^verbatim>\<open>ComputeVirtuals\<close> after the loop: the vectors of virtual
  cameras and transforms of \<open>points_data\<close> are passed as they are.
\<close>

definition compute_all_virtuals :: "Models \<Rightarrow> Camera \<Rightarrow> PointsData \<Rightarrow> error + PointsData" where
  "compute_all_virtuals M camera pd =
     e_bind (ComputeVirtuals M camera (points2D1_refrac pd)
               (virtual_cameras1 pd, virtual_from_reals1 pd)) (\<lambda>(vc1, vfr1).
     e_bind (ComputeVirtuals M camera (points2D2_refrac pd)
               (virtual_cameras2 pd, virtual_from_reals2 pd)) (\<lambda>(vc2, vfr2).
       Inr (pd\<lparr>virtual_cameras1 := vc1, virtual_from_reals1 := vfr1,
                virtual_cameras2 := vc2, virtual_from_reals2 := vfr2\<rparr>)))"

text \<open>
  \<^verbatim>\<open>GenerateRandom2D2DPoints\<close>. The number of inliers is
  \<^verbatim>\<open>static_cast<size_t>(static_cast<double>(num_points) * inlier_ratio)\<close>: the
  conversion of \<open>num_points\<close> and the product are each rounded to the nearest double, and
  the cast to \<^verbatim>\<open>size_t\<close> truncates. The argument \<open>inlier_ratio\<close> is a double: a real
  that is not one stands for the double nearest to it, as a decimal literal does in C++.
  For a product of \<open>- 1\<close> or less, where the C++ cast is undefined, the model counts no
  inlier.
\<close>

definition GenerateRandom2D2DPoints ::
  "'g Random \<Rightarrow> Models \<Rightarrow> Camera \<Rightarrow> nat \<Rightarrow> Rigid3d \<Rightarrow> PointsData \<Rightarrow> real \<Rightarrow> real \<Rightarrow> 'g \<Rightarrow>
     (error + PointsData \<times> 'g) option"
where
  "GenerateRandom2D2DPoints R M camera num_points cam2_from_cam1 points_data noise_level
       inlier_ratio g =
     (let cleared = points_data\<lparr>points2D1 := [], points2D1_refrac := [], points2D2 := [],
                                points2D2_refrac := [], cam2_from_cam1_gt := cam2_from_cam1\<rparr>;
          num_inliers =
            nat \<lfloor>round_double (round_double (real num_points) * round_double inlier_ratio)\<rfloor>
      in case sample_loop R M camera num_points cam2_from_cam1 noise_level num_inliers 0 cleared g of
           None \<Rightarrow> None
         | Some (Inl e) \<Rightarrow> Some (Inl e)
         | Some (Inr (pd, g')) \<Rightarrow>
             Some (e_bind (compute_all_virtuals M camera pd) (\<lambda>pd'. Inr (pd', g'))))"

text \<open>
  For statements about runs of the loop: whether the pass that starts in generator
  state \<open>g\<close> gets past both tests, the generator state in which a rejected pass ends,
  and the effect of a sequence of pushes.
\<close>

definition passes :: "'g Random \<Rightarrow> Models \<Rightarrow> Camera \<Rightarrow> Rigid3d \<Rightarrow> 'g \<Rightarrow> bool" where
  "passes R M camera cam2_from_cam1 g =
     (case candidate R M camera cam2_from_cam1 g of
        (point2D1_refrac, point3D1, point3D2, point2D2_refrac, g3) \<Rightarrow>
          \<not> rejected camera point2D2_refrac)"

definition next_state :: "'g Random \<Rightarrow> Models \<Rightarrow> Camera \<Rightarrow> Rigid3d \<Rightarrow> 'g \<Rightarrow> 'g" where
  "next_state R M camera cam2_from_cam1 g =
     (case candidate R M camera cam2_from_cam1 g of
        (point2D1_refrac, point3D1, point3D2, point2D2_refrac, g3) \<Rightarrow> g3)"

fun push_all :: "(vec2 \<times> vec2 \<times> vec2 \<times> vec2) list \<Rightarrow> PointsData \<Rightarrow> PointsData" where
  "push_all [] pd = pd"
| "push_all (q # qs) pd = push_all qs (push_points q pd)"

section \<open>The evaluation harness: error computation\<close>

text \<open>
  The angle of \<^verbatim>\<open>Eigen::AngleAxisd(q)\<close>: twice \<^verbatim>\<open>atan2\<close> of the norm of the vector
  part and the absolute value of the scalar part, and zero when the vector part is zero.
\<close>

definition atan2 :: "real \<Rightarrow> real \<Rightarrow> real" where
  "atan2 y x =
     (if 0 < x then arctan (y / x)
      else if x < 0 then (if 0 \<le> y then arctan (y / x) + pi else arctan (y / x) - pi)
      else if 0 < y then pi / 2 else if y < 0 then - (pi / 2) else 0)"

definition AngleAxis_angle :: "Quaterniond \<Rightarrow> real" where
  "AngleAxis_angle q = (let n = vnorm (qvec q) in if n \<noteq> 0 then 2 * atan2 n \<bar>qw q\<bar> else 0)"

text \<open>
  Modelled from the spec: \<^verbatim>\<open>RadToDeg\<close> is declared in \<^verbatim>\<open>colmap/math/math.h\<close>, which
  is not among the sources; the specification reports rotation errors in degrees.
\<close>

definition RadToDeg :: "real \<Rightarrow> real" where
  "RadToDeg rad = rad * 180 / pi"

text \<open>\<^verbatim>\<open>acos\<close> answers NaN outside the interval from -1 to 1.\<close>

definition acos :: "real \<Rightarrow> double" where
  "acos x = (if - 1 \<le> x \<and> x \<le> 1 then Fin (arccos x) else NaN)"

fun RadToDeg_double :: "double \<Rightarrow> double" where
  "RadToDeg_double (Fin a) = Fin (RadToDeg a)"
| "RadToDeg_double d = d"

definition unit_translation :: "Rigid3d \<Rightarrow> Rigid3d" where
  "unit_translation t = t\<lparr>translation := normalize_vec (translation t)\<rparr>"

text \<open>
  \<^verbatim>\<open>RelativePoseError\<close>, of the first version of the harness in the sources: the
  rotation error, the angular error and the scale error it writes.
\<close>

definition RelativePoseError :: "Rigid3d \<Rightarrow> Rigid3d \<Rightarrow> bool \<Rightarrow> real \<times> double \<times> real" where
  "RelativePoseError gt est is_refractive =
     (let gt_norm = unit_translation gt;
          est_norm = unit_translation est;
          diff = Rigid3d_mul gt_norm (Inverse est_norm);
          rotation_error = RadToDeg (AngleAxis_angle (rotation diff));
          cos_theta0 = dot (translation gt_norm) (translation est_norm);
          cos_theta = (if cos_theta0 < 0 then - cos_theta0 else cos_theta0);
          angular_error = RadToDeg_double (acos cos_theta);
          scale_error =
            (if is_refractive then
               let baseline_est =
                     vnorm (qrotate (qinverse (rotation est))
                              (vneg (translation est)));
                   baseline_gt =
                     vnorm (qrotate (qinverse (rotation gt))
                              (vneg (translation gt)))
               in \<bar>baseline_gt - baseline_est\<bar>
             else 0)
      in (rotation_error, angular_error, scale_error))"

text \<open>
  \<^verbatim>\<open>PoseError\<close>, of the second version of the harness: the rotation error and the
  position error it writes.
\<close>

definition PoseError :: "Rigid3d \<Rightarrow> Rigid3d \<Rightarrow> bool \<Rightarrow> real \<times> real" where
  "PoseError gt est is_refractive =
     (if \<not> is_refractive then
        let gt_norm = unit_translation gt;
            diff = Rigid3d_mul gt_norm (Inverse est);
            rotation_error = RadToDeg (AngleAxis_angle (rotation diff));
            position_error =
              vnorm (vsub (translation (Inverse gt_norm))
                          (translation (Inverse est))) * 1000
        in (rotation_error, position_error)
      else
        let diff = Rigid3d_mul gt (Inverse est);
            rotation_error = RadToDeg (AngleAxis_angle (rotation diff));
            position_error =
              vnorm (vsub (translation (Inverse gt))
                          (translation (Inverse est))) * 1000
        in (rotation_error, position_error))"

text \<open>
  The body of the refractive loop of \<^verbatim>\<open>Evaluate\<close>, from the estimate that
  \<^verbatim>\<open>EstimateRelativePose\<close> returned (the estimator is an external collaborator) to the
  errors pushed onto the result vectors. In the second version the loop normalises the
  estimate's translation and calls \<^verbatim>\<open>PoseError\<close> with \<^verbatim>\<open>false\<close>; in the first it calls
  \<^verbatim>\<open>RelativePoseError\<close> with \<^verbatim>\<open>true\<close>.
\<close>

definition Evaluate_refractive_errors :: "Rigid3d \<Rightarrow> Rigid3d \<Rightarrow> real \<times> real" where
  "Evaluate_refractive_errors gt est_refrac =
     PoseError gt (unit_translation est_refrac) False"

definition Evaluate_refractive_errors_first :: "Rigid3d \<Rightarrow> Rigid3d \<Rightarrow> real \<times> double \<times> real" where
  "Evaluate_refractive_errors_first gt est_refrac =
     RelativePoseError gt est_refrac True"

text \<open>
  The centre of the second camera in the frame of the first: the translation of the
  inverse pose. Its norm is the baseline.
\<close>

definition camera_center :: "Rigid3d \<Rightarrow> vec3" where
  "camera_center cam2_from_cam1 = translation (Inverse cam2_from_cam1)"

section \<open>A concrete catalogue for the closed examples\<close>

text \<open>
  Modelled from the spec: the catalogue of concrete models is not among the sources.
  The closed examples below need one instance of it. \<open>reference_models\<close> holds the two
  pinhole variants as the sources use them (\<^verbatim>\<open>SIMPLE_PINHOLE\<close> with parameters
  \<open>f, cx, cy\<close> in \<^verbatim>\<open>Camera::VirtualCamera\<close>, \<^verbatim>\<open>PINHOLE\<close> with four parameters in the
  harness) and two refraction variants of eight parameters each. Its validators check
  the length only. Its refraction entries are stand-ins: the ray leaves the origin
  unbent along the intrinsic unprojection, a point projects through the intrinsic model
  (NaN when it lies in the plane of the camera), the axis is the first three
  refraction parameters, \<open>FromTwoVectors\<close> answers the identity and the line
  intersection answers the first origin. \<open>CSVToVector\<close> knows two strings. The model
  ids are arbitrary.
\<close>

definition pinhole_unproject :: "int \<Rightarrow> real list \<Rightarrow> vec2 \<Rightarrow> vec3" where
  "pinhole_unproject mid ps p =
     (if mid = 0 then ((fst p - ps ! 1) / ps ! 0, (snd p - ps ! 2) / ps ! 0, 1)
      else ((fst p - ps ! 2) / ps ! 0, (snd p - ps ! 3) / ps ! 1, 1))"

fun pinhole_project :: "int \<Rightarrow> real list \<Rightarrow> vec3 \<Rightarrow> vec2" where
  "pinhole_project mid ps (u, v, w) =
     (if mid = 0 then (ps ! 0 * (u / w) + ps ! 1, ps ! 0 * (v / w) + ps ! 2)
      else (ps ! 0 * (u / w) + ps ! 2, ps ! 1 * (v / w) + ps ! 3))"

fun pinhole_project_refrac :: "int \<Rightarrow> real list \<Rightarrow> vec3 \<Rightarrow> double \<times> double" where
  "pinhole_project_refrac mid ps (u, v, w) =
     (if w = 0 then (NaN, NaN)
      else (Fin (fst (pinhole_project mid ps (u, v, w))), Fin (snd (pinhole_project mid ps (u, v, w)))))"

definition reference_models :: Models where
  "reference_models =
     \<lparr>ExistsCameraModelWithId = (\<lambda>mid. mid = 0 \<or> mid = 1),
      ExistsCameraModelWithName = (\<lambda>n. n = ''SIMPLE_PINHOLE'' \<or> n = ''PINHOLE''),
      CameraModelNameToId = (\<lambda>n. if n = ''SIMPLE_PINHOLE'' then 0 else if n = ''PINHOLE'' then 1 else - 1),
      CameraModelNumParams = (\<lambda>mid. if mid = 0 then 3 else if mid = 1 then 4 else 0),
      CameraModelFocalLengthIdxs = (\<lambda>mid. if mid = 0 then [0] else if mid = 1 then [0, 1] else []),
      CameraModelPrincipalPointIdxs = (\<lambda>mid. if mid = 0 then [1, 2] else if mid = 1 then [2, 3] else []),
      CameraModelVerifyParams =
        (\<lambda>mid ps. length ps = (if mid = 0 then 3 else if mid = 1 then 4 else 0)),
      CameraModelCamFromImg = pinhole_unproject,
      CameraModelImgFromCam = pinhole_project,
      ExistsCameraRefracModelWithId = (\<lambda>rid. rid = 0 \<or> rid = 1),
      ExistsCameraRefracModelWithName = (\<lambda>n. n = ''FLATPORT'' \<or> n = ''DOMEPORT''),
      CameraRefracModelNameToId = (\<lambda>n. if n = ''FLATPORT'' then 0 else if n = ''DOMEPORT'' then 1 else - 1),
      CameraRefracModelNumParams = (\<lambda>rid. if rid = 0 \<or> rid = 1 then 8 else 0),
      CameraRefracModelVerifyParams = (\<lambda>rid ps. length ps = (if rid = 0 \<or> rid = 1 then 8 else 0)),
      CameraRefracModelRefractionAxis = (\<lambda>rid rps. (rps ! 0, rps ! 1, rps ! 2)),
      CameraRefracModelCamFromImg =
        (\<lambda>mid rid ps rps p. \<lparr>ori = (0, 0, 0), dir = pinhole_unproject mid ps p\<rparr>),
      CameraRefracModelImgFromCam = (\<lambda>mid rid ps rps x. pinhole_project_refrac mid ps x),
      CSVToVector = (\<lambda>s. if s = ''1,2,3'' then [1, 2, 3] else if s = ''1,2,3,4'' then [1, 2, 3, 4] else []),
      FromTwoVectors = (\<lambda>a b. \<lparr>qw = 1, qx = 0, qy = 0, qz = 0\<rparr>),
      IntersectLinesWithTolerance = (\<lambda>o1 d1 o2 d2. o1)\<rparr>"

text \<open>
  The camera of the harness's \<^verbatim>\<open>main\<close>, with round numbers: a \<^verbatim>\<open>PINHOLE\<close> camera
  behind a flat port whose normal is the optical axis.
\<close>

definition harness_camera :: Camera where
  "harness_camera =
     \<lparr>camera_id = kInvalidCameraId, model_id = 1, width = 1113, height = 835,
      prior_focal_length = False, refrac_model_id = 0,
      params = [340, 340, 556, 417], refrac_params = [0, 0, 1, 1 / 20, 1 / 50, 1, 38 / 25, 667 / 500]\<rparr>"

text \<open>
  More stand-ins for the closed examples: a generator whose state counts the draws,
  whose uniform draw is the midpoint of the interval and whose Gaussian draw lies one
  standard deviation above the mean; the pose that shifts by one unit along the x axis;
  a record of points with nothing in it; and a catalogue whose refractive projection
  has no solution anywhere.
\<close>

definition midpoint_random :: "nat Random" where
  "midpoint_random =
     \<lparr>RandomUniformReal = (\<lambda>lo hi g. ((lo + hi) / 2, Suc g)),
      RandomGaussian = (\<lambda>mean stddev g. (mean + stddev, Suc g))\<rparr>"

definition sideways_pose :: Rigid3d where
  "sideways_pose = \<lparr>rotation = \<lparr>qw = 1, qx = 0, qy = 0, qz = 0\<rparr>, translation = (1, 0, 0)\<rparr>"

definition empty_points :: PointsData where
  "empty_points =
     \<lparr>points2D1 = [], points2D1_refrac = [], points2D2 = [], points2D2_refrac = [],
      virtual_cameras1 = [], virtual_cameras2 = [], virtual_from_reals1 = [],
      virtual_from_reals2 = [], cam2_from_cam1_gt = sideways_pose\<rparr>"

definition blind_models :: Models where
  "blind_models =
     reference_models\<lparr>CameraRefracModelImgFromCam := (\<lambda>mid rid ps rps x. (NaN, NaN))\<rparr>"

text \<open>
  With these stand-ins every pass of the loop draws the same pixel and the same depth
  and is accepted, and every Gaussian draw is the standard deviation. \<open>midpoint_sample\<close>
  is what the pass with counter \<open>i\<close> stores: the four noise-free pixels, shifted in each
  coordinate by the standard deviation of the noise of that pass.
\<close>

definition midpoint_sample :: "real \<Rightarrow> nat \<Rightarrow> nat \<Rightarrow> vec2 \<times> vec2 \<times> vec2 \<times> vec2" where
  "midpoint_sample noise_level num_inliers i =
     (let s = (if i < num_inliers then (if 0 < noise_level then noise_level else 0) else 200)
      in ((1113 / 2 + s, 835 / 2 + s), (1113 / 2 + s, 835 / 2 + s),
          (26093 / 42 + s, 835 / 2 + s), (26093 / 42 + s, 835 / 2 + s)))"

text \<open>
  What the harness computes from these stand-ins: the two correspondences the loop
  collects for two points of which one is an inlier, the virtual camera and transform of
  either pixel, and the record after one call and after a second call on the same record.
\<close>

definition sampled_points :: PointsData where
  "sampled_points =
     empty_points\<lparr>points2D1 := [(1113 / 2, 835 / 2), (1513 / 2, 1235 / 2)],
                  points2D1_refrac := [(1113 / 2, 835 / 2), (1513 / 2, 1235 / 2)],
                  points2D2 := [(26093 / 42, 835 / 2), (34493 / 42, 1235 / 2)],
                  points2D2_refrac := [(26093 / 42, 835 / 2), (34493 / 42, 1235 / 2)]\<rparr>"

definition virtual_pinhole :: Camera where
  "virtual_pinhole =
     \<lparr>camera_id = kInvalidCameraId, model_id = 0, width = 1113, height = 835,
      prior_focal_length = False, refrac_model_id = kInvalidRefractiveCameraModelId,
      params = [340, 556, 417], refrac_params = []\<rparr>"

definition identity_transform :: Rigid3d where
  "identity_transform = \<lparr>rotation = \<lparr>qw = 1, qx = 0, qy = 0, qz = 0\<rparr>, translation = (0, 0, 0)\<rparr>"

definition generated_points :: PointsData where
  "generated_points =
     sampled_points\<lparr>virtual_cameras1 := [virtual_pinhole, virtual_pinhole],
                    virtual_from_reals1 := [identity_transform, identity_transform],
                    virtual_cameras2 := [virtual_pinhole, virtual_pinhole],
                    virtual_from_reals2 := [identity_transform, identity_transform]\<rparr>"

definition regenerated_points :: PointsData where
  "regenerated_points =
     sampled_points\<lparr>virtual_cameras1 := [virtual_pinhole, virtual_pinhole, virtual_pinhole, virtual_pinhole],
                    virtual_from_reals1 :=
                      [identity_transform, identity_transform, identity_transform, identity_transform],
                    virtual_cameras2 := [virtual_pinhole, virtual_pinhole, virtual_pinhole, virtual_pinhole],
                    virtual_from_reals2 :=
                      [identity_transform, identity_transform, identity_transform, identity_transform]\<rparr>"

text \<open>
  Further cameras and poses of the closed examples: the harness camera after its image
  was doubled in size; the same camera after it was switched to \<^verbatim>\<open>SIMPLE_PINHOLE\<close>,
  given the parameters 1, 2, 3 and doubled; a pose whose baseline is three units long;
  the harness camera with no refraction model selected, and a catalogue whose refraction
  dispatch is the one modelled from the specification.
\<close>

definition doubled_camera :: Camera where
  "doubled_camera = harness_camera\<lparr>width := 2226, height := 1670, params := [680, 680, 1112, 834]\<rparr>"

definition rescaled_simple_camera :: Camera where
  "rescaled_simple_camera =
     harness_camera\<lparr>model_id := 0, width := 2226, height := 1670, params := [2, 4, 6]\<rparr>"

definition farther_pose :: Rigid3d where
  "farther_pose = \<lparr>rotation = \<lparr>qw = 1, qx = 0, qy = 0, qz = 0\<rparr>, translation = (3, 0, 0)\<rparr>"

definition in_air_camera :: Camera where
  "in_air_camera =
     harness_camera\<lparr>refrac_model_id := kInvalidRefractiveCameraModelId, refrac_params := []\<rparr>"

definition in_air_models :: Models where
  "in_air_models =
     spec_refraction reference_models (\<lambda>rid rps d. \<lparr>ori = (0, 0, 0), dir = d\<rparr>)
       (\<lambda>mid rid ps rps x. (NaN, NaN))"

text \<open>
  For the rotation into the virtual frame: the reference catalogue with Eigen's
  \<^verbatim>\<open>FromTwoVectors\<close>, whose decomposition answers the x axis; a camera whose refraction
  axis is tilted away from the optical axis and one whose refraction axis points
  backwards; and the virtual camera of the principal point of the tilted camera.
\<close>

definition aligning_models :: Models where
  "aligning_models = reference_models\<lparr>FromTwoVectors := setFromTwoVectors (\<lambda>v0 v1. (1, 0, 0))\<rparr>"

definition tilted_camera :: Camera where
  "tilted_camera =
     harness_camera\<lparr>refrac_params := [0, 24 / 25, 7 / 25, 1 / 20, 1 / 50, 1, 38 / 25, 667 / 500]\<rparr>"

definition reversed_camera :: Camera where
  "reversed_camera =
     harness_camera\<lparr>refrac_params := [0, 0, - 1, 1 / 20, 1 / 50, 1, 38 / 25, 667 / 500]\<rparr>"

definition tilted_virtual_camera :: Camera where
  "tilted_virtual_camera =
     \<lparr>camera_id = kInvalidCameraId, model_id = 0, width = 1113, height = 835,
      prior_focal_length = False, refrac_model_id = kInvalidRefractiveCameraModelId,
      params = [340, 556, 11079 / 7], refrac_params = []\<rparr>"

section \<open>Parameter assignment is validated\<close>

text \<open>
  Claim C4. Assigning parameters, from a string (\<open>SetParamsFromString\<close>,
  \<open>SetRefracParamsFromString\<close>) or from a vector (\<open>SetParams\<close>, \<open>SetRefracParams\<close>),
  succeeds only if the selected variant's validator accepts the vector. When the
  validator rejects it, the call returns false and the camera is unchanged; when it
  accepts, the call returns true and only the assigned vector has changed. Each of the
  four is a total function: there is no failure value in its result, so no input makes
  it crash. The two string versions are the code of \<^verbatim>\<open>camera.cc\<close>; the two vector
  versions are modelled from the specification.
\<close>

theorem assign_params_validated:
  "(fst (SetParamsFromString M s c) \<longrightarrow> CameraModelVerifyParams M (model_id c) (CSVToVector M s)) \<and>
   (\<not> CameraModelVerifyParams M (model_id c) (CSVToVector M s) \<longrightarrow>
      SetParamsFromString M s c = (False, c)) \<and>
   (CameraModelVerifyParams M (model_id c) (CSVToVector M s) \<longrightarrow>
      SetParamsFromString M s c = (True, c\<lparr>params := CSVToVector M s\<rparr>)) \<and>
   (fst (SetRefracParamsFromString M s c) \<longrightarrow>
      CameraRefracModelVerifyParams M (refrac_model_id c) (CSVToVector M s)) \<and>
   (\<not> CameraRefracModelVerifyParams M (refrac_model_id c) (CSVToVector M s) \<longrightarrow>
      SetRefracParamsFromString M s c = (False, c)) \<and>
   (CameraRefracModelVerifyParams M (refrac_model_id c) (CSVToVector M s) \<longrightarrow>
      SetRefracParamsFromString M s c = (True, c\<lparr>refrac_params := CSVToVector M s\<rparr>)) \<and>
   (fst (SetParams M ps c) \<longrightarrow> CameraModelVerifyParams M (model_id c) ps) \<and>
   (\<not> CameraModelVerifyParams M (model_id c) ps \<longrightarrow> SetParams M ps c = (False, c)) \<and>
   (CameraModelVerifyParams M (model_id c) ps \<longrightarrow> SetParams M ps c = (True, c\<lparr>params := ps\<rparr>)) \<and>
   (fst (SetRefracParams M ps c) \<longrightarrow> CameraRefracModelVerifyParams M (refrac_model_id c) ps) \<and>
   (\<not> CameraRefracModelVerifyParams M (refrac_model_id c) ps \<longrightarrow> SetRefracParams M ps c = (False, c)) \<and>
   (CameraRefracModelVerifyParams M (refrac_model_id c) ps \<longrightarrow>
      SetRefracParams M ps c = (True, c\<lparr>refrac_params := ps\<rparr>))"
  by (simp add: SetParamsFromString_def SetRefracParamsFromString_def SetParams_def
      SetRefracParams_def Let_def)

theorem assign_params_validated_witness:
  "\<not> CameraModelVerifyParams reference_models (model_id harness_camera)
       (CSVToVector reference_models ''1,2,3'') \<and>
   SetParamsFromString reference_models ''1,2,3'' harness_camera = (False, harness_camera) \<and>
   CameraModelVerifyParams reference_models (model_id harness_camera)
       (CSVToVector reference_models ''1,2,3,4'') \<and>
   SetParamsFromString reference_models ''1,2,3,4'' harness_camera =
     (True, harness_camera\<lparr>params := [1, 2, 3, 4]\<rparr>) \<and>
   \<not> CameraRefracModelVerifyParams reference_models (refrac_model_id harness_camera) [1, 2] \<and>
   SetRefracParams reference_models [1, 2] harness_camera = (False, harness_camera)"
proof -
  have rej: "\<not> CameraModelVerifyParams reference_models (model_id harness_camera)
       (CSVToVector reference_models ''1,2,3'')"
    by (simp add: reference_models_def harness_camera_def)
  have acc: "CameraModelVerifyParams reference_models (model_id harness_camera)
       (CSVToVector reference_models ''1,2,3,4'')"
    by (simp add: reference_models_def harness_camera_def)
  have csv: "CSVToVector reference_models ''1,2,3,4'' = [1, 2, 3, 4]"
    by (simp add: reference_models_def)
  have rrej: "\<not> CameraRefracModelVerifyParams reference_models (refrac_model_id harness_camera) [1, 2]"
    by (simp add: reference_models_def harness_camera_def)
  note t1 = assign_params_validated [of reference_models "''1,2,3''" harness_camera "[1, 2]"]
  note t2 = assign_params_validated [of reference_models "''1,2,3,4''" harness_camera "[1, 2]"]
  have a: "SetParamsFromString reference_models ''1,2,3'' harness_camera = (False, harness_camera)"
    using t1 rej by blast
  have b: "SetParamsFromString reference_models ''1,2,3,4'' harness_camera =
      (True, harness_camera\<lparr>params := CSVToVector reference_models ''1,2,3,4''\<rparr>)"
    using t2 acc by blast
  have c: "SetRefracParams reference_models [1, 2] harness_camera = (False, harness_camera)"
    using t1 rrej by blast
  show ?thesis
    using rej acc rrej a b c unfolding csv by blast
qed

section \<open>Basic facts\<close>

lemma e_bind_Inr: "e_bind m f = Inr y \<longleftrightarrow> (\<exists>x. m = Inr x \<and> f x = Inr y)"
  by (cases m) (simp_all add: e_bind_def)

lemma elem_Inr: "elem xs i = Inr v \<longleftrightarrow> i < length xs \<and> v = xs ! i"
  by (auto simp: elem_def)

lemma store_Inr: "store xs i v = Inr ys \<longleftrightarrow> i < length xs \<and> ys = xs[i := v]"
  by (auto simp: store_def)

lemma set_param_Inr:
  "set_param i v c = Inr c' \<longleftrightarrow> i < length (params c) \<and> c' = c\<lparr>params := (params c)[i := v]\<rparr>"
  by (auto simp: set_param_def e_bind_Inr store_Inr)

lemma idxs_params_update:
  "PrincipalPointIdxs M (c\<lparr>params := ps\<rparr>) = PrincipalPointIdxs M c"
  "FocalLengthIdxs M (c\<lparr>params := ps\<rparr>) = FocalLengthIdxs M c"
  "PrincipalPointIdxs M (c\<lparr>width := w, height := h\<rparr>) = PrincipalPointIdxs M c"
  "FocalLengthIdxs M (c\<lparr>width := w, height := h\<rparr>) = FocalLengthIdxs M c"
  by (simp_all add: PrincipalPointIdxs_def FocalLengthIdxs_def)

lemma length_twoE:
  assumes "length xs = 2"
  obtains a b where "xs = [a, b]"
proof (cases xs)
  case Nil
  with assms show ?thesis by simp
next
  case (Cons a ys)
  with assms have "length ys = 1" by simp
  then obtain b where "ys = [b]" by (cases ys) auto
  with Cons that show ?thesis by simp
qed

lemma length_oneE:
  assumes "length xs = 1"
  obtains a where "xs = [a]"
  using assms by (cases xs) auto

section \<open>Rescale\<close>

text \<open>What the shared tail of the two overloads does to the parameter vector.\<close>

lemma rescale_params_Inr:
  assumes "rescale_params M sx sy c = Inr c'"
  shows "\<exists>a b ps2 ps3. PrincipalPointIdxs M c = [a, b] \<and> a < length (params c) \<and>
      b < length (params c) \<and>
      ps2 = ((params c)[a := sx * params c ! a])[b := sy * ((params c)[a := sx * params c ! a]) ! b] \<and>
      c' = c\<lparr>params := ps3\<rparr> \<and>
      ((\<exists>f. FocalLengthIdxs M c = [f] \<and> f < length (params c) \<and>
            ps3 = ps2[f := (sx + sy) / 2 * ps2 ! f]) \<or>
       (\<exists>fx fy. FocalLengthIdxs M c = [fx, fy] \<and> fx < length (params c) \<and> fy < length (params c) \<and>
            ps3 = (ps2[fx := sx * ps2 ! fx])[fy := sy * (ps2[fx := sx * ps2 ! fx]) ! fy]))"
proof -
  obtain ppx where s1: "PrincipalPointX M c = Inr ppx"
    using assms by (cases "PrincipalPointX M c") (simp_all add: rescale_params_def e_bind_def)
  obtain c1 where s2: "SetPrincipalPointX M (sx * ppx) c = Inr c1"
    using assms s1
    by (cases "SetPrincipalPointX M (sx * ppx) c") (simp_all add: rescale_params_def e_bind_def)
  obtain ppy where s3: "PrincipalPointY M c1 = Inr ppy"
    using assms s1 s2
    by (cases "PrincipalPointY M c1") (simp_all add: rescale_params_def e_bind_def)
  obtain c2 where s4: "SetPrincipalPointY M (sy * ppy) c1 = Inr c2"
    using assms s1 s2 s3
    by (cases "SetPrincipalPointY M (sy * ppy) c1") (simp_all add: rescale_params_def e_bind_def)
  have rest: "(if length (FocalLengthIdxs M c2) = 1 then
         e_bind (FocalLength M c2) (\<lambda>f. SetFocalLength M ((sx + sy) / 2 * f) c2)
       else if length (FocalLengthIdxs M c2) = 2 then
         e_bind (FocalLengthX M c2) (\<lambda>fx.
         e_bind (SetFocalLengthX M (sx * fx) c2) (\<lambda>c3.
         e_bind (FocalLengthY M c3) (\<lambda>fy.
           SetFocalLengthY M (sy * fy) c3)))
       else Inl LogFatal) = Inr c'"
    using assms by (simp add: rescale_params_def s1 s2 s3 s4 e_bind_def)
  note s = s1 s2 s3 s4
  have "length (PrincipalPointIdxs M c) = 2"
  proof (rule ccontr)
    assume "length (PrincipalPointIdxs M c) \<noteq> 2"
    then have "PrincipalPointX M c = Inl CheckFailed" by (simp add: PrincipalPointX_def)
    with s1 show False by simp
  qed
  then obtain a b where ab: "PrincipalPointIdxs M c = [a, b]" by (rule length_twoE)
  have px: "PrincipalPointX M c = elem (params c) a"
    by (simp add: PrincipalPointX_def ab)
  from s1 have a: "a < length (params c)" and ppx: "ppx = params c ! a"
    by (simp_all add: px elem_Inr)
  have "SetPrincipalPointX M (sx * ppx) c = set_param a (sx * ppx) c"
    by (simp add: SetPrincipalPointX_def ab)
  with s2 have "set_param a (sx * ppx) c = Inr c1" by simp
  then have c1: "c1 = c\<lparr>params := (params c)[a := sx * params c ! a]\<rparr>"
    by (simp add: set_param_Inr ppx)
  let ?ps1 = "(params c)[a := sx * params c ! a]"
  have ps1: "params c1 = ?ps1" by (simp add: c1)
  have pp1: "PrincipalPointIdxs M c1 = [a, b]" by (simp add: c1 idxs_params_update ab)
  have py: "PrincipalPointY M c1 = elem ?ps1 b"
    by (simp add: PrincipalPointY_def pp1 ps1)
  from s3 have b: "b < length (params c)" and ppy: "ppy = ?ps1 ! b"
    by (simp_all add: py elem_Inr)
  let ?ps2 = "?ps1[b := sy * ?ps1 ! b]"
  have "SetPrincipalPointY M (sy * ppy) c1 = set_param b (sy * ppy) c1"
    by (simp add: SetPrincipalPointY_def pp1)
  with s4 have "set_param b (sy * ppy) c1 = Inr c2" by simp
  then have "c2 = c1\<lparr>params := (params c1)[b := sy * ppy]\<rparr>"
    by (simp add: set_param_Inr)
  then have c2: "c2 = c\<lparr>params := ?ps2\<rparr>"
    unfolding ps1 ppy by (simp add: c1)
  have fi: "FocalLengthIdxs M c2 = FocalLengthIdxs M c"
    by (simp add: c2 idxs_params_update)
  have ps2: "params c2 = ?ps2" by (simp add: c2)
  show ?thesis
  proof (cases "length (FocalLengthIdxs M c) = 1")
    case True
    then obtain f where f: "FocalLengthIdxs M c = [f]" by (rule length_oneE)
    from rest True fi obtain fv where
      fv: "FocalLength M c2 = Inr fv" "SetFocalLength M ((sx + sy) / 2 * fv) c2 = Inr c'"
      by (auto simp: e_bind_Inr)
    from fv(1) f fi ps2 have fr: "f < length (params c)" "fv = ?ps2 ! f"
      by (auto simp: FocalLength_def elem_Inr)
    from fv(2) f fi fr ps2 have "c' = c2\<lparr>params := ?ps2[f := (sx + sy) / 2 * ?ps2 ! f]\<rparr>"
      by (auto simp: SetFocalLength_def e_bind_Inr store_Inr)
    then have "c' = c\<lparr>params := ?ps2[f := (sx + sy) / 2 * ?ps2 ! f]\<rparr>"
      by (simp add: c2)
    with ab a b f fr(1) show ?thesis by blast
  next
    case False
    with rest fi have two: "length (FocalLengthIdxs M c) = 2"
      by (auto split: if_splits)
    then obtain fx fy where f: "FocalLengthIdxs M c = [fx, fy]" by (rule length_twoE)
    from rest False two fi obtain vx c3 vy where
      r: "FocalLengthX M c2 = Inr vx" "SetFocalLengthX M (sx * vx) c2 = Inr c3"
         "FocalLengthY M c3 = Inr vy" "SetFocalLengthY M (sy * vy) c3 = Inr c'"
      by (auto simp: e_bind_Inr)
    from r(1) f fi ps2 have x: "fx < length (params c)" "vx = ?ps2 ! fx"
      by (auto simp: FocalLengthX_def elem_Inr)
    from r(2) f fi x ps2 have c3: "c3 = c\<lparr>params := ?ps2[fx := sx * ?ps2 ! fx]\<rparr>"
      by (auto simp: SetFocalLengthX_def set_param_Inr c2)
    from r(3) f c3 have y: "fy < length (params c)" "vy = (?ps2[fx := sx * ?ps2 ! fx]) ! fy"
      by (auto simp: FocalLengthY_def elem_Inr idxs_params_update)
    from r(4) f c3 y have
      "c' = c\<lparr>params := (?ps2[fx := sx * ?ps2 ! fx])[fy := sy * (?ps2[fx := sx * ?ps2 ! fx]) ! fy]\<rparr>"
      by (auto simp: SetFocalLengthY_def set_param_Inr idxs_params_update)
    with ab a b f x(1) y(1) show ?thesis by blast
  qed
qed


lemma rescale_params_frame:
  assumes "rescale_params M sx sy c = Inr c'"
  shows "model_id c' = model_id c \<and> refrac_model_id c' = refrac_model_id c \<and>
     refrac_params c' = refrac_params c \<and> camera_id c' = camera_id c \<and>
     prior_focal_length c' = prior_focal_length c \<and> width c' = width c \<and> height c' = height c \<and>
     length (params c') = length (params c) \<and>
     (\<forall>i. i \<notin> set (PrincipalPointIdxs M c) \<union> set (FocalLengthIdxs M c) \<longrightarrow>
        params c' ! i = params c ! i)"
proof -
  from rescale_params_Inr [OF assms] obtain a b ps2 ps3 where r:
    "PrincipalPointIdxs M c = [a, b]" "a < length (params c)" "b < length (params c)"
    "ps2 = ((params c)[a := sx * params c ! a])[b := sy * ((params c)[a := sx * params c ! a]) ! b]"
    "c' = c\<lparr>params := ps3\<rparr>"
    "(\<exists>f. FocalLengthIdxs M c = [f] \<and> f < length (params c) \<and>
            ps3 = ps2[f := (sx + sy) / 2 * ps2 ! f]) \<or>
     (\<exists>fx fy. FocalLengthIdxs M c = [fx, fy] \<and> fx < length (params c) \<and> fy < length (params c) \<and>
            ps3 = (ps2[fx := sx * ps2 ! fx])[fy := sy * (ps2[fx := sx * ps2 ! fx]) ! fy])"
    by blast
  from r(4,6) have len: "length ps3 = length (params c)" by auto
  have keep: "ps3 ! i = params c ! i"
    if "i \<notin> set (PrincipalPointIdxs M c) \<union> set (FocalLengthIdxs M c)" for i
    using that r(1,4,6) by auto
  from r(5) len keep show ?thesis by simp
qed

lemma rescale_params_values:
  assumes "rescale_params M sx sy c = Inr c'"
    and d: "distinct (PrincipalPointIdxs M c @ FocalLengthIdxs M c)"
  shows "params_scaled M sx sy c c'"
proof -
  from rescale_params_Inr [OF assms(1)] obtain a b ps2 ps3 where r:
    "PrincipalPointIdxs M c = [a, b]" "a < length (params c)" "b < length (params c)"
    "ps2 = ((params c)[a := sx * params c ! a])[b := sy * ((params c)[a := sx * params c ! a]) ! b]"
    "c' = c\<lparr>params := ps3\<rparr>"
    "(\<exists>f. FocalLengthIdxs M c = [f] \<and> f < length (params c) \<and>
            ps3 = ps2[f := (sx + sy) / 2 * ps2 ! f]) \<or>
     (\<exists>fx fy. FocalLengthIdxs M c = [fx, fy] \<and> fx < length (params c) \<and> fy < length (params c) \<and>
            ps3 = (ps2[fx := sx * ps2 ! fx])[fy := sy * (ps2[fx := sx * ps2 ! fx]) ! fy])"
    by blast
  have pi: "PrincipalPointIdxs M c' = [a, b]" and fi: "FocalLengthIdxs M c' = FocalLengthIdxs M c"
    and ps: "params c' = ps3"
    by (simp_all add: r(5) idxs_params_update r(1))
  from r(6) show ?thesis
  proof
    assume "\<exists>f. FocalLengthIdxs M c = [f] \<and> f < length (params c) \<and>
            ps3 = ps2[f := (sx + sy) / 2 * ps2 ! f]"
    then obtain f where f: "FocalLengthIdxs M c = [f]" "f < length (params c)"
      "ps3 = ps2[f := (sx + sy) / 2 * ps2 ! f]" by blast
    from d r(1) f(1) have ne: "a \<noteq> b" "a \<noteq> f" "b \<noteq> f" by auto
    from ne r(2,3,4) f(2,3) have v: "ps3 ! a = sx * params c ! a" "ps3 ! b = sy * params c ! b"
      "ps3 ! f = (sx + sy) / 2 * params c ! f" "length ps3 = length (params c)"
      by simp_all
    show ?thesis
      unfolding params_scaled_def PrincipalPointX_def PrincipalPointY_def FocalLength_def
        FocalLengthX_def FocalLengthY_def pi fi ps r(1) f(1) Let_def
      using r(2,3) f(2) v by (simp add: elem_def e_bind_def)
  next
    assume "\<exists>fx fy. FocalLengthIdxs M c = [fx, fy] \<and> fx < length (params c) \<and> fy < length (params c) \<and>
            ps3 = (ps2[fx := sx * ps2 ! fx])[fy := sy * (ps2[fx := sx * ps2 ! fx]) ! fy]"
    then obtain fx fy where f: "FocalLengthIdxs M c = [fx, fy]" "fx < length (params c)"
      "fy < length (params c)"
      "ps3 = (ps2[fx := sx * ps2 ! fx])[fy := sy * (ps2[fx := sx * ps2 ! fx]) ! fy]" by blast
    from d r(1) f(1) have ne: "a \<noteq> b" "a \<noteq> fx" "a \<noteq> fy" "b \<noteq> fx" "b \<noteq> fy" "fx \<noteq> fy"
      by auto
    from ne r(2,3,4) f(2,3,4) have v: "ps3 ! a = sx * params c ! a" "ps3 ! b = sy * params c ! b"
      "ps3 ! fx = sx * params c ! fx" "ps3 ! fy = sy * params c ! fy"
      "length ps3 = length (params c)"
      by simp_all
    show ?thesis
      unfolding params_scaled_def PrincipalPointX_def PrincipalPointY_def FocalLength_def
        FocalLengthX_def FocalLengthY_def pi fi ps r(1) f(1) Let_def
      using r(2,3) f(2,3) v by (simp add: elem_def e_bind_def)
  qed
qed

lemma rescale_params_returns:
  assumes "well_indexed M c"
  shows "\<exists>c'. rescale_params M sx sy c = Inr c'"
proof -
  from assms obtain a b where ab: "PrincipalPointIdxs M c = [a, b]"
    unfolding well_indexed_def by (metis length_twoE)
  from assms ab have r: "a < length (params c)" "b < length (params c)"
    by (simp_all add: well_indexed_def)
  from assms have "length (FocalLengthIdxs M c) = 1 \<or> length (FocalLengthIdxs M c) = 2"
    by (simp add: well_indexed_def)
  then show ?thesis
  proof
    assume "length (FocalLengthIdxs M c) = 1"
    then obtain f where f: "FocalLengthIdxs M c = [f]" by (rule length_oneE)
    with assms have "f < length (params c)" by (simp add: well_indexed_def)
    with ab r f show ?thesis
      by (simp add: rescale_params_def PrincipalPointX_def PrincipalPointY_def
          SetPrincipalPointX_def SetPrincipalPointY_def FocalLength_def SetFocalLength_def
          set_param_def e_bind_def elem_def store_def idxs_params_update
          PrincipalPointIdxs_def FocalLengthIdxs_def)
  next
    assume "length (FocalLengthIdxs M c) = 2"
    then obtain fx fy where f: "FocalLengthIdxs M c = [fx, fy]" by (rule length_twoE)
    with assms have "fx < length (params c)" "fy < length (params c)"
      by (simp_all add: well_indexed_def)
    with ab r f show ?thesis
      by (simp add: rescale_params_def PrincipalPointX_def PrincipalPointY_def
          SetPrincipalPointX_def SetPrincipalPointY_def FocalLengthX_def FocalLengthY_def
          SetFocalLengthX_def SetFocalLengthY_def
          set_param_def e_bind_def elem_def store_def
          PrincipalPointIdxs_def FocalLengthIdxs_def)
  qed
qed

lemma accessors_width_height:
  "PrincipalPointX M (c\<lparr>width := w, height := h\<rparr>) = PrincipalPointX M c"
  "PrincipalPointY M (c\<lparr>width := w, height := h\<rparr>) = PrincipalPointY M c"
  "FocalLength M (c\<lparr>width := w, height := h\<rparr>) = FocalLength M c"
  "FocalLengthX M (c\<lparr>width := w, height := h\<rparr>) = FocalLengthX M c"
  "FocalLengthY M (c\<lparr>width := w, height := h\<rparr>) = FocalLengthY M c"
  by (simp_all add: PrincipalPointX_def PrincipalPointY_def FocalLength_def FocalLengthX_def
      FocalLengthY_def idxs_params_update Let_def)

lemma params_scaled_width_height:
  "params_scaled M sx sy (c\<lparr>width := w, height := h\<rparr>) c' = params_scaled M sx sy c c'"
  by (simp add: params_scaled_def accessors_width_height idxs_params_update)

lemma well_indexed_width_height:
  "well_indexed M (c\<lparr>width := w, height := h\<rparr>) = well_indexed M c"
  by (simp add: well_indexed_def idxs_params_update)

lemma cround_nonneg: "0 \<le> x \<Longrightarrow> 0 \<le> cround x"
  by (simp add: cround_def)

lemma Rescale_Inr:
  assumes "Rescale M scale c = Inr c'"
  shows "0 < scale \<and> 0 < width c \<and> 0 < height c \<and>
     rescale_params M (real_of_int (cround (scale * real (width c))) / real (width c))
       (real_of_int (cround (scale * real (height c))) / real (height c))
       (c\<lparr>width := nat (cround (scale * real (width c))),
          height := nat (cround (scale * real (height c)))\<rparr>) = Inr c'"
  using assms by (simp add: Rescale_def Let_def split: if_splits)

lemma Rescale_to_Inr:
  assumes "Rescale_to M w h c = Inr c'"
  shows "0 < width c \<and> 0 < height c \<and>
     rescale_params M (real w / real (width c)) (real h / real (height c))
       (c\<lparr>width := w, height := h\<rparr>) = Inr c'"
  using assms by (simp add: Rescale_to_def Let_def split: if_splits)

lemma Rescale_keeps:
  assumes "Rescale M scale c = Inr c' \<or> Rescale_to M w h c = Inr c'"
  shows "model_id c' = model_id c \<and> refrac_model_id c' = refrac_model_id c \<and>
     refrac_params c' = refrac_params c \<and> camera_id c' = camera_id c \<and>
     prior_focal_length c' = prior_focal_length c \<and> length (params c') = length (params c) \<and>
     (\<forall>i. i \<notin> set (PrincipalPointIdxs M c) \<union> set (FocalLengthIdxs M c) \<longrightarrow>
        params c' ! i = params c ! i)"
  using assms
proof
  assume "Rescale M scale c = Inr c'"
  from rescale_params_frame [OF Rescale_Inr [OF this, THEN conjunct2, THEN conjunct2, THEN conjunct2]]
  show ?thesis by (simp add: idxs_params_update)
next
  assume "Rescale_to M w h c = Inr c'"
  from rescale_params_frame [OF Rescale_to_Inr [OF this, THEN conjunct2, THEN conjunct2]]
  show ?thesis by (simp add: idxs_params_update)
qed

text \<open>
  Claim C9. Whenever \<open>Rescale\<close> (by a factor) or \<open>Rescale_to\<close> (to a new width and
  height) returns, the camera differs from the one before only in its width, its height
  and the entries of the intrinsic parameter vector at the principal point and focal
  length indices: the intrinsic model, the refraction model, the whole refraction
  parameter vector, the camera id, the focal length prior, the length of the intrinsic
  vector and every other entry of it are unchanged. The new width and height are the
  rounded products (or the requested sizes). Where the principal point and focal length
  indices are all different, the principal point is scaled by the ratios of new to old
  width and height, two focal lengths by the same two ratios, and a single focal length
  by the mean of the two. Both calls return for a camera with positive width and height
  whose index lists are well formed (and, for the factor, a positive factor).
\<close>

theorem Rescale_frame:
  "(Rescale M scale c = Inr c' \<or> Rescale_to M new_width new_height c = Inr c' \<longrightarrow>
      model_id c' = model_id c \<and> refrac_model_id c' = refrac_model_id c \<and>
      refrac_params c' = refrac_params c \<and> camera_id c' = camera_id c \<and>
      prior_focal_length c' = prior_focal_length c \<and> length (params c') = length (params c) \<and>
      (\<forall>i. i \<notin> set (PrincipalPointIdxs M c) \<union> set (FocalLengthIdxs M c) \<longrightarrow>
         params c' ! i = params c ! i)) \<and>
   (Rescale M scale c = Inr c' \<longrightarrow>
      width c' = nat (cround (scale * real (width c))) \<and>
      height c' = nat (cround (scale * real (height c))) \<and>
      (distinct (PrincipalPointIdxs M c @ FocalLengthIdxs M c) \<longrightarrow>
         params_scaled M (real (width c') / real (width c)) (real (height c') / real (height c)) c c')) \<and>
   (Rescale_to M new_width new_height c = Inr c' \<longrightarrow>
      width c' = new_width \<and> height c' = new_height \<and>
      (distinct (PrincipalPointIdxs M c @ FocalLengthIdxs M c) \<longrightarrow>
         params_scaled M (real new_width / real (width c)) (real new_height / real (height c)) c c')) \<and>
   (well_indexed M c \<and> 0 < width c \<and> 0 < height c \<longrightarrow>
      (0 < scale \<longrightarrow> (\<exists>c'. Rescale M scale c = Inr c')) \<and>
      (\<exists>c'. Rescale_to M new_width new_height c = Inr c'))"
proof (intro conjI impI)
  assume "Rescale M scale c = Inr c' \<or> Rescale_to M new_width new_height c = Inr c'"
  from Rescale_keeps [OF this]
  show "model_id c' = model_id c" "refrac_model_id c' = refrac_model_id c"
    "refrac_params c' = refrac_params c" "camera_id c' = camera_id c"
    "prior_focal_length c' = prior_focal_length c" "length (params c') = length (params c)"
    "\<forall>i. i \<notin> set (PrincipalPointIdxs M c) \<union> set (FocalLengthIdxs M c) \<longrightarrow>
         params c' ! i = params c ! i"
    by simp_all
next
  assume r: "Rescale M scale c = Inr c'"
  note p = Rescale_Inr [OF r]
  from p have rp: "rescale_params M (real_of_int (cround (scale * real (width c))) / real (width c))
       (real_of_int (cround (scale * real (height c))) / real (height c))
       (c\<lparr>width := nat (cround (scale * real (width c))),
          height := nat (cround (scale * real (height c)))\<rparr>) = Inr c'" by simp
  from rescale_params_frame [OF rp]
  show w: "width c' = nat (cround (scale * real (width c)))"
    and h: "height c' = nat (cround (scale * real (height c)))" by simp_all
  assume d: "distinct (PrincipalPointIdxs M c @ FocalLengthIdxs M c)"
  from p have "0 \<le> scale * real (width c)" "0 \<le> scale * real (height c)" by simp_all
  then have "0 \<le> cround (scale * real (width c))" "0 \<le> cround (scale * real (height c))"
    by (simp_all add: cround_nonneg)
  then have e: "real (width c') = real_of_int (cround (scale * real (width c)))"
    "real (height c') = real_of_int (cround (scale * real (height c)))"
    unfolding w h by simp_all
  from rescale_params_values [OF rp] d
  show "params_scaled M (real (width c') / real (width c)) (real (height c') / real (height c)) c c'"
    unfolding e by (simp add: idxs_params_update params_scaled_width_height)
next
  assume r: "Rescale_to M new_width new_height c = Inr c'"
  from Rescale_to_Inr [OF r] have rp: "rescale_params M (real new_width / real (width c))
       (real new_height / real (height c)) (c\<lparr>width := new_width, height := new_height\<rparr>) = Inr c'"
    by simp
  from rescale_params_frame [OF rp] show "width c' = new_width" "height c' = new_height"
    by simp_all
  assume d: "distinct (PrincipalPointIdxs M c @ FocalLengthIdxs M c)"
  from rescale_params_values [OF rp] d
  show "params_scaled M (real new_width / real (width c)) (real new_height / real (height c)) c c'"
    by (simp add: idxs_params_update params_scaled_width_height)
next
  assume a: "well_indexed M c \<and> 0 < width c \<and> 0 < height c"
  then have wi: "well_indexed M (c\<lparr>width := w, height := h\<rparr>)" for w h
    by (simp add: well_indexed_width_height)
  {
    assume s: "0 < scale"
    from rescale_params_returns [OF wi] a s show "\<exists>c'. Rescale M scale c = Inr c'"
      by (simp add: Rescale_def Let_def)
  }
  from rescale_params_returns [OF wi] a show "\<exists>c'. Rescale_to M new_width new_height c = Inr c'"
    by (simp add: Rescale_to_def Let_def)
qed

lemma harness_camera_sel:
  "model_id harness_camera = 1" "width harness_camera = 1113" "height harness_camera = 835"
  "refrac_model_id harness_camera = 0" "params harness_camera = [340, 340, 556, 417]"
  by (simp_all add: harness_camera_def)

lemma reference_idxs:
  "PrincipalPointIdxs reference_models harness_camera = [2, 3]"
  "FocalLengthIdxs reference_models harness_camera = [0, 1]"
  "PrincipalPointIdxs reference_models (harness_camera\<lparr>width := w, height := h\<rparr>) = [2, 3]"
  "FocalLengthIdxs reference_models (harness_camera\<lparr>width := w, height := h\<rparr>) = [0, 1]"
  by (simp_all add: PrincipalPointIdxs_def FocalLengthIdxs_def reference_models_def harness_camera_sel)

lemma cround_example: "cround 2226 = 2226" "cround 1670 = 1670"
  by (simp_all add: cround_def)

lemma rescale_params_example:
  "rescale_params reference_models 2 2 (harness_camera\<lparr>width := 2226, height := 1670\<rparr>) =
     Inr doubled_camera"
  by (simp add: rescale_params_def PrincipalPointX_def PrincipalPointY_def
      SetPrincipalPointX_def SetPrincipalPointY_def FocalLengthX_def FocalLengthY_def
      SetFocalLengthX_def SetFocalLengthY_def set_param_def e_bind_def elem_def store_def
      idxs_params_update reference_idxs harness_camera_sel doubled_camera_def)

lemma Rescale_example: "Rescale reference_models 2 harness_camera = Inr doubled_camera"
  by (simp add: Rescale_def harness_camera_sel cround_example rescale_params_example)

lemma Rescale_to_example: "Rescale_to reference_models 2226 1670 harness_camera = Inr doubled_camera"
  by (simp add: Rescale_to_def harness_camera_sel rescale_params_example)

theorem Rescale_frame_witness:
  "Rescale reference_models 2 harness_camera = Inr doubled_camera \<and>
   Rescale_to reference_models 2226 1670 harness_camera = Inr doubled_camera \<and>
   refrac_model_id doubled_camera = refrac_model_id harness_camera \<and>
   refrac_params doubled_camera = refrac_params harness_camera \<and>
   model_id doubled_camera = model_id harness_camera \<and>
   width doubled_camera = 2226 \<and> height doubled_camera = 1670 \<and>
   params_scaled reference_models 2 2 harness_camera doubled_camera \<and>
   well_indexed reference_models harness_camera"
proof -
  note t = Rescale_frame [of reference_models 2 harness_camera doubled_camera 2226 1670]
  have d: "distinct (PrincipalPointIdxs reference_models harness_camera @
      FocalLengthIdxs reference_models harness_camera)"
    by (simp add: reference_idxs)
  have wi: "well_indexed reference_models harness_camera"
    by (simp add: well_indexed_def reference_idxs harness_camera_sel)
  have two: "real 2226 / real (width harness_camera) = 2" "real 1670 / real (height harness_camera) = 2"
    by (simp_all add: harness_camera_sel)
  from t Rescale_to_example d
  have "params_scaled reference_models (real 2226 / real (width harness_camera))
      (real 1670 / real (height harness_camera)) harness_camera doubled_camera"
    by blast
  then have ps: "params_scaled reference_models 2 2 harness_camera doubled_camera"
    unfolding two .
  from t Rescale_example have k: "refrac_model_id doubled_camera = refrac_model_id harness_camera"
    "refrac_params doubled_camera = refrac_params harness_camera"
    "model_id doubled_camera = model_id harness_camera"
    by blast+
  from t Rescale_to_example have wh: "width doubled_camera = 2226" "height doubled_camera = 1670"
    by blast+
  from Rescale_example Rescale_to_example k wh ps wi show ?thesis by blast
qed

section \<open>The length invariant of the parameter vectors\<close>

lemma length_resize: "length (resize n v xs) = n"
  by (simp add: resize_def)

lemma nth_resize: "i < n \<Longrightarrow> resize n v xs ! i = (if i < length xs then xs ! i else v)"
  by (simp add: resize_def nth_append)

lemma apply_op_fit:
  assumes vl: "\<forall>mid ps. CameraModelVerifyParams M mid ps \<longrightarrow> length ps = CameraModelNumParams M mid"
    and fit: "params_fit M c"
    and run: "apply_op M x c = Inr c'"
  shows "params_fit M c'"
proof (cases x)
  case (OpSetModelId mid)
  with run fit show ?thesis
    by (auto simp: SetModelId_def params_fit_def length_resize split: if_splits)
next
  case (OpSetModelIdFromName n)
  with run fit show ?thesis
    by (auto simp: SetModelIdFromName_def params_fit_def length_resize Let_def split: if_splits)
next
  case (OpSetRefracModelId rid)
  with run fit show ?thesis
    by (auto simp: SetRefracModelId_def params_fit_def split: if_splits)
next
  case (OpSetRefracModelIdFromName n)
  with run fit show ?thesis
    by (auto simp: SetRefracModelIdFromName_def params_fit_def Let_def split: if_splits)
next
  case (OpSetParamsFromString s)
  with run fit vl show ?thesis
    by (auto simp: SetParamsFromString_def params_fit_def Let_def split: if_splits)
next
  case (OpSetRefracParamsFromString s)
  with run fit show ?thesis
    by (auto simp: SetRefracParamsFromString_def params_fit_def Let_def split: if_splits)
next
  case (OpSetParams ps)
  with run fit vl show ?thesis
    by (auto simp: SetParams_def params_fit_def split: if_splits)
next
  case (OpSetRefracParams ps)
  with run fit show ?thesis
    by (auto simp: SetRefracParams_def params_fit_def split: if_splits)
next
  case (OpRescale scale)
  with run have "Rescale M scale c = Inr c' \<or> Rescale_to M 0 0 c = Inr c'" by simp
  from Rescale_keeps [OF this] fit show ?thesis by (simp add: params_fit_def)
next
  case (OpRescale_to w h)
  with run have "Rescale M 0 c = Inr c' \<or> Rescale_to M w h c = Inr c'" by simp
  from Rescale_keeps [OF this] fit show ?thesis by (simp add: params_fit_def)
qed

lemma apply_op_refrac_fit:
  assumes rvl: "\<forall>rid ps. CameraRefracModelVerifyParams M rid ps \<longrightarrow>
        length ps = CameraRefracModelNumParams M rid"
    and fit: "refrac_params_fit M c"
    and run: "apply_op M x c = Inr c'"
  shows "refrac_params_fit M c'"
proof (cases x)
  case (OpSetModelId mid)
  with run fit show ?thesis
    by (auto simp: SetModelId_def refrac_params_fit_def split: if_splits)
next
  case (OpSetModelIdFromName n)
  with run fit show ?thesis
    by (auto simp: SetModelIdFromName_def refrac_params_fit_def Let_def split: if_splits)
next
  case (OpSetRefracModelId rid)
  with run fit show ?thesis
    by (auto simp: SetRefracModelId_def refrac_params_fit_def length_resize split: if_splits)
next
  case (OpSetRefracModelIdFromName n)
  with run fit show ?thesis
    by (auto simp: SetRefracModelIdFromName_def refrac_params_fit_def length_resize Let_def
        split: if_splits)
next
  case (OpSetParamsFromString s)
  with run fit show ?thesis
    by (auto simp: SetParamsFromString_def refrac_params_fit_def Let_def split: if_splits)
next
  case (OpSetRefracParamsFromString s)
  with run fit rvl show ?thesis
    by (auto simp: SetRefracParamsFromString_def refrac_params_fit_def Let_def split: if_splits)
next
  case (OpSetParams ps)
  with run fit show ?thesis
    by (auto simp: SetParams_def refrac_params_fit_def split: if_splits)
next
  case (OpSetRefracParams ps)
  with run fit rvl show ?thesis
    by (auto simp: SetRefracParams_def refrac_params_fit_def split: if_splits)
next
  case (OpRescale scale)
  with run have "Rescale M scale c = Inr c' \<or> Rescale_to M 0 0 c = Inr c'" by simp
  from Rescale_keeps [OF this] fit show ?thesis by (simp add: refrac_params_fit_def)
next
  case (OpRescale_to w h)
  with run have "Rescale M 0 c = Inr c' \<or> Rescale_to M w h c = Inr c'" by simp
  from Rescale_keeps [OF this] fit show ?thesis by (simp add: refrac_params_fit_def)
qed

lemma apply_ops_fit:
  assumes vl: "\<forall>mid ps. CameraModelVerifyParams M mid ps \<longrightarrow> length ps = CameraModelNumParams M mid"
  shows "params_fit M c \<Longrightarrow> apply_ops M ops c = Inr c' \<Longrightarrow> params_fit M c'"
proof (induction ops arbitrary: c)
  case Nil
  then show ?case by simp
next
  case (Cons x ops)
  from Cons.prems(2) obtain c1 where s: "apply_op M x c = Inr c1" "apply_ops M ops c1 = Inr c'"
    by (auto simp: e_bind_Inr)
  from apply_op_fit [OF vl Cons.prems(1) s(1)] have "params_fit M c1" .
  from Cons.IH [OF this s(2)] show ?case .
qed

lemma apply_ops_refrac_fit:
  assumes rvl: "\<forall>rid ps. CameraRefracModelVerifyParams M rid ps \<longrightarrow>
        length ps = CameraRefracModelNumParams M rid"
  shows "refrac_params_fit M c \<Longrightarrow> apply_ops M ops c = Inr c' \<Longrightarrow> refrac_params_fit M c'"
proof (induction ops arbitrary: c)
  case Nil
  then show ?case by simp
next
  case (Cons x ops)
  from Cons.prems(2) obtain c1 where s: "apply_op M x c = Inr c1" "apply_ops M ops c1 = Inr c'"
    by (auto simp: e_bind_Inr)
  from apply_op_refrac_fit [OF rvl Cons.prems(1) s(1)] have "refrac_params_fit M c1" .
  from Cons.IH [OF this s(2)] show ?case .
qed

text \<open>
  Claim C5, as amended. Let the two validators accept only vectors of their variant's
  canonical length. Then every sequence of model selections, parameter assignments and
  rescales that runs to its end takes a camera whose intrinsic parameter vector has the
  canonical length of the selected intrinsic variant to a camera of which the same
  holds, and likewise for the refraction parameter vector and the refraction variant.
  Selecting an intrinsic (refraction) model, by id or by name, resizes the intrinsic
  (refraction) vector to the canonical length of the variant: the entries that were
  already there keep their values, and only the entries the resize adds are zero.
  Assignment from a vector is the operation modelled from the specification.
\<close>

theorem params_fit_invariant:
  assumes vl: "\<forall>mid ps. CameraModelVerifyParams M mid ps \<longrightarrow> length ps = CameraModelNumParams M mid"
    and rvl: "\<forall>rid ps. CameraRefracModelVerifyParams M rid ps \<longrightarrow>
        length ps = CameraRefracModelNumParams M rid"
  shows "(params_fit M c \<and> apply_ops M ops c = Inr c' \<longrightarrow> params_fit M c') \<and>
     (refrac_params_fit M c \<and> apply_ops M ops c = Inr c' \<longrightarrow> refrac_params_fit M c') \<and>
     (SetModelId M mid c = Inr c1 \<or>
      SetModelIdFromName M model_name c = Inr c1 \<and> mid = CameraModelNameToId M model_name \<longrightarrow>
        model_id c1 = mid \<and> length (params c1) = CameraModelNumParams M mid \<and>
        (\<forall>i<CameraModelNumParams M mid.
           params c1 ! i = (if i < length (params c) then params c ! i else 0))) \<and>
     (SetRefracModelId M rid c = Inr c2 \<or>
      SetRefracModelIdFromName M refrac_model_name c = Inr c2 \<and>
        rid = CameraRefracModelNameToId M refrac_model_name \<longrightarrow>
        refrac_model_id c2 = rid \<and> length (refrac_params c2) = CameraRefracModelNumParams M rid \<and>
        (\<forall>i<CameraRefracModelNumParams M rid.
           refrac_params c2 ! i =
             (if i < length (refrac_params c) then refrac_params c ! i else 0)))"
proof (intro conjI impI)
  assume "params_fit M c \<and> apply_ops M ops c = Inr c'"
  then show "params_fit M c'" using apply_ops_fit [OF vl] by blast
next
  assume "refrac_params_fit M c \<and> apply_ops M ops c = Inr c'"
  then show "refrac_params_fit M c'" using apply_ops_refrac_fit [OF rvl] by blast
next
  assume a: "SetModelId M mid c = Inr c1 \<or>
      SetModelIdFromName M model_name c = Inr c1 \<and> mid = CameraModelNameToId M model_name"
  then have c1: "c1 = c\<lparr>model_id := mid, params := resize (CameraModelNumParams M mid) 0 (params c)\<rparr>"
    by (auto simp: SetModelId_def SetModelIdFromName_def Let_def split: if_splits)
  show "model_id c1 = mid" by (simp add: c1)
  show "length (params c1) = CameraModelNumParams M mid" by (simp add: c1 length_resize)
  show "\<forall>i<CameraModelNumParams M mid.
           params c1 ! i = (if i < length (params c) then params c ! i else 0)"
    by (simp add: c1 nth_resize)
next
  assume a: "SetRefracModelId M rid c = Inr c2 \<or>
      SetRefracModelIdFromName M refrac_model_name c = Inr c2 \<and>
        rid = CameraRefracModelNameToId M refrac_model_name"
  then have c2: "c2 = c\<lparr>refrac_model_id := rid,
      refrac_params := resize (CameraRefracModelNumParams M rid) 0 (refrac_params c)\<rparr>"
    by (auto simp: SetRefracModelId_def SetRefracModelIdFromName_def Let_def split: if_splits)
  show "refrac_model_id c2 = rid" by (simp add: c2)
  show "length (refrac_params c2) = CameraRefracModelNumParams M rid" by (simp add: c2 length_resize)
  show "\<forall>i<CameraRefracModelNumParams M rid.
           refrac_params c2 ! i =
             (if i < length (refrac_params c) then refrac_params c ! i else 0)"
    by (simp add: c2 nth_resize)
qed

text \<open>
  The claim as stated says that the vector is zero-filled after a selection. Selecting
  \<^verbatim>\<open>PINHOLE\<close> again on the harness camera leaves its four parameters as they were.
\<close>

theorem select_model_not_zero_filled:
  "SetModelIdFromName reference_models ''PINHOLE'' harness_camera = Inr harness_camera \<and>
   params harness_camera = [340, 340, 556, 417] \<and>
   params harness_camera \<noteq>
     replicate (CameraModelNumParams reference_models (model_id harness_camera)) 0"
proof -
  have r: "replicate 4 (0 :: real) = [0, 0, 0, 0]" by (simp add: numeral_eq_Suc)
  show ?thesis
    by (simp add: SetModelIdFromName_def reference_models_def harness_camera_def resize_def r)
qed

lemma reference_validators:
  "\<forall>mid ps. CameraModelVerifyParams reference_models mid ps \<longrightarrow>
     length ps = CameraModelNumParams reference_models mid"
  "\<forall>rid ps. CameraRefracModelVerifyParams reference_models rid ps \<longrightarrow>
     length ps = CameraRefracModelNumParams reference_models rid"
  by (simp_all add: reference_models_def)

lemma harness_camera_fit:
  "params_fit reference_models harness_camera" "refrac_params_fit reference_models harness_camera"
  by (simp_all add: params_fit_def refrac_params_fit_def reference_models_def harness_camera_def)

lemma apply_ops_example:
  "apply_ops reference_models
     [OpSetModelIdFromName ''SIMPLE_PINHOLE'', OpSetParamsFromString ''1,2,3'', OpRescale_to 2226 1670]
     harness_camera = Inr rescaled_simple_camera"
proof -
  have s1: "SetModelIdFromName reference_models ''SIMPLE_PINHOLE'' harness_camera =
      Inr (harness_camera\<lparr>model_id := 0, params := [340, 340, 556]\<rparr>)"
    by (simp add: SetModelIdFromName_def reference_models_def harness_camera_def resize_def)
  have s2: "SetParamsFromString reference_models ''1,2,3''
      (harness_camera\<lparr>model_id := 0, params := [340, 340, 556]\<rparr>) =
      (True, harness_camera\<lparr>model_id := 0, params := [1, 2, 3]\<rparr>)"
    by (simp add: SetParamsFromString_def reference_models_def)
  have i: "PrincipalPointIdxs reference_models c = [1, 2]" "FocalLengthIdxs reference_models c = [0]"
    if "model_id c = 0" for c
    using that by (simp_all add: PrincipalPointIdxs_def FocalLengthIdxs_def reference_models_def)
  have s3: "Rescale_to reference_models 2226 1670 (harness_camera\<lparr>model_id := 0, params := [1, 2, 3]\<rparr>) =
      Inr rescaled_simple_camera"
    by (simp add: Rescale_to_def harness_camera_sel rescale_params_def PrincipalPointX_def
        PrincipalPointY_def SetPrincipalPointX_def SetPrincipalPointY_def FocalLength_def
        SetFocalLength_def set_param_def e_bind_def elem_def store_def i
        rescaled_simple_camera_def)
  show ?thesis by (simp add: e_bind_def s1 s2 s3)
qed

theorem params_fit_invariant_witness:
  "params_fit reference_models harness_camera \<and>
   apply_ops reference_models
     [OpSetModelIdFromName ''SIMPLE_PINHOLE'', OpSetParamsFromString ''1,2,3'', OpRescale_to 2226 1670]
     harness_camera = Inr rescaled_simple_camera \<and>
   params_fit reference_models rescaled_simple_camera \<and>
   refrac_params_fit reference_models harness_camera \<and>
   refrac_params_fit reference_models rescaled_simple_camera"
  using params_fit_invariant [OF reference_validators, of harness_camera
      "[OpSetModelIdFromName ''SIMPLE_PINHOLE'', OpSetParamsFromString ''1,2,3'', OpRescale_to 2226 1670]"
      rescaled_simple_camera]
    harness_camera_fit apply_ops_example
  by blast

section \<open>The virtual camera of one ray\<close>

lemma MeanFocalLength_cases:
  "FocalLengthIdxs M c = [i] \<Longrightarrow> i < length (params c) \<Longrightarrow> MeanFocalLength M c = Inr (params c ! i)"
  "FocalLengthIdxs M c = [i, j] \<Longrightarrow> i < length (params c) \<Longrightarrow> j < length (params c) \<Longrightarrow>
     MeanFocalLength M c = Inr ((params c ! i + params c ! j) / 2)"
  by (simp_all add: MeanFocalLength_def e_bind_def elem_def)

lemma VirtualCamera_Inr:
  assumes ex: "ExistsCameraModelWithName M ''SIMPLE_PINHOLE''"
    and mean: "MeanFocalLength M c = Inr f"
    and cnt: "length (FocalLengthIdxs M c) = 1 \<or> length (FocalLengthIdxs M c) = 2"
    and valid: "CameraModelVerifyParams M (CameraModelNameToId M ''SIMPLE_PINHOLE'')
        [f, x - f * u, y - f * v]"
  shows "VirtualCamera M c (x, y) (u, v) =
     Inr (Camera_new\<lparr>model_id := CameraModelNameToId M ''SIMPLE_PINHOLE'',
                      width := width c, height := height c,
                      params := [f, x - f * u, y - f * v]\<rparr>)"
proof -
  have f: "(if length (FocalLengthIdxs M c) = 1 then elem (params c) (FocalLengthIdxs M c ! 0)
             else if length (FocalLengthIdxs M c) = 2 then
               e_bind (elem (params c) (FocalLengthIdxs M c ! 0)) (\<lambda>f0.
               e_bind (elem (params c) (FocalLengthIdxs M c ! 1)) (\<lambda>f1. Inr ((f0 + f1) / 2)))
             else Inl LogFatal) = Inr f"
    using cnt
  proof
    assume "length (FocalLengthIdxs M c) = 1"
    then obtain i where i: "FocalLengthIdxs M c = [i]" by (rule length_oneE)
    with mean show ?thesis
      by (cases "i < length (params c)") (simp_all add: MeanFocalLength_def e_bind_def elem_def)
  next
    assume "length (FocalLengthIdxs M c) = 2"
    then obtain i j where i: "FocalLengthIdxs M c = [i, j]" by (rule length_twoE)
    with mean show ?thesis
      by (cases "i < length (params c)"; cases "j < length (params c)")
        (simp_all add: MeanFocalLength_def e_bind_def elem_def)
  qed
  show ?thesis
    unfolding VirtualCamera_def Let_def f
    using ex valid
    by (simp add: SetModelIdFromName_def e_bind_def SetParams_def Let_def)
qed

text \<open>
  Claim C6. Let the source camera's model have one or two focal length indices, all
  within its parameter vector, let the catalogue know \<^verbatim>\<open>SIMPLE_PINHOLE\<close> with the
  pinhole projection, and let its validator accept the three parameters computed here.
  Then \<open>VirtualCamera image_point cam_point\<close> returns a camera of model
  \<^verbatim>\<open>SIMPLE_PINHOLE\<close> with the width and height of the source, whose parameters are
  \<open>f\<close>, the mean focal length of the source, and the principal point
  \<open>(image_point.x - f * cam_point.x, image_point.y - f * cam_point.y)\<close>; and projecting
  \<open>cam_point\<close> through that camera gives \<open>image_point\<close>. The arithmetic is exact
  arithmetic on reals.
\<close>

theorem VirtualCamera_fits_ray:
  assumes "ExistsCameraModelWithName M ''SIMPLE_PINHOLE''"
    and "length (FocalLengthIdxs M c) = 1 \<or> length (FocalLengthIdxs M c) = 2"
    and "\<forall>i \<in> set (FocalLengthIdxs M c). i < length (params c)"
    and "\<forall>f. MeanFocalLength M c = Inr f \<longrightarrow>
       CameraModelVerifyParams M (CameraModelNameToId M ''SIMPLE_PINHOLE'')
         [f, fst image_point - f * fst cam_point, snd image_point - f * snd cam_point]"
    and "CameraModelImgFromCam M (CameraModelNameToId M ''SIMPLE_PINHOLE'') = SimplePinhole_ImgFromCam"
  shows "\<exists>f virtual_camera.
     MeanFocalLength M c = Inr f \<and>
     VirtualCamera M c image_point cam_point = Inr virtual_camera \<and>
     model_id virtual_camera = CameraModelNameToId M ''SIMPLE_PINHOLE'' \<and>
     width virtual_camera = width c \<and> height virtual_camera = height c \<and>
     params virtual_camera =
       [f, fst image_point - f * fst cam_point, snd image_point - f * snd cam_point] \<and>
     ImgFromCam M virtual_camera cam_point = image_point"
proof -
  obtain x y where ip: "image_point = (x, y)" by (cases image_point) auto
  obtain u v where cp: "cam_point = (u, v)" by (cases cam_point) auto
  from assms(2) have "\<exists>f. MeanFocalLength M c = Inr f"
  proof
    assume "length (FocalLengthIdxs M c) = 1"
    then obtain i where i: "FocalLengthIdxs M c = [i]" by (rule length_oneE)
    with assms(3) have "i < length (params c)" by simp
    from MeanFocalLength_cases(1) [OF i this] show ?thesis by blast
  next
    assume "length (FocalLengthIdxs M c) = 2"
    then obtain i j where i: "FocalLengthIdxs M c = [i, j]" by (rule length_twoE)
    with assms(3) have "i < length (params c)" "j < length (params c)" by simp_all
    from MeanFocalLength_cases(2) [OF i this] show ?thesis by blast
  qed
  then obtain f where mean: "MeanFocalLength M c = Inr f" ..
  let ?vc = "Camera_new\<lparr>model_id := CameraModelNameToId M ''SIMPLE_PINHOLE'',
                      width := width c, height := height c,
                      params := [f, x - f * u, y - f * v]\<rparr>"
  from assms(4) mean ip cp have valid: "CameraModelVerifyParams M (CameraModelNameToId M ''SIMPLE_PINHOLE'')
        [f, x - f * u, y - f * v]" by simp
  from VirtualCamera_Inr [OF assms(1) mean assms(2) valid]
  have vc: "VirtualCamera M c image_point cam_point = Inr ?vc" by (simp add: ip cp)
  have proj: "ImgFromCam M ?vc cam_point = image_point"
    by (simp add: ImgFromCam_def assms(5) SimplePinhole_ImgFromCam_def ip cp)
  from mean vc proj ip cp show ?thesis by simp
qed

theorem VirtualCamera_fits_ray_witness:
  "MeanFocalLength reference_models harness_camera = Inr 340 \<and>
   VirtualCamera reference_models harness_camera (100, 50) (1 / 10, 1 / 5) =
     Inr (Camera_new\<lparr>model_id := 0, width := 1113, height := 835, params := [340, 66, - 18]\<rparr>) \<and>
   ImgFromCam reference_models
     (Camera_new\<lparr>model_id := 0, width := 1113, height := 835, params := [340, 66, - 18]\<rparr>)
     (1 / 10, 1 / 5) = (100, 50)"
proof -
  have a1: "ExistsCameraModelWithName reference_models ''SIMPLE_PINHOLE''"
    by (simp add: reference_models_def)
  have a2: "length (FocalLengthIdxs reference_models harness_camera) = 1 \<or>
      length (FocalLengthIdxs reference_models harness_camera) = 2"
    by (simp add: reference_idxs)
  have a3: "\<forall>i \<in> set (FocalLengthIdxs reference_models harness_camera). i < length (params harness_camera)"
    by (simp add: reference_idxs harness_camera_sel)
  have a4: "\<forall>f. MeanFocalLength reference_models harness_camera = Inr f \<longrightarrow>
       CameraModelVerifyParams reference_models (CameraModelNameToId reference_models ''SIMPLE_PINHOLE'')
         [f, fst (100, 50) - f * fst (1 / 10 :: real, 1 / 5 :: real),
          snd (100 :: real, 50 :: real) - f * snd (1 / 10 :: real, 1 / 5 :: real)]"
    by (simp add: reference_models_def)
  have a5: "CameraModelImgFromCam reference_models (CameraModelNameToId reference_models ''SIMPLE_PINHOLE'') =
      SimplePinhole_ImgFromCam"
    by (auto simp: reference_models_def SimplePinhole_ImgFromCam_def fun_eq_iff)
  have m: "MeanFocalLength reference_models harness_camera = Inr 340"
    using MeanFocalLength_cases(2) [of reference_models harness_camera 0 1]
    by (simp add: reference_idxs harness_camera_sel)
  have sp: "CameraModelNameToId reference_models ''SIMPLE_PINHOLE'' = 0"
    by (simp add: reference_models_def)
  from VirtualCamera_fits_ray [OF a1 a2 a3 a4 a5] obtain f vc where r:
    "MeanFocalLength reference_models harness_camera = Inr f"
    "VirtualCamera reference_models harness_camera (100, 50) (1 / 10, 1 / 5) = Inr vc"
    "ImgFromCam reference_models vc (1 / 10, 1 / 5) = (100, 50)"
    by blast
  from r(1) m have f: "f = 340" by simp
  have "VirtualCamera reference_models harness_camera (100, 50) (1 / 10, 1 / 5) =
     Inr (Camera_new\<lparr>model_id := 0, width := 1113, height := 835, params := [340, 66, - 18]\<rparr>)"
    using VirtualCamera_Inr [OF a1 m a2, of 100 "1 / 10" 50 "1 / 5"]
    by (simp add: reference_models_def harness_camera_sel)
  with r(2) have "vc = Camera_new\<lparr>model_id := 0, width := 1113, height := 835, params := [340, 66, - 18]\<rparr>"
    by simp
  with r(2,3) m show ?thesis by simp
qed

section \<open>The rotation into the virtual frame\<close>

lemma main_rotation_raw:
  fixes x y z s :: real
  assumes u: "x * x + y * y + z * z = 1" and s: "0 < s" "s * s = (1 + z) * 2"
  shows "qsquaredNorm \<lparr>qw = s * (1 / 2), qx = 1 / s * y, qy = 1 / s * (- x), qz = 1 / s * 0\<rparr> = 1"
    and "qrotate \<lparr>qw = s * (1 / 2), qx = 1 / s * y, qy = 1 / s * (- x), qz = 1 / s * 0\<rparr> (x, y, z) = (0, 0, 1)"
proof -
  have xy: "x * x + y * y = (1 - z) * (1 + z)" using u by algebra
  have z1: "1 + z = s * s / 2" using s by simp
  have xy2: "x * x + y * y = (1 - z) * (s * s / 2)" using xy z1 by simp
  have i: "(x * x + y * y) / (s * s) = (1 - z) / 2" using xy2 s(1) by (simp add: field_simps)
  have n: "s * (1 / 2) * (s * (1 / 2)) + 1 / s * y * (1 / s * y) + 1 / s * (- x) * (1 / s * (- x)) =
      s * s / 4 + (x * x + y * y) / (s * s)"
    using s(1) by (simp add: field_simps)
  show "qsquaredNorm \<lparr>qw = s * (1 / 2), qx = 1 / s * y, qy = 1 / s * (- x), qz = 1 / s * 0\<rparr> = 1"
    unfolding qsquaredNorm_def using n i z1 by simp
  have a: "x + (s * (1 / 2)) * (2 * (1 / s * (- x) * z)) + (1 / s * (- x)) * (2 * ((x * x + y * y) / s)) = 0"
  proof -
    have "(1 / s * (- x)) * (2 * ((x * x + y * y) / s)) = - x * (2 * ((x * x + y * y) / (s * s)))"
      using s(1) by (simp add: field_simps)
    also have "\<dots> = - x * (1 - z)" unfolding i by simp
    finally have "(1 / s * (- x)) * (2 * ((x * x + y * y) / s)) = - x * (1 - z)" .
    moreover have "(s * (1 / 2)) * (2 * (1 / s * (- x) * z)) = - x * z" using s(1) by simp
    ultimately show ?thesis by (simp add: algebra_simps)
  qed
  have b: "y + (s * (1 / 2)) * (2 * (- (1 / s * y * z))) - (1 / s * y) * (2 * ((x * x + y * y) / s)) = 0"
  proof -
    have "(1 / s * y) * (2 * ((x * x + y * y) / s)) = y * (2 * ((x * x + y * y) / (s * s)))"
      using s(1) by (simp add: field_simps)
    also have "\<dots> = y * (1 - z)" unfolding i by simp
    finally have "(1 / s * y) * (2 * ((x * x + y * y) / s)) = y * (1 - z)" .
    moreover have "(s * (1 / 2)) * (2 * (- (1 / s * y * z))) = - y * z" using s(1) by simp
    ultimately show ?thesis by (simp add: algebra_simps)
  qed
  have c: "z + (s * (1 / 2)) * (2 * ((x * x + y * y) / s)) + ((1 / s * y) * (2 * (- (1 / s * y * z))) - (1 / s * (- x)) * (2 * (1 / s * (- x) * z))) = 1"
  proof -
    have e1: "(s * (1 / 2)) * (2 * ((x * x + y * y) / s)) = x * x + y * y" using s(1) by simp
    have "(1 / s * y) * (2 * (- (1 / s * y * z))) - (1 / s * (- x)) * (2 * (1 / s * (- x) * z)) =
        - 2 * z * ((x * x + y * y) / (s * s))"
      using s(1) by (simp add: field_simps)
    also have "\<dots> = - 2 * z * ((1 - z) / 2)" unfolding i ..
    also have "\<dots> = z * z - z" by (simp add: field_simps)
    finally have e2: "(1 / s * y) * (2 * (- (1 / s * y * z))) - (1 / s * (- x)) * (2 * (1 / s * (- x) * z)) =
        z * z - z" .
    show ?thesis unfolding e1 e2 using u by simp
  qed
  have cr: "cross (1 / s * y, 1 / s * (- x), 1 / s * 0) (x, y, z) =
      (1 / s * (- x) * z, - (1 / s * y * z), (x * x + y * y) / s)"
    using s(1) by (simp add: field_simps)
  show "qrotate \<lparr>qw = s * (1 / 2), qx = 1 / s * y, qy = 1 / s * (- x), qz = 1 / s * 0\<rparr> (x, y, z) = (0, 0, 1)"
    unfolding qrotate_def qvec_def Let_def Quaterniond.simps cr
    using a b c by (simp add: algebra_simps)
qed

lemma main_rotation:
  fixes x y z s :: real
  assumes u: "x * x + y * y + z * z = 1" and s: "0 < s" "s * s = (1 + z) * 2"
  shows "qsquaredNorm \<lparr>qw = s / 2, qx = y / s, qy = - (x / s), qz = 0\<rparr> = 1"
    and "qrotate \<lparr>qw = s / 2, qx = y / s, qy = - (x / s), qz = 0\<rparr> (x, y, z) = (0, 0, 1)"
  using main_rotation_raw [OF assms] by simp_all

lemma svd_rotation:
  fixes x y z n1 n2 w k :: real
  assumes u: "x * x + y * y + z * z = 1"
    and n: "n1 * n1 + n2 * n2 = 1" "n1 * x + n2 * y = 0"
    and w: "w * w = (1 + z) * (1 / 2)"
    and k: "k * k = 1 - (1 + z) * (1 / 2)"
  shows "qsquaredNorm \<lparr>qw = w, qx = k * n1, qy = k * n2, qz = 0\<rparr> = 1"
    and "2 * (z * z) - 1 \<le> snd (snd (qrotate \<lparr>qw = w, qx = k * n1, qy = k * n2, qz = 0\<rparr> (x, y, z)))"
    and "snd (snd (qrotate \<lparr>qw = w, qx = k * n1, qy = k * n2, qz = 0\<rparr> (x, y, z))) \<le> 1"
proof -
  have e: "w * w + k * n1 * (k * n1) + k * n2 * (k * n2) = w * w + k * k * (n1 * n1 + n2 * n2)"
    by (simp add: algebra_simps)
  have "w * w + k * k * (n1 * n1 + n2 * n2) = 1" unfolding n(1) w k by simp
  with e show "qsquaredNorm \<lparr>qw = w, qx = k * n1, qy = k * n2, qz = 0\<rparr> = 1"
    by (simp add: qsquaredNorm_def)
  define D where "D = n1 * y - n2 * x"
  define t where "t = 2 * w * k * D"
  have third: "snd (snd (qrotate \<lparr>qw = w, qx = k * n1, qy = k * n2, qz = 0\<rparr> (x, y, z))) =
      z * (1 - 2 * (k * k) * (n1 * n1 + n2 * n2)) + t"
    unfolding qrotate_def qvec_def Let_def t_def D_def by (simp add: algebra_simps)
  have k2: "1 - 2 * (k * k) * (n1 * n1 + n2 * n2) = z" unfolding n(1) k by (simp add: field_simps)
  have DD: "D * D = (n1 * n1 + n2 * n2) * (x * x + y * y) - (n1 * x + n2 * y) * (n1 * x + n2 * y)"
    unfolding D_def by (simp add: algebra_simps)
  have xy: "x * x + y * y = 1 - z * z" using u by simp
  have D2: "D * D = 1 - z * z" unfolding DD n xy by simp
  have wk: "4 * (w * w) * (k * k) = 1 - z * z" unfolding w k by (simp add: field_simps)
  have "t * t = (4 * (w * w) * (k * k)) * (D * D)" unfolding t_def by (simp add: algebra_simps)
  then have tt: "t * t = (1 - z * z) * (1 - z * z)" unfolding wk D2 .
  have nn: "0 \<le> 1 - z * z" using D2 [symmetric] by simp
  from tt have at: "t = 1 - z * z \<or> t = - (1 - z * z)" by (simp only: square_eq_iff)
  show "2 * (z * z) - 1 \<le> snd (snd (qrotate \<lparr>qw = w, qx = k * n1, qy = k * n2, qz = 0\<rparr> (x, y, z)))"
    unfolding third k2 using at nn by auto
  show "snd (snd (qrotate \<lparr>qw = w, qx = k * n1, qy = k * n2, qz = 0\<rparr> (x, y, z))) \<le> 1"
    unfolding third k2 using at nn by auto
qed


lemma normalize_vec_unit:
  assumes "0 < squaredNorm a"
  shows "squaredNorm (normalize_vec a) = 1"
proof -
  obtain x y z where a: "a = (x, y, z)" by (cases a) auto
  define r where "r = sqrt (squaredNorm a)"
  have r: "0 < r" "r * r = x * x + y * y + z * z"
    using assms by (simp_all add: r_def a squaredNorm_def)
  have "x / r * (x / r) + y / r * (y / r) + z / r * (z / r) = (x * x + y * y + z * z) / (r * r)"
    by (simp add: add_divide_distrib)
  also have "\<dots> = 1" using r by (simp add: r(2) [symmetric])
  finally show ?thesis
    using assms by (simp add: normalize_vec_def Let_def a squaredNorm_def r_def)
qed

lemma normalize_vec_UnitZ: "normalize_vec (0, 0, 1) = (0, 0, 1)"
  by (simp add: normalize_vec_def squaredNorm_def)

lemma qnormalized_unit: "qsquaredNorm q = 1 \<Longrightarrow> qnormalized q = q"
  by (simp add: qnormalized_def qscale_def)

text \<open>
  Claim C7. Let \<^verbatim>\<open>FromTwoVectors\<close> be Eigen's, let its singular value decomposition
  answer a unit vector orthogonal to both of its arguments, and let the refraction axis
  not be the zero vector. Then \<open>VirtualFromRealRotation\<close> is a unit quaternion, and it
  rotates the refraction axis, scaled to unit length, onto the canonical axis \<open>+Z\<close>:
  whatever the direction of the axis, the dot product of the rotated axis and \<open>+Z\<close> is at
  most 1 and more than \<open>1 - 4e-12\<close>, and the rotated axis is \<open>+Z\<close> itself unless the axis is
  nearly opposite to \<open>+Z\<close>, with a cosine below \<open>-1 + 1e-12\<close>, where Eigen takes the
  rotation axis from the decomposition. The rotation does not depend on a pixel: it is
  the rotation of the transform that \<open>ComputeVirtual\<close> returns for any pixel, and two
  cameras with the same refraction model and refraction parameters have the same one.
  The arithmetic is exact arithmetic on reals.
\<close>

theorem VirtualFromRealRotation_aligns_axis:
  assumes eigen: "FromTwoVectors M = setFromTwoVectors matrixV_col2"
    and svd: "squaredNorm (matrixV_col2 (normalize_vec (RefractionAxis M c)) (0, 0, 1)) = 1 \<and>
      dot (matrixV_col2 (normalize_vec (RefractionAxis M c)) (0, 0, 1))
        (normalize_vec (RefractionAxis M c)) = 0 \<and>
      dot (matrixV_col2 (normalize_vec (RefractionAxis M c)) (0, 0, 1)) (0, 0, 1) = 0"
    and nz: "0 < squaredNorm (RefractionAxis M c)"
  shows "qsquaredNorm (VirtualFromRealRotation M c) = 1 \<and>
     1 - 4 / 10 ^ 12 <
       dot (qrotate (VirtualFromRealRotation M c) (normalize_vec (RefractionAxis M c))) (0, 0, 1) \<and>
     dot (qrotate (VirtualFromRealRotation M c) (normalize_vec (RefractionAxis M c))) (0, 0, 1) \<le> 1 \<and>
     (- 1 + 1 / 10 ^ 12 \<le> dot (0, 0, 1) (normalize_vec (RefractionAxis M c)) \<longrightarrow>
        qrotate (VirtualFromRealRotation M c) (normalize_vec (RefractionAxis M c)) = (0, 0, 1)) \<and>
     (ComputeVirtual M c point2D = Inr (virtual_camera, virtual_from_real) \<longrightarrow>
        rotation virtual_from_real = VirtualFromRealRotation M c) \<and>
     (refrac_model_id c' = refrac_model_id c \<and> refrac_params c' = refrac_params c \<longrightarrow>
        VirtualFromRealRotation M c' = VirtualFromRealRotation M c)"
proof -
  obtain x y z where v0: "normalize_vec (RefractionAxis M c) = (x, y, z)"
    by (cases "normalize_vec (RefractionAxis M c)") auto
  from normalize_vec_unit [OF nz] have u: "x * x + y * y + z * z = 1"
    by (simp add: v0 squaredNorm_def)
  have "0 \<le> x * x" "0 \<le> y * y" by simp_all
  with u have "z * z \<le> 1" by linarith
  then have "z\<^sup>2 \<le> 1" by (simp add: power2_eq_square)
  then have "\<bar>z\<bar> \<le> 1" by (simp only: abs_square_le_1)
  then have zb: "- 1 \<le> z" "z \<le> 1" by simp_all
  have core: "qsquaredNorm (VirtualFromRealRotation M c) = 1 \<and>
     1 - 4 / 10 ^ 12 < snd (snd (qrotate (VirtualFromRealRotation M c) (x, y, z))) \<and>
     snd (snd (qrotate (VirtualFromRealRotation M c) (x, y, z))) \<le> 1 \<and>
     (- 1 + 1 / 10 ^ 12 \<le> z \<longrightarrow> qrotate (VirtualFromRealRotation M c) (x, y, z) = (0, 0, 1))"
  proof (cases "z < - 1 + 1 / 10 ^ 12")
    case False
    define s where "s = sqrt ((1 + z) * 2)"
    have s: "0 < s" "s * s = (1 + z) * 2" using False by (simp_all add: s_def)
    have q0: "FromTwoVectors M (RefractionAxis M c) (0, 0, 1) =
        \<lparr>qw = s / 2, qx = y / s, qy = - (x / s), qz = 0\<rparr>"
      using False by (simp add: eigen setFromTwoVectors_def v0 normalize_vec_UnitZ Let_def s_def)
    note m = main_rotation [OF u s]
    have q: "VirtualFromRealRotation M c = \<lparr>qw = s / 2, qx = y / s, qy = - (x / s), qz = 0\<rparr>"
      unfolding VirtualFromRealRotation_def q0 using m(1) by (rule qnormalized_unit)
    show ?thesis unfolding q using m by simp
  next
    case True
    obtain n1 n2 n3 where n: "matrixV_col2 (x, y, z) (0, 0, 1) = (n1, n2, n3)"
      by (cases "matrixV_col2 (x, y, z) (0, 0, 1)") auto
    from svd have n3: "n3 = 0" and nn: "n1 * n1 + n2 * n2 = 1" "n1 * x + n2 * y = 0"
      by (auto simp: v0 n squaredNorm_def)
    define w where "w = sqrt ((1 + z) * (1 / 2))"
    define k where "k = sqrt (1 - (1 + z) * (1 / 2))"
    have w: "w * w = (1 + z) * (1 / 2)" using zb by (simp add: w_def)
    have k: "k * k = 1 - (1 + z) * (1 / 2)" using zb by (simp add: k_def)
    have mx: "max z (- 1) = z" using zb by simp
    have q0: "FromTwoVectors M (RefractionAxis M c) (0, 0, 1) =
        \<lparr>qw = w, qx = k * n1, qy = k * n2, qz = 0\<rparr>"
      using True by (simp add: eigen setFromTwoVectors_def v0 normalize_vec_UnitZ Let_def n n3 mx
          w_def k_def)
    note m = svd_rotation [OF u nn w k]
    have q: "VirtualFromRealRotation M c = \<lparr>qw = w, qx = k * n1, qy = k * n2, qz = 0\<rparr>"
      unfolding VirtualFromRealRotation_def q0 using m(1) by (rule qnormalized_unit)
    have "1 - 1 / 10 ^ 12 < - z" using True by simp
    then have "(1 - 1 / 10 ^ 12) * (1 - 1 / 10 ^ 12) < (- z) * (- z)"
      by (intro mult_strict_mono) simp_all
    then have "1 - 4 / 10 ^ 12 < 2 * (z * z) - (1 :: real)" by simp
    with m(2) have "1 - 4 / 10 ^ 12 <
        snd (snd (qrotate \<lparr>qw = w, qx = k * n1, qy = k * n2, qz = 0\<rparr> (x, y, z)))"
      by simp
    with m(1) m(3) True show ?thesis unfolding q by simp
  qed
  have third: "dot v (0, 0, 1) = snd (snd v)" for v :: vec3
    by (cases v) simp
  have dz: "dot (0, 0, 1) (x, y, z) = z" by simp
  have cv: "rotation virtual_from_real = VirtualFromRealRotation M c"
    if "ComputeVirtual M c point2D = Inr (virtual_camera, virtual_from_real)"
    using that by (auto simp: ComputeVirtual_def Let_def e_bind_Inr)
  have same: "VirtualFromRealRotation M c' = VirtualFromRealRotation M c"
    if "refrac_model_id c' = refrac_model_id c \<and> refrac_params c' = refrac_params c"
    using that by (simp add: VirtualFromRealRotation_def RefractionAxis_def)
  from core cv same show ?thesis unfolding v0 third dz by blast
qed

lemma sqrt_64_25: "sqrt (64 / 25) = 8 / 5"
  by (rule real_sqrt_unique) (simp_all add: power2_eq_square)

lemma aligning_axes:
  "RefractionAxis aligning_models tilted_camera = (0, 24 / 25, 7 / 25)"
  "RefractionAxis aligning_models reversed_camera = (0, 0, - 1)"
  "normalize_vec (0, 24 / 25, 7 / 25) = (0, 24 / 25, 7 / 25)"
  "normalize_vec (0, 0, - 1) = (0, 0, - 1)"
  by (simp_all add: RefractionAxis_def aligning_models_def reference_models_def tilted_camera_def
      reversed_camera_def harness_camera_def normalize_vec_def squaredNorm_def)

lemma aligning_FromTwoVectors:
  "FromTwoVectors aligning_models = setFromTwoVectors (\<lambda>v0 v1. (1, 0, 0))"
  by (simp add: aligning_models_def)

lemma VirtualFromRealRotation_tilted:
  "VirtualFromRealRotation aligning_models tilted_camera = \<lparr>qw = 4 / 5, qx = 3 / 5, qy = 0, qz = 0\<rparr>"
proof -
  have "setFromTwoVectors (\<lambda>v0 v1. (1, 0, 0)) (0, 24 / 25, 7 / 25) (0, 0, 1) =
      \<lparr>qw = 4 / 5, qx = 3 / 5, qy = 0, qz = 0\<rparr>"
    unfolding setFromTwoVectors_def aligning_axes normalize_vec_UnitZ
    by (simp add: sqrt_64_25)
  then show ?thesis
    unfolding VirtualFromRealRotation_def aligning_axes aligning_FromTwoVectors
    by (simp add: qnormalized_def qsquaredNorm_def qscale_def)
qed

lemma VirtualFromRealRotation_reversed:
  "VirtualFromRealRotation aligning_models reversed_camera = \<lparr>qw = 0, qx = 1, qy = 0, qz = 0\<rparr>"
proof -
  have "setFromTwoVectors (\<lambda>v0 v1. (1, 0, 0)) (0, 0, - 1) (0, 0, 1) =
      \<lparr>qw = 0, qx = 1, qy = 0, qz = 0\<rparr>"
    unfolding setFromTwoVectors_def aligning_axes normalize_vec_UnitZ
    by simp
  then show ?thesis
    unfolding VirtualFromRealRotation_def aligning_axes aligning_FromTwoVectors
    by (simp add: qnormalized_def qsquaredNorm_def qscale_def)
qed

lemma ComputeVirtual_tilted:
  "ComputeVirtual aligning_models tilted_camera (556, 417) =
     Inr (tilted_virtual_camera,
          \<lparr>rotation = \<lparr>qw = 4 / 5, qx = 3 / 5, qy = 0, qz = 0\<rparr>, translation = (0, 0, 0)\<rparr>)"
proof -
  have ray: "CamFromImgRefrac aligning_models tilted_camera (556, 417) =
      \<lparr>ori = (0, 0, 0), dir = (0, 0, 1)\<rparr>"
    by (simp add: CamFromImgRefrac_def aligning_models_def reference_models_def tilted_camera_def
        harness_camera_def pinhole_unproject_def)
  have center: "VirtualCameraCenter aligning_models tilted_camera r = (0, 0, 0)" for r
    by (simp add: VirtualCameraCenter_def aligning_models_def reference_models_def)
  have vc: "VirtualCamera aligning_models tilted_camera (556, 417) (0, - (24 / 7)) =
      Inr tilted_virtual_camera"
    by (simp add: VirtualCamera_def SetModelIdFromName_def aligning_models_def reference_models_def
        e_bind_def Camera_new_def resize_def FocalLengthIdxs_def tilted_camera_def
        harness_camera_def elem_def SetParams_def tilted_virtual_camera_def Let_def)
  show ?thesis
    unfolding ComputeVirtual_def VirtualFromRealRotation_tilted ray center Let_def
    by (simp add: qrotate_def qvec_def e_bind_def vc)
qed

theorem VirtualFromRealRotation_aligns_axis_witness:
  "VirtualFromRealRotation aligning_models tilted_camera = \<lparr>qw = 4 / 5, qx = 3 / 5, qy = 0, qz = 0\<rparr> \<and>
   qsquaredNorm (VirtualFromRealRotation aligning_models tilted_camera) = 1 \<and>
   qrotate (VirtualFromRealRotation aligning_models tilted_camera) (0, 24 / 25, 7 / 25) = (0, 0, 1) \<and>
   VirtualFromRealRotation aligning_models reversed_camera = \<lparr>qw = 0, qx = 1, qy = 0, qz = 0\<rparr> \<and>
   qsquaredNorm (VirtualFromRealRotation aligning_models reversed_camera) = 1 \<and>
   1 - 4 / 10 ^ 12 <
     dot (qrotate (VirtualFromRealRotation aligning_models reversed_camera) (0, 0, - 1)) (0, 0, 1) \<and>
   ComputeVirtual aligning_models tilted_camera (556, 417) =
     Inr (tilted_virtual_camera,
          \<lparr>rotation = \<lparr>qw = 4 / 5, qx = 3 / 5, qy = 0, qz = 0\<rparr>, translation = (0, 0, 0)\<rparr>) \<and>
   rotation \<lparr>rotation = \<lparr>qw = 4 / 5, qx = 3 / 5, qy = 0, qz = 0\<rparr>, translation = (0, 0, 0)\<rparr> =
     VirtualFromRealRotation aligning_models tilted_camera \<and>
   VirtualFromRealRotation aligning_models (tilted_camera\<lparr>width := 1\<rparr>) =
     VirtualFromRealRotation aligning_models tilted_camera"
proof -
  have svd1: "squaredNorm ((\<lambda>v0 v1. (1, 0, 0)) (normalize_vec (RefractionAxis aligning_models tilted_camera)) (0, 0, 1)) = 1 \<and>
      dot ((\<lambda>v0 v1. (1, 0, 0)) (normalize_vec (RefractionAxis aligning_models tilted_camera)) (0, 0, 1))
        (normalize_vec (RefractionAxis aligning_models tilted_camera)) = 0 \<and>
      dot ((\<lambda>v0 v1. (1, 0, 0)) (normalize_vec (RefractionAxis aligning_models tilted_camera)) (0, 0, 1)) (0, 0, 1) = 0"
    by (simp add: aligning_axes squaredNorm_def)
  have svd2: "squaredNorm ((\<lambda>v0 v1. (1, 0, 0)) (normalize_vec (RefractionAxis aligning_models reversed_camera)) (0, 0, 1)) = 1 \<and>
      dot ((\<lambda>v0 v1. (1, 0, 0)) (normalize_vec (RefractionAxis aligning_models reversed_camera)) (0, 0, 1))
        (normalize_vec (RefractionAxis aligning_models reversed_camera)) = 0 \<and>
      dot ((\<lambda>v0 v1. (1, 0, 0)) (normalize_vec (RefractionAxis aligning_models reversed_camera)) (0, 0, 1)) (0, 0, 1) = 0"
    by (simp add: aligning_axes squaredNorm_def)
  have nz1: "0 < squaredNorm (RefractionAxis aligning_models tilted_camera)"
    by (simp add: aligning_axes squaredNorm_def)
  have nz2: "0 < squaredNorm (RefractionAxis aligning_models reversed_camera)"
    by (simp add: aligning_axes squaredNorm_def)
  note t1 = VirtualFromRealRotation_aligns_axis [OF aligning_FromTwoVectors svd1 nz1,
      of "(556, 417)" tilted_virtual_camera
      "\<lparr>rotation = \<lparr>qw = 4 / 5, qx = 3 / 5, qy = 0, qz = 0\<rparr>, translation = (0, 0, 0)\<rparr>"
      "tilted_camera\<lparr>width := 1\<rparr>", unfolded aligning_axes]
  note t2 = VirtualFromRealRotation_aligns_axis [OF aligning_FromTwoVectors svd2 nz2,
      unfolded aligning_axes]
  have main: "- 1 + 1 / 10 ^ 12 \<le> dot (0, 0, 1) (0, 24 / 25, 7 / 25 :: real)" by simp
  have same: "refrac_model_id (tilted_camera\<lparr>width := 1\<rparr>) = refrac_model_id tilted_camera \<and>
      refrac_params (tilted_camera\<lparr>width := 1\<rparr>) = refrac_params tilted_camera"
    by simp
  from t1 main same ComputeVirtual_tilted
  have a: "qsquaredNorm (VirtualFromRealRotation aligning_models tilted_camera) = 1"
    "qrotate (VirtualFromRealRotation aligning_models tilted_camera) (0, 24 / 25, 7 / 25) = (0, 0, 1)"
    "rotation \<lparr>rotation = \<lparr>qw = 4 / 5, qx = 3 / 5, qy = 0, qz = 0\<rparr>, translation = (0, 0, 0)\<rparr> =
       VirtualFromRealRotation aligning_models tilted_camera"
    "VirtualFromRealRotation aligning_models (tilted_camera\<lparr>width := 1\<rparr>) =
       VirtualFromRealRotation aligning_models tilted_camera"
    by blast+
  from t2 have b: "qsquaredNorm (VirtualFromRealRotation aligning_models reversed_camera) = 1"
    "1 - 4 / 10 ^ 12 <
     dot (qrotate (VirtualFromRealRotation aligning_models reversed_camera) (0, 0, - 1)) (0, 0, 1)"
    by blast+
  from a b VirtualFromRealRotation_tilted VirtualFromRealRotation_reversed ComputeVirtual_tilted
  show ?thesis by blast
qed

section \<open>Rounding to a double\<close>

lemma round_double_eval:
  assumes "2 powi e \<le> \<bar>x\<bar>" "\<bar>x\<bar> < 2 powi (e + 1)" "- 1022 \<le> e"
  shows "round_double x = of_int (round_to_even (x / 2 powi (e - 52))) * 2 powi (e - 52)"
proof -
  have "0 < (2 :: real) powi e" by simp
  with assms(1) have pos: "0 < \<bar>x\<bar>" by linarith
  have p: "(2 :: real) powr real_of_int k = 2 powi k" for k
    by (simp add: powr_real_of_int')
  have "2 powr real_of_int e \<le> \<bar>x\<bar> \<and> \<bar>x\<bar> < 2 powr real_of_int (e + 1)"
    unfolding p using assms(1,2) by simp
  then have "\<lfloor>log 2 \<bar>x\<bar>\<rfloor> = e"
    using floor_log_eq_powr_iff [of "\<bar>x\<bar>" 2 e] pos by simp
  with pos assms(3) show ?thesis by (simp add: round_double_def Let_def)
qed

lemma round_double_examples:
  "round_double 1 = 1" "round_double 2 = 2" "round_double 10 = 10" "round_double 50 = 50"
  "round_double (1 / 2) = 1 / 2"
  "round_double (7 / 10) = 3152519739159347 / 4503599627370496"
  "round_double (3152519739159347 / 4503599627370496) = 3152519739159347 / 4503599627370496"
  "round_double (10 * (3152519739159347 / 4503599627370496)) = 7"
  "round_double (29 / 50) = 5224175567749775 / 9007199254740992"
  "round_double (50 * (5224175567749775 / 9007199254740992)) =
     8162774324609023 / 281474976710656"
  using round_double_eval [of 0 1] round_double_eval [of 1 2] round_double_eval [of 3 10]
    round_double_eval [of 5 50] round_double_eval [of "- 1" "1 / 2"]
    round_double_eval [of "- 1" "7 / 10"]
    round_double_eval [of "- 1" "3152519739159347 / 4503599627370496"]
    round_double_eval [of 2 "10 * (3152519739159347 / 4503599627370496)"]
    round_double_eval [of "- 1" "29 / 50"]
    round_double_eval [of 4 "50 * (5224175567749775 / 9007199254740992)"]
  by (simp_all add: round_to_even_def power_int_minus)

lemma num_inliers_examples:
  "nat \<lfloor>round_double (round_double (real 2) * round_double (1 / 2))\<rfloor> = 1"
  "nat \<lfloor>round_double (round_double (real 10) * round_double (7 / 10))\<rfloor> = 7"
  "nat \<lfloor>round_double (round_double (real 10) *
      round_double (3152519739159347 / 4503599627370496))\<rfloor> = 7"
  "nat \<lfloor>round_double (round_double (real 50) * round_double (29 / 50))\<rfloor> = 28"
proof -
  have r: "real 2 = 2" "real 10 = 10" "real 50 = 50" "(2 :: real) * (1 / 2) = 1" by simp_all
  show "nat \<lfloor>round_double (round_double (real 2) * round_double (1 / 2))\<rfloor> = 1"
    unfolding r round_double_examples by simp
  show "nat \<lfloor>round_double (round_double (real 10) * round_double (7 / 10))\<rfloor> = 7"
    unfolding r round_double_examples by simp
  show "nat \<lfloor>round_double (round_double (real 10) *
      round_double (3152519739159347 / 4503599627370496))\<rfloor> = 7"
    unfolding r round_double_examples by simp
  show "nat \<lfloor>round_double (round_double (real 50) * round_double (29 / 50))\<rfloor> = 28"
    unfolding r round_double_examples by simp
qed

section \<open>Runs of the sampling loop\<close>

lemma push_all_append: "push_all (qs @ [q]) pd = push_points q (push_all qs pd)"
  by (induction qs arbitrary: pd) simp_all

lemma push_all_fields:
  "points2D1 (push_all qs pd) = points2D1 pd @ map fst qs \<and>
   points2D1_refrac (push_all qs pd) = points2D1_refrac pd @ map (\<lambda>q. fst (snd q)) qs \<and>
   points2D2 (push_all qs pd) = points2D2 pd @ map (\<lambda>q. fst (snd (snd q))) qs \<and>
   points2D2_refrac (push_all qs pd) = points2D2_refrac pd @ map (\<lambda>q. snd (snd (snd q))) qs \<and>
   virtual_cameras1 (push_all qs pd) = virtual_cameras1 pd \<and>
   virtual_cameras2 (push_all qs pd) = virtual_cameras2 pd \<and>
   virtual_from_reals1 (push_all qs pd) = virtual_from_reals1 pd \<and>
   virtual_from_reals2 (push_all qs pd) = virtual_from_reals2 pd \<and>
   cam2_from_cam1_gt (push_all qs pd) = cam2_from_cam1_gt pd"
  by (induction qs arbitrary: pd) (simp_all add: push_points_def split: prod.splits)

lemma sample_loop_pushes:
  assumes run: "sample_loop R M camera N gt nl K cnt pd g = Some r"
  shows "\<forall>pd' g'. r = Inr (pd', g') \<longrightarrow>
      (\<exists>qs. length qs = N - cnt \<and> pd' = push_all qs pd \<and>
         (\<forall>j<length qs. \<exists>ga gb. trial R M camera gt nl K (cnt + j) ga = Accepted (qs ! j) gb))"
proof -
  let ?P = "\<lambda>R M camera N gt nl K cnt pd (g::'a) r. \<forall>pd' (g'::'a). r = Inr (pd', g') \<longrightarrow>
      (\<exists>qs. length qs = N - cnt \<and> pd' = push_all qs pd \<and>
         (\<forall>j<length qs. \<exists>ga gb. trial R M camera gt nl K (cnt + j) ga = Accepted (qs ! j) gb))"
  have "?P R M camera N gt nl K cnt pd g r"
  proof (rule sample_loop.raw_induct [where P = ?P, OF _ run])
    fix loop :: "'a Random \<Rightarrow> Models \<Rightarrow> Camera \<Rightarrow> nat \<Rightarrow> Rigid3d \<Rightarrow> real \<Rightarrow> nat \<Rightarrow> nat \<Rightarrow> PointsData \<Rightarrow> 'a \<Rightarrow>
       (error + PointsData \<times> 'a) option"
    fix R M camera N gt nl K cnt pd and g :: 'a and r
    assume ih: "\<And>R M camera N gt nl K cnt pd g r.
        loop R M camera N gt nl K cnt pd g = Some r \<Longrightarrow> ?P R M camera N gt nl K cnt pd g r"
    assume body: "(if N \<le> cnt then Some (Inr (pd, g))
        else case trial R M camera gt nl K cnt g of
          Rejected g' \<Rightarrow> loop R M camera N gt nl K cnt pd g'
        | Failed e \<Rightarrow> Some (Inl e)
        | Accepted q g' \<Rightarrow> loop R M camera N gt nl K (cnt + 1) (push_points q pd) g') = Some r"
    show "?P R M camera N gt nl K cnt pd g r"
    proof (cases "N \<le> cnt")
      case True
      with body have "r = Inr (pd, g)" by simp
      with True show ?thesis by simp
    next
      case False
      show ?thesis
      proof (cases "trial R M camera gt nl K cnt g")
        case (Rejected g2)
        with False body have "loop R M camera N gt nl K cnt pd g2 = Some r" by simp
        from ih [OF this] show ?thesis .
      next
        case (Failed e)
        with False body have "r = Inl e" by simp
        then show ?thesis by simp
      next
        case (Accepted q g2)
        with False body have "loop R M camera N gt nl K (cnt + 1) (push_points q pd) g2 = Some r"
          by simp
        note step = ih [OF this]
        show ?thesis
        proof (intro allI impI)
          fix pd' and g' :: 'a
          assume "r = Inr (pd', g')"
          with step obtain qs where qs: "length qs = N - (cnt + 1)"
            "pd' = push_all qs (push_points q pd)"
            "\<forall>j<length qs. \<exists>ga gb. trial R M camera gt nl K (cnt + 1 + j) ga = Accepted (qs ! j) gb"
            by blast
          have len: "length (q # qs) = N - cnt" using qs(1) False by simp
          have pd': "pd' = push_all (q # qs) pd" using qs(2) by simp
          have "\<exists>ga gb. trial R M camera gt nl K (cnt + j) ga = Accepted ((q # qs) ! j) gb"
            if "j < length (q # qs)" for j
          proof (cases j)
            case 0
            with Accepted show ?thesis by auto
          next
            case (Suc k)
            with that have "k < length qs" by simp
            with qs(3) obtain ga gb where
              "trial R M camera gt nl K (cnt + 1 + k) ga = Accepted (qs ! k) gb"
              by blast
            with Suc show ?thesis by auto
          qed
          with len pd' show "\<exists>qs. length qs = N - cnt \<and> pd' = push_all qs pd \<and>
            (\<forall>j<length qs. \<exists>ga gb. trial R M camera gt nl K (cnt + j) ga = Accepted (qs ! j) gb)"
            by blast
        qed
      qed
    qed
  qed
  then show ?thesis .
qed


lemma not_rejected_finite:
  "\<not> rejected camera p \<longleftrightarrow>
     (\<exists>u v. p = (Fin u, Fin v) \<and> 0 \<le> u \<and> u \<le> real (width camera) \<and>
            0 \<le> v \<and> v \<le> real (height camera))"
proof (cases p)
  case (Pair a b)
  then show ?thesis
    by (cases a; cases b) (auto simp: rejected_def)
qed

lemma candidate_cases:
  obtains p X1 X2 p2r g3 where "candidate R M camera gt g = (p, X1, X2, p2r, g3)"
  by (cases "candidate R M camera gt g") auto

lemma trial_not_passing:
  assumes "\<not> passes R M camera gt g"
  shows "trial R M camera gt nl K cnt g = Rejected (next_state R M camera gt g)"
proof -
  obtain p X1 X2 p2r g3 where c: "candidate R M camera gt g = (p, X1, X2, p2r, g3)"
    by (rule candidate_cases)
  with assms show ?thesis
    by (simp add: passes_def trial_def next_state_def)
qed

lemma trial_passing:
  assumes "passes R M camera gt g"
  shows "(\<exists>e. trial R M camera gt nl K cnt g = Failed e) \<or>
     (\<exists>q g'. trial R M camera gt nl K cnt g = Accepted q g')"
proof -
  obtain p X1 X2 p2r g3 where c: "candidate R M camera gt g = (p, X1, X2, p2r, g3)"
    by (rule candidate_cases)
  with assms have nr: "\<not> rejected camera p2r" by (simp add: passes_def)
  show ?thesis
  proof (cases "hnormalized X1")
    case (Inl e)
    with c nr show ?thesis by (simp add: trial_def)
  next
    case h1: (Inr h1)
    show ?thesis
    proof (cases "hnormalized X2")
      case (Inl e)
      with c nr h1 show ?thesis by (simp add: trial_def)
    next
      case (Inr h2)
      with c nr h1 show ?thesis by (simp add: trial_def split: prod.splits)
    qed
  qed
qed

lemma trial_Rejected:
  assumes "trial R M camera gt nl K cnt g = Rejected g'"
  shows "\<not> passes R M camera gt g \<and> g' = next_state R M camera gt g"
proof (cases "passes R M camera gt g")
  case True
  from trial_passing [OF True, of nl K cnt] assms show ?thesis by auto
next
  case False
  from trial_not_passing [OF False, of nl K cnt] assms False show ?thesis by simp
qed

lemma trial_Accepted:
  assumes "trial R M camera gt nl K cnt g = Accepted q g'"
  shows "\<exists>x y X1 X2 u v g3 h1 h2.
      candidate R M camera gt g = ((x, y), X1, X2, (Fin u, Fin v), g3) \<and>
      0 \<le> u \<and> u \<le> real (width camera) \<and> 0 \<le> v \<and> v \<le> real (height camera) \<and>
      hnormalized X1 = Inr h1 \<and> hnormalized X2 = Inr h2 \<and>
      perturb R nl K cnt (ImgFromCam M camera h1, (x, y), ImgFromCam M camera h2, (u, v)) g3 = (q, g')"
proof -
  obtain p X1 X2 p2r g3 where c: "candidate R M camera gt g = (p, X1, X2, p2r, g3)"
    by (rule candidate_cases)
  obtain x y where p: "p = (x, y)" by (cases p) auto
  from assms c have nr: "\<not> rejected camera p2r"
    by (auto simp: trial_def split: if_splits)
  then obtain u v where uv: "p2r = (Fin u, Fin v)" "0 \<le> u" "u \<le> real (width camera)"
      "0 \<le> v" "v \<le> real (height camera)"
    unfolding not_rejected_finite by blast
  from assms c nr obtain h1 where h1: "hnormalized X1 = Inr h1"
    by (cases "hnormalized X1") (simp_all add: trial_def)
  from assms c nr h1 obtain h2 where h2: "hnormalized X2 = Inr h2"
    by (cases "hnormalized X2") (simp_all add: trial_def)
  from assms c nr h1 h2 uv(1) p
  have "perturb R nl K cnt (ImgFromCam M camera h1, (x, y), ImgFromCam M camera h2, (u, v)) g3 = (q, g')"
    by (simp add: trial_def split: prod.splits)
  with c p uv h1 h2 show ?thesis by blast
qed

lemma hnormalized_Inr: "snd (snd X) \<noteq> 0 \<Longrightarrow> \<exists>h. hnormalized X = Inr h"
  by (cases X) auto

lemma candidate_draws:
  assumes "candidate R M camera gt ga = ((x, y), X1, X2, p2r, g3)"
  shows "\<exists>g1 g2 d.
      RandomUniformReal R (1 / 2) (real (width camera) - 1 / 2) ga = (x, g1) \<and>
      RandomUniformReal R (1 / 2) (real (height camera) - 1 / 2) g1 = (y, g2) \<and>
      RandomUniformReal R (1 / 2) 10 g2 = (d, g3) \<and>
      X1 = At (CamFromImgRefrac M camera (x, y)) d \<and>
      X2 = Rigid3d_apply gt X1 \<and>
      p2r = ImgFromCamRefrac M camera X2"
proof -
  obtain x' g1 where a: "RandomUniformReal R (1 / 2) (real (width camera) - 1 / 2) ga = (x', g1)"
    by (cases "RandomUniformReal R (1 / 2) (real (width camera) - 1 / 2) ga") auto
  obtain y' g2 where b: "RandomUniformReal R (1 / 2) (real (height camera) - 1 / 2) g1 = (y', g2)"
    by (cases "RandomUniformReal R (1 / 2) (real (height camera) - 1 / 2) g1") auto
  obtain d g3' where c: "RandomUniformReal R (1 / 2) 10 g2 = (d, g3')"
    by (cases "RandomUniformReal R (1 / 2) 10 g2") auto
  from assms a b c have "x' = x \<and> y' = y \<and> g3' = g3 \<and> X1 = At (CamFromImgRefrac M camera (x, y)) d \<and>
      X2 = Rigid3d_apply gt X1 \<and> p2r = ImgFromCamRefrac M camera X2"
    by (auto simp add: candidate_def Let_def)
  with a b c show ?thesis by blast
qed

lemma trial_accepts:
  assumes front: "\<forall>p d.
      \<not> rejected camera
          (ImgFromCamRefrac M camera (Rigid3d_apply gt (At (CamFromImgRefrac M camera p) d))) \<longrightarrow>
      snd (snd (At (CamFromImgRefrac M camera p) d)) \<noteq> 0 \<and>
      snd (snd (Rigid3d_apply gt (At (CamFromImgRefrac M camera p) d))) \<noteq> 0"
    and p: "passes R M camera gt g"
  shows "\<exists>q g'. trial R M camera gt nl K cnt g = Accepted q g'"
proof -
  obtain p0 X1 X2 p2r g3 where c: "candidate R M camera gt g = (p0, X1, X2, p2r, g3)"
    by (rule candidate_cases)
  obtain x y where p0: "p0 = (x, y)" by (cases p0) auto
  from c p have nr: "\<not> rejected camera p2r" by (simp add: passes_def)
  from candidate_draws [OF c [unfolded p0]] obtain d where d:
    "X1 = At (CamFromImgRefrac M camera (x, y)) d" "X2 = Rigid3d_apply gt X1"
    "p2r = ImgFromCamRefrac M camera X2"
    by blast
  from nr d have "\<not> rejected camera
      (ImgFromCamRefrac M camera (Rigid3d_apply gt (At (CamFromImgRefrac M camera (x, y)) d)))"
    by simp
  with front have "snd (snd (At (CamFromImgRefrac M camera (x, y)) d)) \<noteq> 0 \<and>
      snd (snd (Rigid3d_apply gt (At (CamFromImgRefrac M camera (x, y)) d))) \<noteq> 0"
    by blast
  with d have z: "snd (snd X1) \<noteq> 0" "snd (snd X2) \<noteq> 0" by simp_all
  from hnormalized_Inr [OF z(1)] obtain h1 where h1: "hnormalized X1 = Inr h1" ..
  from hnormalized_Inr [OF z(2)] obtain h2 where h2: "hnormalized X2 = Inr h2" ..
  from c nr h1 h2 show ?thesis by (simp add: trial_def split: prod.splits)
qed

lemma sample_loop_collects:
  assumes fair: "\<forall>g. \<exists>n. passes R M camera gt ((next_state R M camera gt ^^ n) g)"
    and front: "\<forall>p d.
      \<not> rejected camera
          (ImgFromCamRefrac M camera (Rigid3d_apply gt (At (CamFromImgRefrac M camera p) d))) \<longrightarrow>
      snd (snd (At (CamFromImgRefrac M camera p) d)) \<noteq> 0 \<and>
      snd (snd (Rigid3d_apply gt (At (CamFromImgRefrac M camera p) d))) \<noteq> 0"
  shows "\<exists>pd' g'. sample_loop R M camera N gt nl K cnt pd g = Some (Inr (pd', g'))"
proof (induction "N - cnt" arbitrary: cnt pd g)
  case 0
  then have "N \<le> cnt" by simp
  then show ?case by (subst sample_loop.simps) simp
next
  case (Suc k)
  then have lt: "\<not> N \<le> cnt" and k: "k = N - (cnt + 1)" by simp_all
  have hit: "\<exists>pd' g'. sample_loop R M camera N gt nl K cnt pd g = Some (Inr (pd', g'))"
    if p: "passes R M camera gt g" for g
  proof -
    from trial_accepts [OF front p, of nl K cnt] obtain q g2 where
      a: "trial R M camera gt nl K cnt g = Accepted q g2" by blast
    from Suc.hyps(1) [OF k] obtain pd' g' where
      "sample_loop R M camera N gt nl K (cnt + 1) (push_points q pd) g2 = Some (Inr (pd', g'))"
      by blast
    with lt a have "sample_loop R M camera N gt nl K cnt pd g = Some (Inr (pd', g'))"
      by (subst sample_loop.simps) simp
    then show ?thesis by blast
  qed
  have "\<exists>pd' g'. sample_loop R M camera N gt nl K cnt pd g = Some (Inr (pd', g'))"
    if "passes R M camera gt ((next_state R M camera gt ^^ n) g)" for n g
    using that
  proof (induction n arbitrary: g)
    case 0
    then show ?case using hit by simp
  next
    case (Suc m)
    show ?case
    proof (cases "passes R M camera gt g")
      case True
      then show ?thesis by (rule hit)
    next
      case False
      from Suc.prems have "passes R M camera gt ((next_state R M camera gt ^^ m) (next_state R M camera gt g))"
        by (simp add: funpow_swap1)
      from Suc.IH [OF this] obtain pd' g' where
        "sample_loop R M camera N gt nl K cnt pd (next_state R M camera gt g) = Some (Inr (pd', g'))"
        by blast
      with lt trial_not_passing [OF False, of nl K cnt]
      have "sample_loop R M camera N gt nl K cnt pd g = Some (Inr (pd', g'))"
        by (subst sample_loop.simps) simp
      then show ?thesis by blast
    qed
  qed
  with fair show ?case by blast
qed

lemma sample_loop_diverges:
  assumes never: "\<forall>n. \<not> passes R M camera gt ((next_state R M camera gt ^^ n) g)"
    and lt: "cnt < N"
  shows "sample_loop R M camera N gt nl K cnt pd g = None"
proof (rule ccontr)
  assume "sample_loop R M camera N gt nl K cnt pd g \<noteq> None"
  then obtain r where run: "sample_loop R M camera N gt nl K cnt pd g = Some r" by blast
  let ?P = "\<lambda>R M camera N gt (nl::real) (K::nat) cnt (pd::PointsData) (g::'a)
      (r::error + PointsData \<times> 'a).
      cnt < N \<longrightarrow> (\<exists>n. passes R M camera gt ((next_state R M camera gt ^^ n) g))"
  have "?P R M camera N gt nl K cnt pd g r"
  proof (rule sample_loop.raw_induct [where P = ?P, OF _ run])
    fix loop :: "'a Random \<Rightarrow> Models \<Rightarrow> Camera \<Rightarrow> nat \<Rightarrow> Rigid3d \<Rightarrow> real \<Rightarrow> nat \<Rightarrow> nat \<Rightarrow> PointsData \<Rightarrow> 'a \<Rightarrow>
       (error + PointsData \<times> 'a) option"
    fix R M camera N gt nl K cnt pd and g :: 'a and r
    assume ih: "\<And>R M camera N gt nl K cnt pd g r.
        loop R M camera N gt nl K cnt pd g = Some r \<Longrightarrow> ?P R M camera N gt nl K cnt pd g r"
    assume body: "(if N \<le> cnt then Some (Inr (pd, g))
        else case trial R M camera gt nl K cnt g of
          Rejected g' \<Rightarrow> loop R M camera N gt nl K cnt pd g'
        | Failed e \<Rightarrow> Some (Inl e)
        | Accepted q g' \<Rightarrow> loop R M camera N gt nl K (cnt + 1) (push_points q pd) g') = Some r"
    show "?P R M camera N gt nl K cnt pd g r"
    proof
      assume lt: "cnt < N"
      show "\<exists>n. passes R M camera gt ((next_state R M camera gt ^^ n) g)"
      proof (cases "passes R M camera gt g")
        case True
        then have "passes R M camera gt ((next_state R M camera gt ^^ 0) g)" by simp
        then show ?thesis ..
      next
        case False
        note rej = trial_not_passing [OF False, of nl K cnt]
        with lt body have "loop R M camera N gt nl K cnt pd (next_state R M camera gt g) = Some r"
          by simp
        from ih [OF this] lt obtain n where
          "passes R M camera gt ((next_state R M camera gt ^^ n) (next_state R M camera gt g))"
          by blast
        then have "passes R M camera gt ((next_state R M camera gt ^^ Suc n) g)"
          by (simp add: funpow_swap1)
        then show ?thesis ..
      qed
    qed
  qed
  with never lt show False by blast
qed

section \<open>Batches of virtual cameras\<close>

lemma ComputeVirtuals_appends:
  "ComputeVirtuals M c pts (vcs, vfrs) = Inr (vcs', vfrs') \<Longrightarrow>
     \<exists>outs. map (ComputeVirtual M c) pts = map Inr outs \<and>
            vcs' = vcs @ map fst outs \<and> vfrs' = vfrs @ map snd outs"
proof (induction pts arbitrary: vcs vfrs)
  case Nil
  then show ?case by simp
next
  case (Cons p pts)
  show ?case
  proof (cases "ComputeVirtual M c p")
    case (Inl e)
    with Cons.prems show ?thesis by (simp add: e_bind_def)
  next
    case (Inr out)
    obtain vc vfr where out: "out = (vc, vfr)" by (cases out) auto
    with Inr Cons.prems have "ComputeVirtuals M c pts (vcs @ [vc], vfrs @ [vfr]) = Inr (vcs', vfrs')"
      by (simp add: e_bind_def)
    from Cons.IH [OF this] obtain outs where
      "map (ComputeVirtual M c) pts = map Inr outs" "vcs' = (vcs @ [vc]) @ map fst outs"
      "vfrs' = (vfrs @ [vfr]) @ map snd outs" by blast
    with Inr out have "map (ComputeVirtual M c) (p # pts) = map Inr ((vc, vfr) # outs) \<and>
        vcs' = vcs @ map fst ((vc, vfr) # outs) \<and> vfrs' = vfrs @ map snd ((vc, vfr) # outs)"
      by simp
    then show ?thesis by blast
  qed
qed

lemma ComputeVirtuals_total:
  "map (ComputeVirtual M c) pts = map Inr outs \<Longrightarrow>
     ComputeVirtuals M c pts (vcs, vfrs) = Inr (vcs @ map fst outs, vfrs @ map snd outs)"
proof (induction pts arbitrary: vcs vfrs outs)
  case Nil
  then show ?case by simp
next
  case (Cons p pts)
  then obtain out outs' where outs: "outs = out # outs'" "ComputeVirtual M c p = Inr out"
    "map (ComputeVirtual M c) pts = map Inr outs'"
    by (cases outs) auto
  from Cons.IH [OF outs(3)] outs(1,2) show ?case
    by (cases out) (simp add: e_bind_def)
qed


lemma VirtualCamera_returns:
  assumes ex: "ExistsCameraModelWithName M ''SIMPLE_PINHOLE''"
    and cnt: "length (FocalLengthIdxs M c) = 1 \<or> length (FocalLengthIdxs M c) = 2"
    and idx: "\<forall>i \<in> set (FocalLengthIdxs M c). i < length (params c)"
  shows "\<exists>vc. VirtualCamera M c image_point cam_point = Inr vc"
  using cnt
proof
  assume "length (FocalLengthIdxs M c) = 1"
  then obtain i where i: "FocalLengthIdxs M c = [i]" by (rule length_oneE)
  with idx have "i < length (params c)" by simp
  with i ex show ?thesis
    by (simp add: VirtualCamera_def SetModelIdFromName_def e_bind_def elem_def Let_def)
next
  assume "length (FocalLengthIdxs M c) = 2"
  then obtain i j where i: "FocalLengthIdxs M c = [i, j]" by (rule length_twoE)
  with idx have "i < length (params c)" "j < length (params c)" by simp_all
  with i ex show ?thesis
    by (simp add: VirtualCamera_def SetModelIdFromName_def e_bind_def elem_def Let_def)
qed

lemma ComputeVirtual_returns:
  assumes ex: "ExistsCameraModelWithName M ''SIMPLE_PINHOLE''"
    and cnt: "length (FocalLengthIdxs M c) = 1 \<or> length (FocalLengthIdxs M c) = 2"
    and idx: "\<forall>i \<in> set (FocalLengthIdxs M c). i < length (params c)"
    and rays: "\<forall>p. snd (snd (qrotate (VirtualFromRealRotation M c) (dir (CamFromImgRefrac M c p)))) \<noteq> 0"
  shows "\<exists>out. ComputeVirtual M c p = Inr out"
proof -
  from rays have "snd (snd (qrotate (VirtualFromRealRotation M c) (dir (CamFromImgRefrac M c p)))) \<noteq> 0"
    by blast
  from hnormalized_Inr [OF this] obtain h where
    h: "hnormalized (qrotate (VirtualFromRealRotation M c) (dir (CamFromImgRefrac M c p))) = Inr h" ..
  from VirtualCamera_returns [OF ex cnt idx] obtain vc where
    "VirtualCamera M c p h = Inr vc" by blast
  with h show ?thesis by (simp add: ComputeVirtual_def Let_def e_bind_def)
qed

lemma ComputeVirtuals_returns:
  assumes "\<forall>p. \<exists>out. ComputeVirtual M c p = Inr out"
  shows "\<exists>vcs' vfrs'. ComputeVirtuals M c pts (vcs, vfrs) = Inr (vcs', vfrs')"
proof (induction pts arbitrary: vcs vfrs)
  case Nil
  then show ?case by simp
next
  case (Cons p pts)
  from assms obtain out where "ComputeVirtual M c p = Inr out" by blast
  with Cons.IH show ?case by (cases out) (simp add: e_bind_def)
qed

lemma compute_all_virtuals_returns:
  assumes "\<forall>p. \<exists>out. ComputeVirtual M c p = Inr out"
  shows "\<exists>pd'. compute_all_virtuals M c pd = Inr pd'"
proof -
  from ComputeVirtuals_returns [OF assms] obtain vc1 vfr1 where
    "ComputeVirtuals M c (points2D1_refrac pd) (virtual_cameras1 pd, virtual_from_reals1 pd) =
       Inr (vc1, vfr1)" by blast
  moreover from ComputeVirtuals_returns [OF assms] obtain vc2 vfr2 where
    "ComputeVirtuals M c (points2D2_refrac pd) (virtual_cameras2 pd, virtual_from_reals2 pd) =
       Inr (vc2, vfr2)" by blast
  ultimately show ?thesis by (simp add: compute_all_virtuals_def e_bind_def)
qed

lemma compute_all_virtuals_fields:
  assumes "compute_all_virtuals M c pd1 = Inr pd"
  shows "points2D1 pd = points2D1 pd1 \<and> points2D1_refrac pd = points2D1_refrac pd1 \<and>
     points2D2 pd = points2D2 pd1 \<and> points2D2_refrac pd = points2D2_refrac pd1 \<and>
     cam2_from_cam1_gt pd = cam2_from_cam1_gt pd1 \<and>
     (\<exists>outs1 outs2.
        map (ComputeVirtual M c) (points2D1_refrac pd1) = map Inr outs1 \<and>
        map (ComputeVirtual M c) (points2D2_refrac pd1) = map Inr outs2 \<and>
        virtual_cameras1 pd = virtual_cameras1 pd1 @ map fst outs1 \<and>
        virtual_from_reals1 pd = virtual_from_reals1 pd1 @ map snd outs1 \<and>
        virtual_cameras2 pd = virtual_cameras2 pd1 @ map fst outs2 \<and>
        virtual_from_reals2 pd = virtual_from_reals2 pd1 @ map snd outs2)"
proof -
  from assms obtain vc1 vfr1 where v1:
    "ComputeVirtuals M c (points2D1_refrac pd1) (virtual_cameras1 pd1, virtual_from_reals1 pd1) =
       Inr (vc1, vfr1)"
    by (cases "ComputeVirtuals M c (points2D1_refrac pd1) (virtual_cameras1 pd1, virtual_from_reals1 pd1)")
      (auto simp: compute_all_virtuals_def e_bind_def)
  from assms v1 obtain vc2 vfr2 where v2:
    "ComputeVirtuals M c (points2D2_refrac pd1) (virtual_cameras2 pd1, virtual_from_reals2 pd1) =
       Inr (vc2, vfr2)"
    by (cases "ComputeVirtuals M c (points2D2_refrac pd1) (virtual_cameras2 pd1, virtual_from_reals2 pd1)")
      (auto simp: compute_all_virtuals_def e_bind_def)
  from assms v1 v2 have pd: "pd = pd1\<lparr>virtual_cameras1 := vc1, virtual_from_reals1 := vfr1,
      virtual_cameras2 := vc2, virtual_from_reals2 := vfr2\<rparr>"
    by (simp add: compute_all_virtuals_def e_bind_def)
  from ComputeVirtuals_appends [OF v1] ComputeVirtuals_appends [OF v2] pd
  show ?thesis by auto
qed

lemma GenerateRandom2D2DPoints_Inr:
  assumes "GenerateRandom2D2DPoints R M c N gt pd0 nl ir g = Some (Inr (pd, g'))"
  shows "\<exists>qs pd1. length qs = N \<and>
     pd1 = push_all qs (pd0\<lparr>points2D1 := [], points2D1_refrac := [], points2D2 := [],
                            points2D2_refrac := [], cam2_from_cam1_gt := gt\<rparr>) \<and>
     (\<forall>j<N. \<exists>ga gb. trial R M c gt nl (nat \<lfloor>round_double (round_double (real N) * round_double ir)\<rfloor>) j ga = Accepted (qs ! j) gb) \<and>
     compute_all_virtuals M c pd1 = Inr pd"
proof -
  let ?cl = "pd0\<lparr>points2D1 := [], points2D1_refrac := [], points2D2 := [],
                 points2D2_refrac := [], cam2_from_cam1_gt := gt\<rparr>"
  let ?K = "nat \<lfloor>round_double (round_double (real N) * round_double ir)\<rfloor>"
  from assms obtain pd1 where loop: "sample_loop R M c N gt nl ?K 0 ?cl g = Some (Inr (pd1, g'))"
    and cv: "compute_all_virtuals M c pd1 = Inr pd"
    by (auto simp: GenerateRandom2D2DPoints_def Let_def e_bind_def
        split: option.splits sum.splits prod.splits)
  from sample_loop_pushes [OF loop] obtain qs where
    "length qs = N - 0" "pd1 = push_all qs ?cl"
    "\<forall>j<length qs. \<exists>ga gb. trial R M c gt nl ?K (0 + j) ga = Accepted (qs ! j) gb"
    by blast
  with cv show ?thesis by auto
qed

text \<open>
  Claim C10. \<open>ComputeVirtuals\<close> appends to its two output vectors and never clears
  them. Whenever it returns, the elements that were already in \<open>virtual_cameras\<close> and
  \<open>virtual_from_reals\<close> are still there, in front, and behind them stands exactly one
  pair per input pixel, in input order: the results of \<open>ComputeVirtual\<close> on the
  pixels. So each output vector has grown by the number of pixels, and it has one entry
  per pixel only if it was empty at the call. \<open>GenerateRandom2D2DPoints\<close> clears the
  four point vectors of \<open>points_data\<close> but passes its vectors of virtual cameras and
  transforms on as they are: after the call each of them holds what it held before,
  followed by \<open>num_points\<close> new entries.
\<close>

theorem ComputeVirtuals_appends_to_outputs:
  "(ComputeVirtuals M c points2D (virtual_cameras, virtual_from_reals) = Inr (vcs', vfrs') \<longrightarrow>
      (\<exists>outs. map (ComputeVirtual M c) points2D = map Inr outs \<and>
         vcs' = virtual_cameras @ map fst outs \<and> vfrs' = virtual_from_reals @ map snd outs) \<and>
      length vcs' = length virtual_cameras + length points2D \<and>
      length vfrs' = length virtual_from_reals + length points2D \<and>
      (length vcs' = length points2D \<longleftrightarrow> virtual_cameras = []) \<and>
      (length vfrs' = length points2D \<longleftrightarrow> virtual_from_reals = [])) \<and>
   (GenerateRandom2D2DPoints R M c num_points gt points_data noise_level inlier_ratio g =
        Some (Inr (pd, g')) \<longrightarrow>
      take (length (virtual_cameras1 points_data)) (virtual_cameras1 pd) = virtual_cameras1 points_data \<and>
      take (length (virtual_cameras2 points_data)) (virtual_cameras2 pd) = virtual_cameras2 points_data \<and>
      length (virtual_cameras1 pd) = length (virtual_cameras1 points_data) + num_points \<and>
      length (virtual_cameras2 pd) = length (virtual_cameras2 points_data) + num_points \<and>
      length (virtual_from_reals1 pd) = length (virtual_from_reals1 points_data) + num_points \<and>
      length (virtual_from_reals2 pd) = length (virtual_from_reals2 points_data) + num_points)"
proof (intro conjI impI)
  assume run: "ComputeVirtuals M c points2D (virtual_cameras, virtual_from_reals) = Inr (vcs', vfrs')"
  from ComputeVirtuals_appends [OF run] obtain outs where outs:
    "map (ComputeVirtual M c) points2D = map Inr outs"
    "vcs' = virtual_cameras @ map fst outs" "vfrs' = virtual_from_reals @ map snd outs"
    by blast
  from outs(1) have len: "length outs = length points2D"
    by (metis length_map)
  from outs show "\<exists>outs. map (ComputeVirtual M c) points2D = map Inr outs \<and>
         vcs' = virtual_cameras @ map fst outs \<and> vfrs' = virtual_from_reals @ map snd outs"
    by blast
  from outs len show "length vcs' = length virtual_cameras + length points2D" by simp
  from outs len show "length vfrs' = length virtual_from_reals + length points2D" by simp
  from outs len show "length vcs' = length points2D \<longleftrightarrow> virtual_cameras = []" by simp
  from outs len show "length vfrs' = length points2D \<longleftrightarrow> virtual_from_reals = []" by simp
next
  assume gen: "GenerateRandom2D2DPoints R M c num_points gt points_data noise_level inlier_ratio g =
        Some (Inr (pd, g'))"
  from GenerateRandom2D2DPoints_Inr [OF gen] obtain qs pd1 where qs: "length qs = num_points"
    and pd1: "pd1 = push_all qs (points_data\<lparr>points2D1 := [], points2D1_refrac := [],
        points2D2 := [], points2D2_refrac := [], cam2_from_cam1_gt := gt\<rparr>)"
    and cv: "compute_all_virtuals M c pd1 = Inr pd"
    by blast
  note f = push_all_fields [of qs "points_data\<lparr>points2D1 := [], points2D1_refrac := [],
        points2D2 := [], points2D2_refrac := [], cam2_from_cam1_gt := gt\<rparr>", folded pd1]
  from compute_all_virtuals_fields [OF cv] obtain outs1 outs2 where o:
    "map (ComputeVirtual M c) (points2D1_refrac pd1) = map Inr outs1"
    "map (ComputeVirtual M c) (points2D2_refrac pd1) = map Inr outs2"
    "virtual_cameras1 pd = virtual_cameras1 pd1 @ map fst outs1"
    "virtual_from_reals1 pd = virtual_from_reals1 pd1 @ map snd outs1"
    "virtual_cameras2 pd = virtual_cameras2 pd1 @ map fst outs2"
    "virtual_from_reals2 pd = virtual_from_reals2 pd1 @ map snd outs2"
    by blast
  from o(1) have "length outs1 = length (points2D1_refrac pd1)" by (metis length_map)
  with f qs have l1: "length outs1 = num_points" by simp
  from o(2) have "length outs2 = length (points2D2_refrac pd1)" by (metis length_map)
  with f qs have l2: "length outs2 = num_points" by simp
  from f have v: "virtual_cameras1 pd1 = virtual_cameras1 points_data"
    "virtual_cameras2 pd1 = virtual_cameras2 points_data"
    "virtual_from_reals1 pd1 = virtual_from_reals1 points_data"
    "virtual_from_reals2 pd1 = virtual_from_reals2 points_data"
    by simp_all
  from o v show "take (length (virtual_cameras1 points_data)) (virtual_cameras1 pd) = virtual_cameras1 points_data"
    by simp
  from o v show "take (length (virtual_cameras2 points_data)) (virtual_cameras2 pd) = virtual_cameras2 points_data"
    by simp
  from o v l1 show "length (virtual_cameras1 pd) = length (virtual_cameras1 points_data) + num_points"
    by simp
  from o v l2 show "length (virtual_cameras2 pd) = length (virtual_cameras2 points_data) + num_points"
    by simp
  from o v l1 show "length (virtual_from_reals1 pd) = length (virtual_from_reals1 points_data) + num_points"
    by simp
  from o v l2 show "length (virtual_from_reals2 pd) = length (virtual_from_reals2 points_data) + num_points"
    by simp
qed

section \<open>Dataset generation\<close>

lemma add_noise_draws:
  assumes "add_noise R sigma (p1, p1r, p2, p2r) g = (q, g')"
  shows "\<exists>n1 n2 n3 n4 n5 n6 n7 n8 g1 g2 g3 g4 g5 g6 g7.
      RandomGaussian R 0 sigma g = (n1, g1) \<and> RandomGaussian R 0 sigma g1 = (n2, g2) \<and>
      RandomGaussian R 0 sigma g2 = (n3, g3) \<and> RandomGaussian R 0 sigma g3 = (n4, g4) \<and>
      RandomGaussian R 0 sigma g4 = (n5, g5) \<and> RandomGaussian R 0 sigma g5 = (n6, g6) \<and>
      RandomGaussian R 0 sigma g6 = (n7, g7) \<and> RandomGaussian R 0 sigma g7 = (n8, g') \<and>
      q = ((fst p1 + n1, snd p1 + n2), (fst p1r + n3, snd p1r + n4),
           (fst p2 + n5, snd p2 + n6), (fst p2r + n7, snd p2r + n8))"
proof -
  obtain n1 g1 where d1: "RandomGaussian R 0 sigma g = (n1, g1)"
    by (cases "RandomGaussian R 0 sigma g") auto
  obtain n2 g2 where d2: "RandomGaussian R 0 sigma g1 = (n2, g2)"
    by (cases "RandomGaussian R 0 sigma g1") auto
  obtain n3 g3 where d3: "RandomGaussian R 0 sigma g2 = (n3, g3)"
    by (cases "RandomGaussian R 0 sigma g2") auto
  obtain n4 g4 where d4: "RandomGaussian R 0 sigma g3 = (n4, g4)"
    by (cases "RandomGaussian R 0 sigma g3") auto
  obtain n5 g5 where d5: "RandomGaussian R 0 sigma g4 = (n5, g5)"
    by (cases "RandomGaussian R 0 sigma g4") auto
  obtain n6 g6 where d6: "RandomGaussian R 0 sigma g5 = (n6, g6)"
    by (cases "RandomGaussian R 0 sigma g5") auto
  obtain n7 g7 where d7: "RandomGaussian R 0 sigma g6 = (n7, g7)"
    by (cases "RandomGaussian R 0 sigma g6") auto
  obtain n8 g8 where d8: "RandomGaussian R 0 sigma g7 = (n8, g8)"
    by (cases "RandomGaussian R 0 sigma g7") auto
  from assms d1 d2 d3 d4 d5 d6 d7 d8
  have "g8 = g' \<and> q = ((fst p1 + n1, snd p1 + n2), (fst p1r + n3, snd p1r + n4),
           (fst p2 + n5, snd p2 + n6), (fst p2r + n7, snd p2r + n8))"
    by (simp add: add_noise_def)
  with d1 d2 d3 d4 d5 d6 d7 d8 show ?thesis by blast
qed

lemma accepted_sample:
  assumes "trial R M camera gt nl K i ga = Accepted q gb"
  shows "\<exists>g1 g2 g3 x y d u v h1 h2.
       RandomUniformReal R (1 / 2) (real (width camera) - 1 / 2) ga = (x, g1) \<and>
       RandomUniformReal R (1 / 2) (real (height camera) - 1 / 2) g1 = (y, g2) \<and>
       RandomUniformReal R (1 / 2) 10 g2 = (d, g3) \<and>
       ImgFromCamRefrac M camera (Rigid3d_apply gt (At (CamFromImgRefrac M camera (x, y)) d)) =
         (Fin u, Fin v) \<and>
       0 \<le> u \<and> u \<le> real (width camera) \<and> 0 \<le> v \<and> v \<le> real (height camera) \<and>
       hnormalized (At (CamFromImgRefrac M camera (x, y)) d) = Inr h1 \<and>
       hnormalized (Rigid3d_apply gt (At (CamFromImgRefrac M camera (x, y)) d)) = Inr h2 \<and>
       (if i < K \<and> \<not> 0 < nl
        then q =
               (ImgFromCam M camera h1, (x, y), ImgFromCam M camera h2, (u, v))
        else \<exists>n1 n2 n3 n4 n5 n6 n7 n8 g4 g5 g6 g7 g8 g9 g10 g11.
               RandomGaussian R 0 (if i < K then nl else 200) g3 = (n1, g4) \<and>
               RandomGaussian R 0 (if i < K then nl else 200) g4 = (n2, g5) \<and>
               RandomGaussian R 0 (if i < K then nl else 200) g5 = (n3, g6) \<and>
               RandomGaussian R 0 (if i < K then nl else 200) g6 = (n4, g7) \<and>
               RandomGaussian R 0 (if i < K then nl else 200) g7 = (n5, g8) \<and>
               RandomGaussian R 0 (if i < K then nl else 200) g8 = (n6, g9) \<and>
               RandomGaussian R 0 (if i < K then nl else 200) g9 = (n7, g10) \<and>
               RandomGaussian R 0 (if i < K then nl else 200) g10 = (n8, g11) \<and>
               q =
                 ((fst (ImgFromCam M camera h1) + n1, snd (ImgFromCam M camera h1) + n2),
                  (x + n3, y + n4),
                  (fst (ImgFromCam M camera h2) + n5, snd (ImgFromCam M camera h2) + n6),
                  (u + n7, v + n8)))"
proof -
  from trial_Accepted [OF assms] obtain x y X1 X2 u v g3 h1 h2 where t:
    "candidate R M camera gt ga = ((x, y), X1, X2, (Fin u, Fin v), g3)"
    "0 \<le> u" "u \<le> real (width camera)" "0 \<le> v" "v \<le> real (height camera)"
    "hnormalized X1 = Inr h1" "hnormalized X2 = Inr h2"
    "perturb R nl K i (ImgFromCam M camera h1, (x, y), ImgFromCam M camera h2, (u, v)) g3 = (q, gb)"
    by blast
  from candidate_draws [OF t(1)] obtain g1 g2 d where d:
    "RandomUniformReal R (1 / 2) (real (width camera) - 1 / 2) ga = (x, g1)"
    "RandomUniformReal R (1 / 2) (real (height camera) - 1 / 2) g1 = (y, g2)"
    "RandomUniformReal R (1 / 2) 10 g2 = (d, g3)"
    "X1 = At (CamFromImgRefrac M camera (x, y)) d"
    "X2 = Rigid3d_apply gt X1"
    "(Fin u, Fin v) = ImgFromCamRefrac M camera X2"
    by blast
  have p: "ImgFromCamRefrac M camera (Rigid3d_apply gt (At (CamFromImgRefrac M camera (x, y)) d)) =
        (Fin u, Fin v)"
    using d(4,5,6) by simp
  have h1: "hnormalized (At (CamFromImgRefrac M camera (x, y)) d) = Inr h1"
    using t(6) d(4) by simp
  have h2: "hnormalized (Rigid3d_apply gt (At (CamFromImgRefrac M camera (x, y)) d)) = Inr h2"
    using t(7) d(4,5) by simp
  have e: "(if i < K \<and> \<not> 0 < nl
        then q =
               (ImgFromCam M camera h1, (x, y), ImgFromCam M camera h2, (u, v))
        else \<exists>n1 n2 n3 n4 n5 n6 n7 n8 g4 g5 g6 g7 g8 g9 g10 g11.
               RandomGaussian R 0 (if i < K then nl else 200) g3 = (n1, g4) \<and>
               RandomGaussian R 0 (if i < K then nl else 200) g4 = (n2, g5) \<and>
               RandomGaussian R 0 (if i < K then nl else 200) g5 = (n3, g6) \<and>
               RandomGaussian R 0 (if i < K then nl else 200) g6 = (n4, g7) \<and>
               RandomGaussian R 0 (if i < K then nl else 200) g7 = (n5, g8) \<and>
               RandomGaussian R 0 (if i < K then nl else 200) g8 = (n6, g9) \<and>
               RandomGaussian R 0 (if i < K then nl else 200) g9 = (n7, g10) \<and>
               RandomGaussian R 0 (if i < K then nl else 200) g10 = (n8, g11) \<and>
               q =
                 ((fst (ImgFromCam M camera h1) + n1, snd (ImgFromCam M camera h1) + n2),
                  (x + n3, y + n4),
                  (fst (ImgFromCam M camera h2) + n5, snd (ImgFromCam M camera h2) + n6),
                  (u + n7, v + n8)))"
  proof (cases "i < K \<and> \<not> 0 < nl")
    case True
    with t(8) show ?thesis by (simp add: perturb_def)
  next
    case False
    then have "add_noise R (if i < K then nl else 200)
        (ImgFromCam M camera h1, (x, y), ImgFromCam M camera h2, (u, v)) g3 = (q, gb)"
      using t(8) by (auto simp: perturb_def)
    note n = add_noise_draws [OF this, simplified fst_conv snd_conv]
    show ?thesis
      apply (simp only: False if_False)
      using n by blast
  qed
  from d(1-3) p t(2-5) h1 h2 e show ?thesis by blast
qed

lemma GenerateRandom2D2DPoints_returns:
  assumes fair: "\<forall>g. \<exists>n. passes R M camera gt ((next_state R M camera gt ^^ n) g)"
    and front: "\<forall>p d.
       \<not> rejected camera
           (ImgFromCamRefrac M camera (Rigid3d_apply gt (At (CamFromImgRefrac M camera p) d))) \<longrightarrow>
       snd (snd (At (CamFromImgRefrac M camera p) d)) \<noteq> 0 \<and>
       snd (snd (Rigid3d_apply gt (At (CamFromImgRefrac M camera p) d))) \<noteq> 0"
    and ex: "ExistsCameraModelWithName M ''SIMPLE_PINHOLE''"
    and cnt: "length (FocalLengthIdxs M camera) = 1 \<or> length (FocalLengthIdxs M camera) = 2"
    and idx: "\<forall>i \<in> set (FocalLengthIdxs M camera). i < length (params camera)"
    and rays: "\<forall>p. snd (snd (qrotate (VirtualFromRealRotation M camera)
        (dir (CamFromImgRefrac M camera p)))) \<noteq> 0"
  shows "\<exists>pd g'. GenerateRandom2D2DPoints R M camera num_points gt points_data noise_level
      inlier_ratio g = Some (Inr (pd, g'))"
proof -
  from sample_loop_collects [OF fair front] obtain pd1 g' where
    loop: "sample_loop R M camera num_points gt noise_level
       (nat \<lfloor>round_double (round_double (real num_points) * round_double inlier_ratio)\<rfloor>) 0
       (points_data\<lparr>points2D1 := [], points2D1_refrac := [], points2D2 := [],
                     points2D2_refrac := [], cam2_from_cam1_gt := gt\<rparr>) g = Some (Inr (pd1, g'))"
    by blast
  have "\<forall>p. \<exists>out. ComputeVirtual M camera p = Inr out"
    using ComputeVirtual_returns [OF ex cnt idx rays] by blast
  from compute_all_virtuals_returns [OF this] obtain pd where
    "compute_all_virtuals M camera pd1 = Inr pd" by blast
  with loop have "GenerateRandom2D2DPoints R M camera num_points gt points_data noise_level
      inlier_ratio g = Some (Inr (pd, g'))"
    by (simp add: GenerateRandom2D2DPoints_def Let_def e_bind_def)
  then show ?thesis by blast
qed

text \<open>
  Claim C2, as amended. When \<open>GenerateRandom2D2DPoints\<close> returns, each of the four
  point sequences holds exactly \<open>num_points\<close> entries, and entry \<open>i\<close> of the four comes
  from one accepted pass of the loop: a pixel \<open>(x, y)\<close> drawn by
  \<open>RandomUniformReal\<close> between 0.5 and the width (height) less 0.5, a depth \<open>d\<close> drawn
  between 0.5 and 10, and a refractive projection \<open>(u, v)\<close> into view 2 that is finite
  and lies within the image, from 0 to the width and from 0 to the height. A pass whose
  projection is NaN or outside these bounds stores nothing (\<open>rejected\<close> in \<open>trial\<close>).
  The first \<open>K\<close> entries are the inliers, where \<open>K\<close> is the product of \<open>num_points\<close>
  and \<open>inlier_ratio\<close> as the sources compute it, in doubles, truncated to an integer.
  An inlier is stored as it was computed when \<open>noise_level\<close> is not positive, and
  otherwise with one draw of \<open>RandomGaussian 0 noise_level\<close> added to each of its eight
  coordinates, eight draws one after the other. Every other entry has one draw of
  \<open>RandomGaussian 0 200\<close> added to each coordinate. The entries stand in the order of
  acceptance: entry \<open>i\<close> is the pass accepted when the counter was \<open>i\<close>.

  The call does return a data set when, from every generator state, some later pass gets
  past the two tests, no accepted point lies in the plane of a camera (where the
  division of \<open>hnormalized\<close> is by zero), and \<open>ComputeVirtual\<close> does not abort: the
  catalogue knows \<^verbatim>\<open>SIMPLE_PINHOLE\<close>, the camera has one or two focal lengths within
  its parameter vector, and no rotated ray is parallel to the image plane.
\<close>

theorem GenerateRandom2D2DPoints_collects:
  "(GenerateRandom2D2DPoints R M camera num_points gt points_data noise_level inlier_ratio g =
      Some (Inr (pd, g')) \<longrightarrow>
    length (points2D1 pd) = num_points \<and> length (points2D1_refrac pd) = num_points \<and>
    length (points2D2 pd) = num_points \<and> length (points2D2_refrac pd) = num_points \<and>
    (\<forall>i<num_points. \<exists>ga g1 g2 g3 x y d u v h1 h2.
       RandomUniformReal R (1 / 2) (real (width camera) - 1 / 2) ga = (x, g1) \<and>
       RandomUniformReal R (1 / 2) (real (height camera) - 1 / 2) g1 = (y, g2) \<and>
       RandomUniformReal R (1 / 2) 10 g2 = (d, g3) \<and>
       ImgFromCamRefrac M camera (Rigid3d_apply gt (At (CamFromImgRefrac M camera (x, y)) d)) =
         (Fin u, Fin v) \<and>
       0 \<le> u \<and> u \<le> real (width camera) \<and> 0 \<le> v \<and> v \<le> real (height camera) \<and>
       hnormalized (At (CamFromImgRefrac M camera (x, y)) d) = Inr h1 \<and>
       hnormalized (Rigid3d_apply gt (At (CamFromImgRefrac M camera (x, y)) d)) = Inr h2 \<and>
       (if i < nat \<lfloor>round_double (round_double (real num_points) * round_double inlier_ratio)\<rfloor> \<and> \<not> 0 < noise_level
        then (points2D1 pd ! i, points2D1_refrac pd ! i, points2D2 pd ! i, points2D2_refrac pd ! i) =
               (ImgFromCam M camera h1, (x, y), ImgFromCam M camera h2, (u, v))
        else \<exists>n1 n2 n3 n4 n5 n6 n7 n8 g4 g5 g6 g7 g8 g9 g10 g11.
               RandomGaussian R 0 (if i < nat \<lfloor>round_double (round_double (real num_points) * round_double inlier_ratio)\<rfloor> then noise_level else 200) g3 = (n1, g4) \<and>
               RandomGaussian R 0 (if i < nat \<lfloor>round_double (round_double (real num_points) * round_double inlier_ratio)\<rfloor> then noise_level else 200) g4 = (n2, g5) \<and>
               RandomGaussian R 0 (if i < nat \<lfloor>round_double (round_double (real num_points) * round_double inlier_ratio)\<rfloor> then noise_level else 200) g5 = (n3, g6) \<and>
               RandomGaussian R 0 (if i < nat \<lfloor>round_double (round_double (real num_points) * round_double inlier_ratio)\<rfloor> then noise_level else 200) g6 = (n4, g7) \<and>
               RandomGaussian R 0 (if i < nat \<lfloor>round_double (round_double (real num_points) * round_double inlier_ratio)\<rfloor> then noise_level else 200) g7 = (n5, g8) \<and>
               RandomGaussian R 0 (if i < nat \<lfloor>round_double (round_double (real num_points) * round_double inlier_ratio)\<rfloor> then noise_level else 200) g8 = (n6, g9) \<and>
               RandomGaussian R 0 (if i < nat \<lfloor>round_double (round_double (real num_points) * round_double inlier_ratio)\<rfloor> then noise_level else 200) g9 = (n7, g10) \<and>
               RandomGaussian R 0 (if i < nat \<lfloor>round_double (round_double (real num_points) * round_double inlier_ratio)\<rfloor> then noise_level else 200) g10 = (n8, g11) \<and>
               (points2D1 pd ! i, points2D1_refrac pd ! i, points2D2 pd ! i, points2D2_refrac pd ! i) =
                 ((fst (ImgFromCam M camera h1) + n1, snd (ImgFromCam M camera h1) + n2),
                  (x + n3, y + n4),
                  (fst (ImgFromCam M camera h2) + n5, snd (ImgFromCam M camera h2) + n6),
                  (u + n7, v + n8))))) \<and>
   ((\<forall>g. \<exists>n. passes R M camera gt ((next_state R M camera gt ^^ n) g)) \<and>
    (\<forall>p d.
       \<not> rejected camera
           (ImgFromCamRefrac M camera (Rigid3d_apply gt (At (CamFromImgRefrac M camera p) d))) \<longrightarrow>
       snd (snd (At (CamFromImgRefrac M camera p) d)) \<noteq> 0 \<and>
       snd (snd (Rigid3d_apply gt (At (CamFromImgRefrac M camera p) d))) \<noteq> 0) \<and>
    ExistsCameraModelWithName M ''SIMPLE_PINHOLE'' \<and>
    (length (FocalLengthIdxs M camera) = 1 \<or> length (FocalLengthIdxs M camera) = 2) \<and>
    (\<forall>i \<in> set (FocalLengthIdxs M camera). i < length (params camera)) \<and>
    (\<forall>p. snd (snd (qrotate (VirtualFromRealRotation M camera) (dir (CamFromImgRefrac M camera p)))) \<noteq> 0) \<longrightarrow>
    (\<exists>pd g'. GenerateRandom2D2DPoints R M camera num_points gt points_data noise_level
       inlier_ratio g = Some (Inr (pd, g'))))"
proof (intro conjI impI)
  assume "(\<forall>g. \<exists>n. passes R M camera gt ((next_state R M camera gt ^^ n) g)) \<and>
    (\<forall>p d.
       \<not> rejected camera
           (ImgFromCamRefrac M camera (Rigid3d_apply gt (At (CamFromImgRefrac M camera p) d))) \<longrightarrow>
       snd (snd (At (CamFromImgRefrac M camera p) d)) \<noteq> 0 \<and>
       snd (snd (Rigid3d_apply gt (At (CamFromImgRefrac M camera p) d))) \<noteq> 0) \<and>
    ExistsCameraModelWithName M ''SIMPLE_PINHOLE'' \<and>
    (length (FocalLengthIdxs M camera) = 1 \<or> length (FocalLengthIdxs M camera) = 2) \<and>
    (\<forall>i \<in> set (FocalLengthIdxs M camera). i < length (params camera)) \<and>
    (\<forall>p. snd (snd (qrotate (VirtualFromRealRotation M camera) (dir (CamFromImgRefrac M camera p)))) \<noteq> 0)"
  then show "\<exists>pd g'. GenerateRandom2D2DPoints R M camera num_points gt points_data noise_level
      inlier_ratio g = Some (Inr (pd, g'))"
    using GenerateRandom2D2DPoints_returns [of R M camera gt] by blast
next
  assume gen: "GenerateRandom2D2DPoints R M camera num_points gt points_data noise_level
      inlier_ratio g = Some (Inr (pd, g'))"
  let ?cl = "points_data\<lparr>points2D1 := [], points2D1_refrac := [], points2D2 := [],
        points2D2_refrac := [], cam2_from_cam1_gt := gt\<rparr>"
  from GenerateRandom2D2DPoints_Inr [OF gen] obtain qs pd1 where qs: "length qs = num_points"
    and pd1: "pd1 = push_all qs ?cl"
    and acc: "\<forall>j<num_points. \<exists>ga gb.
        trial R M camera gt noise_level (nat \<lfloor>round_double (round_double (real num_points) * round_double inlier_ratio)\<rfloor>) j ga =
          Accepted (qs ! j) gb"
    and cv: "compute_all_virtuals M camera pd1 = Inr pd"
    by blast
  note f = push_all_fields [of qs ?cl, folded pd1]
  note k = compute_all_virtuals_fields [OF cv]
  from f k have p: "points2D1 pd = map fst qs" "points2D1_refrac pd = map (\<lambda>q. fst (snd q)) qs"
    "points2D2 pd = map (\<lambda>q. fst (snd (snd q))) qs"
    "points2D2_refrac pd = map (\<lambda>q. snd (snd (snd q))) qs"
    by simp_all
  from p qs show "length (points2D1 pd) = num_points" by simp
  from p qs show "length (points2D1_refrac pd) = num_points" by simp
  from p qs show "length (points2D2 pd) = num_points" by simp
  from p qs show "length (points2D2_refrac pd) = num_points" by simp
  show "\<forall>i<num_points. \<exists>ga g1 g2 g3 x y d u v h1 h2.
       RandomUniformReal R (1 / 2) (real (width camera) - 1 / 2) ga = (x, g1) \<and>
       RandomUniformReal R (1 / 2) (real (height camera) - 1 / 2) g1 = (y, g2) \<and>
       RandomUniformReal R (1 / 2) 10 g2 = (d, g3) \<and>
       ImgFromCamRefrac M camera (Rigid3d_apply gt (At (CamFromImgRefrac M camera (x, y)) d)) =
         (Fin u, Fin v) \<and>
       0 \<le> u \<and> u \<le> real (width camera) \<and> 0 \<le> v \<and> v \<le> real (height camera) \<and>
       hnormalized (At (CamFromImgRefrac M camera (x, y)) d) = Inr h1 \<and>
       hnormalized (Rigid3d_apply gt (At (CamFromImgRefrac M camera (x, y)) d)) = Inr h2 \<and>
       (if i < nat \<lfloor>round_double (round_double (real num_points) * round_double inlier_ratio)\<rfloor> \<and> \<not> 0 < noise_level
        then (points2D1 pd ! i, points2D1_refrac pd ! i, points2D2 pd ! i, points2D2_refrac pd ! i) =
               (ImgFromCam M camera h1, (x, y), ImgFromCam M camera h2, (u, v))
        else \<exists>n1 n2 n3 n4 n5 n6 n7 n8 g4 g5 g6 g7 g8 g9 g10 g11.
               RandomGaussian R 0 (if i < nat \<lfloor>round_double (round_double (real num_points) * round_double inlier_ratio)\<rfloor> then noise_level else 200) g3 = (n1, g4) \<and>
               RandomGaussian R 0 (if i < nat \<lfloor>round_double (round_double (real num_points) * round_double inlier_ratio)\<rfloor> then noise_level else 200) g4 = (n2, g5) \<and>
               RandomGaussian R 0 (if i < nat \<lfloor>round_double (round_double (real num_points) * round_double inlier_ratio)\<rfloor> then noise_level else 200) g5 = (n3, g6) \<and>
               RandomGaussian R 0 (if i < nat \<lfloor>round_double (round_double (real num_points) * round_double inlier_ratio)\<rfloor> then noise_level else 200) g6 = (n4, g7) \<and>
               RandomGaussian R 0 (if i < nat \<lfloor>round_double (round_double (real num_points) * round_double inlier_ratio)\<rfloor> then noise_level else 200) g7 = (n5, g8) \<and>
               RandomGaussian R 0 (if i < nat \<lfloor>round_double (round_double (real num_points) * round_double inlier_ratio)\<rfloor> then noise_level else 200) g8 = (n6, g9) \<and>
               RandomGaussian R 0 (if i < nat \<lfloor>round_double (round_double (real num_points) * round_double inlier_ratio)\<rfloor> then noise_level else 200) g9 = (n7, g10) \<and>
               RandomGaussian R 0 (if i < nat \<lfloor>round_double (round_double (real num_points) * round_double inlier_ratio)\<rfloor> then noise_level else 200) g10 = (n8, g11) \<and>
               (points2D1 pd ! i, points2D1_refrac pd ! i, points2D2 pd ! i, points2D2_refrac pd ! i) =
                 ((fst (ImgFromCam M camera h1) + n1, snd (ImgFromCam M camera h1) + n2),
                  (x + n3, y + n4),
                  (fst (ImgFromCam M camera h2) + n5, snd (ImgFromCam M camera h2) + n6),
                  (u + n7, v + n8)))"
  proof (intro allI impI)
    fix i assume i: "i < num_points"
    with acc obtain ga gb where
      t: "trial R M camera gt noise_level (nat \<lfloor>round_double (round_double (real num_points) * round_double inlier_ratio)\<rfloor>) i ga =
          Accepted (qs ! i) gb"
      by blast
    from i qs p have "(points2D1 pd ! i, points2D1_refrac pd ! i, points2D2 pd ! i,
        points2D2_refrac pd ! i) = qs ! i"
      by simp
    then have e: "qs ! i = (points2D1 pd ! i, points2D1_refrac pd ! i, points2D2 pd ! i,
        points2D2_refrac pd ! i)" by simp
    from accepted_sample [OF t] show "\<exists>ga g1 g2 g3 x y d u v h1 h2.
       RandomUniformReal R (1 / 2) (real (width camera) - 1 / 2) ga = (x, g1) \<and>
       RandomUniformReal R (1 / 2) (real (height camera) - 1 / 2) g1 = (y, g2) \<and>
       RandomUniformReal R (1 / 2) 10 g2 = (d, g3) \<and>
       ImgFromCamRefrac M camera (Rigid3d_apply gt (At (CamFromImgRefrac M camera (x, y)) d)) =
         (Fin u, Fin v) \<and>
       0 \<le> u \<and> u \<le> real (width camera) \<and> 0 \<le> v \<and> v \<le> real (height camera) \<and>
       hnormalized (At (CamFromImgRefrac M camera (x, y)) d) = Inr h1 \<and>
       hnormalized (Rigid3d_apply gt (At (CamFromImgRefrac M camera (x, y)) d)) = Inr h2 \<and>
       (if i < nat \<lfloor>round_double (round_double (real num_points) * round_double inlier_ratio)\<rfloor> \<and> \<not> 0 < noise_level
        then (points2D1 pd ! i, points2D1_refrac pd ! i, points2D2 pd ! i, points2D2_refrac pd ! i) =
               (ImgFromCam M camera h1, (x, y), ImgFromCam M camera h2, (u, v))
        else \<exists>n1 n2 n3 n4 n5 n6 n7 n8 g4 g5 g6 g7 g8 g9 g10 g11.
               RandomGaussian R 0 (if i < nat \<lfloor>round_double (round_double (real num_points) * round_double inlier_ratio)\<rfloor> then noise_level else 200) g3 = (n1, g4) \<and>
               RandomGaussian R 0 (if i < nat \<lfloor>round_double (round_double (real num_points) * round_double inlier_ratio)\<rfloor> then noise_level else 200) g4 = (n2, g5) \<and>
               RandomGaussian R 0 (if i < nat \<lfloor>round_double (round_double (real num_points) * round_double inlier_ratio)\<rfloor> then noise_level else 200) g5 = (n3, g6) \<and>
               RandomGaussian R 0 (if i < nat \<lfloor>round_double (round_double (real num_points) * round_double inlier_ratio)\<rfloor> then noise_level else 200) g6 = (n4, g7) \<and>
               RandomGaussian R 0 (if i < nat \<lfloor>round_double (round_double (real num_points) * round_double inlier_ratio)\<rfloor> then noise_level else 200) g7 = (n5, g8) \<and>
               RandomGaussian R 0 (if i < nat \<lfloor>round_double (round_double (real num_points) * round_double inlier_ratio)\<rfloor> then noise_level else 200) g8 = (n6, g9) \<and>
               RandomGaussian R 0 (if i < nat \<lfloor>round_double (round_double (real num_points) * round_double inlier_ratio)\<rfloor> then noise_level else 200) g9 = (n7, g10) \<and>
               RandomGaussian R 0 (if i < nat \<lfloor>round_double (round_double (real num_points) * round_double inlier_ratio)\<rfloor> then noise_level else 200) g10 = (n8, g11) \<and>
               (points2D1 pd ! i, points2D1_refrac pd ! i, points2D2 pd ! i, points2D2_refrac pd ! i) =
                 ((fst (ImgFromCam M camera h1) + n1, snd (ImgFromCam M camera h1) + n2),
                  (x + n3, y + n4),
                  (fst (ImgFromCam M camera h2) + n5, snd (ImgFromCam M camera h2) + n6),
                  (u + n7, v + n8)))"
      unfolding e by blast
  qed
qed

text \<open>
  Claim C3. The loop of \<open>GenerateRandom2D2DPoints\<close> has no bound on the number of
  passes: its only exit is the counter reaching \<open>num_points\<close>, and only an accepted
  pass advances the counter. If at least one point is asked for and no pass of the run
  ever gets past the finiteness and image-bounds tests, the call does not return.
\<close>

theorem GenerateRandom2D2DPoints_unbounded:
  assumes "0 < num_points"
    and "\<forall>n. \<not> passes R M camera gt ((next_state R M camera gt ^^ n) g)"
  shows "GenerateRandom2D2DPoints R M camera num_points gt points_data noise_level inlier_ratio g = None"
proof -
  from sample_loop_diverges [OF assms(2) assms(1)]
  show ?thesis by (simp add: GenerateRandom2D2DPoints_def Let_def)
qed

section \<open>The closed examples, evaluated\<close>

lemma candidate_example:
  "candidate midpoint_random reference_models harness_camera sideways_pose g =
     ((1113 / 2, 835 / 2), (21 / 2720, 21 / 2720, 21 / 4), (2741 / 2720, 21 / 2720, 21 / 4),
      (Fin (26093 / 42), Fin (835 / 2)), Suc (Suc (Suc g)))"
  by (simp add: candidate_def midpoint_random_def harness_camera_sel CamFromImgRefrac_def
      ImgFromCamRefrac_def reference_models_def pinhole_unproject_def At_def Rigid3d_apply_def
      sideways_pose_def qrotate_def qvec_def)


lemma not_rejected_example: "\<not> rejected harness_camera (Fin (26093 / 42), Fin (835 / 2))"
  by (simp add: rejected_def harness_camera_sel)

lemma passes_example: "passes midpoint_random reference_models harness_camera sideways_pose g"
  by (simp add: passes_def candidate_example not_rejected_example)

lemma ImgFromCam_example:
  "ImgFromCam reference_models harness_camera (1 / 680, 1 / 680) = (1113 / 2, 835 / 2)"
  "ImgFromCam reference_models harness_camera (2741 / 14280, 1 / 680) = (26093 / 42, 835 / 2)"
  by (simp_all add: ImgFromCam_def reference_models_def harness_camera_sel)

lemma trial_example:
  "trial midpoint_random reference_models harness_camera sideways_pose nl K cnt g =
     (case perturb midpoint_random nl K cnt
        ((1113 / 2, 835 / 2), (1113 / 2, 835 / 2), (26093 / 42, 835 / 2), (26093 / 42, 835 / 2))
        (Suc (Suc (Suc g))) of (q, g4) \<Rightarrow> Accepted q g4)"
  by (simp add: trial_def candidate_example not_rejected_example ImgFromCam_example)

lemma add_noise_example:
  "add_noise midpoint_random sigma ((a, b), (c, d), (e, f), (u, v)) g =
     (((a + sigma, b + sigma), (c + sigma, d + sigma), (e + sigma, f + sigma), (u + sigma, v + sigma)),
      g + 8)"
  by (simp add: add_noise_def midpoint_random_def)

lemma trial_example_inlier:
  "cnt < K \<Longrightarrow> \<not> 0 < nl \<Longrightarrow>
   trial midpoint_random reference_models harness_camera sideways_pose nl K cnt g =
     Accepted ((1113 / 2, 835 / 2), (1113 / 2, 835 / 2), (26093 / 42, 835 / 2), (26093 / 42, 835 / 2))
       (g + 3)"
  by (simp add: trial_example perturb_def)

lemma trial_example_outlier:
  "\<not> cnt < K \<Longrightarrow>
   trial midpoint_random reference_models harness_camera sideways_pose nl K cnt g =
     Accepted ((1513 / 2, 1235 / 2), (1513 / 2, 1235 / 2), (34493 / 42, 1235 / 2), (34493 / 42, 1235 / 2))
       (g + 11)"
  by (simp add: trial_example perturb_def add_noise_example)

lemma sample_loop_stop:
  "N \<le> cnt \<Longrightarrow> sample_loop R M camera N gt nl K cnt pd g = Some (Inr (pd, g))"
  by (subst sample_loop.simps) simp

lemma sample_loop_example:
  "sample_loop midpoint_random reference_models harness_camera 2 sideways_pose 0 1 0 pd g =
     Some (Inr (push_points
        ((1513 / 2, 1235 / 2), (1513 / 2, 1235 / 2), (34493 / 42, 1235 / 2), (34493 / 42, 1235 / 2))
        (push_points
          ((1113 / 2, 835 / 2), (1113 / 2, 835 / 2), (26093 / 42, 835 / 2), (26093 / 42, 835 / 2)) pd),
        g + 14))"
proof -
  have second: "sample_loop midpoint_random reference_models harness_camera 2 sideways_pose 0 K cnt
      pd g = Some (Inr (push_points
        ((1513 / 2, 1235 / 2), (1513 / 2, 1235 / 2), (34493 / 42, 1235 / 2), (34493 / 42, 1235 / 2)) pd,
        g + 11))" if "K = 1" "cnt = 1" for K cnt pd g
    using that by (subst sample_loop.simps) (simp add: trial_example_outlier sample_loop_stop)
  have first: "sample_loop midpoint_random reference_models harness_camera 2 sideways_pose 0 K cnt
      pd g = Some (Inr (push_points
        ((1513 / 2, 1235 / 2), (1513 / 2, 1235 / 2), (34493 / 42, 1235 / 2), (34493 / 42, 1235 / 2))
        (push_points
          ((1113 / 2, 835 / 2), (1113 / 2, 835 / 2), (26093 / 42, 835 / 2), (26093 / 42, 835 / 2)) pd),
        g + 14))" if "K = 1" "cnt = 0" for K cnt pd g
    using that by (subst sample_loop.simps) (simp add: trial_example_inlier second)
  show ?thesis by (rule first) simp_all
qed

lemma VirtualFromRealRotation_example:
  "VirtualFromRealRotation reference_models harness_camera = \<lparr>qw = 1, qx = 0, qy = 0, qz = 0\<rparr>"
  by (simp add: VirtualFromRealRotation_def reference_models_def qnormalized_def qsquaredNorm_def
      qscale_def)

lemma VirtualCamera_example:
  "VirtualCamera reference_models harness_camera (px, py) ((px - 556) / 340, (py - 417) / 340) =
     Inr virtual_pinhole"
  by (simp add: VirtualCamera_def SetModelIdFromName_def reference_models_def e_bind_def
      Camera_new_def resize_def FocalLengthIdxs_def harness_camera_sel elem_def SetParams_def
      virtual_pinhole_def Let_def field_simps)

lemma ComputeVirtual_example:
  "ComputeVirtual reference_models harness_camera (px, py) = Inr (virtual_pinhole, identity_transform)"
proof -
  have ray: "CamFromImgRefrac reference_models harness_camera (px, py) =
      \<lparr>ori = (0, 0, 0), dir = ((px - 556) / 340, (py - 417) / 340, 1)\<rparr>"
    by (simp add: CamFromImgRefrac_def reference_models_def harness_camera_sel pinhole_unproject_def)
  have center: "VirtualCameraCenter reference_models harness_camera r = (0, 0, 0)" for r
    by (simp add: VirtualCameraCenter_def reference_models_def)
  show ?thesis
    by (simp add: ComputeVirtual_def VirtualFromRealRotation_example ray center qrotate_def qvec_def
        e_bind_def VirtualCamera_example identity_transform_def)
qed

lemma ComputeVirtuals_example:
  "ComputeVirtuals reference_models harness_camera [(a, b), (c, d)] (vcs, vfrs) =
     Inr (vcs @ [virtual_pinhole, virtual_pinhole], vfrs @ [identity_transform, identity_transform])"
  by (simp add: ComputeVirtual_example e_bind_def)

lemma GenerateRandom2D2DPoints_example:
  "GenerateRandom2D2DPoints midpoint_random reference_models harness_camera 2 sideways_pose
     empty_points 0 (1 / 2) 0 = Some (Inr (generated_points, 14))"
proof -
  note k = num_inliers_examples(1)
  show ?thesis
    unfolding GenerateRandom2D2DPoints_def Let_def k sample_loop_example
    by (simp add: compute_all_virtuals_def sampled_points_def empty_points_def push_points_def
        ComputeVirtuals_example e_bind_def generated_points_def del: ComputeVirtuals.simps)
qed

lemma GenerateRandom2D2DPoints_again:
  "GenerateRandom2D2DPoints midpoint_random reference_models harness_camera 2 sideways_pose
     generated_points 0 (1 / 2) 0 = Some (Inr (regenerated_points, 14))"
proof -
  note k = num_inliers_examples(1)
  show ?thesis
    unfolding GenerateRandom2D2DPoints_def Let_def k sample_loop_example
    by (simp add: compute_all_virtuals_def sampled_points_def empty_points_def push_points_def
        ComputeVirtuals_example e_bind_def generated_points_def regenerated_points_def
        del: ComputeVirtuals.simps)
qed

lemma blind_never_passes:
  "\<not> passes midpoint_random blind_models harness_camera sideways_pose g"
proof -
  obtain p X1 X2 p2r g3 where
    c: "candidate midpoint_random blind_models harness_camera sideways_pose g = (p, X1, X2, p2r, g3)"
    by (rule candidate_cases)
  then have "p2r = (NaN, NaN)"
    by (auto simp: candidate_def Let_def ImgFromCamRefrac_def blind_models_def split: prod.splits)
  with c show ?thesis by (simp add: passes_def rejected_def)
qed

lemma trial_midpoint:
  "\<exists>g'. trial midpoint_random reference_models harness_camera sideways_pose nl K cnt g =
     Accepted (midpoint_sample nl K cnt) g'"
  by (simp add: trial_example perturb_def add_noise_example midpoint_sample_def)

lemma sample_loop_midpoint:
  "\<exists>g'. sample_loop midpoint_random reference_models harness_camera N sideways_pose nl K cnt pd g =
     Some (Inr (push_all (map (midpoint_sample nl K) [cnt..<N]) pd, g'))"
proof (induction "N - cnt" arbitrary: cnt pd g)
  case 0
  then show ?case by (simp add: sample_loop_stop)
next
  case (Suc k)
  then have lt: "cnt < N" and k: "k = N - (cnt + 1)" by simp_all
  from trial_midpoint obtain g2 where
    t: "trial midpoint_random reference_models harness_camera sideways_pose nl K cnt g =
      Accepted (midpoint_sample nl K cnt) g2" by blast
  from Suc.hyps(1) [OF k] obtain g' where
    "sample_loop midpoint_random reference_models harness_camera N sideways_pose nl K (cnt + 1)
       (push_points (midpoint_sample nl K cnt) pd) g2 =
     Some (Inr (push_all (map (midpoint_sample nl K) [cnt + 1..<N])
       (push_points (midpoint_sample nl K cnt) pd), g'))"
    by blast
  with lt t have "sample_loop midpoint_random reference_models harness_camera N sideways_pose nl K
      cnt pd g = Some (Inr (push_all (map (midpoint_sample nl K) [cnt..<N]) pd, g'))"
    by (subst sample_loop.simps) (simp add: upt_conv_Cons)
  then show ?case by blast
qed

lemma ComputeVirtual_reference:
  "\<forall>p. \<exists>out. ComputeVirtual reference_models harness_camera p = Inr out"
proof
  fix p :: vec2
  obtain px py where "p = (px, py)" by (cases p) auto
  then show "\<exists>out. ComputeVirtual reference_models harness_camera p = Inr out"
    by (simp add: ComputeVirtual_example)
qed

lemma GenerateRandom2D2DPoints_midpoint:
  "\<exists>pd g'.
     GenerateRandom2D2DPoints midpoint_random reference_models harness_camera N sideways_pose
       pd0 nl r g = Some (Inr (pd, g')) \<and>
     points2D1 pd = map (\<lambda>i. fst (midpoint_sample nl (nat \<lfloor>round_double (round_double (real N) * round_double r)\<rfloor>) i)) [0..<N] \<and>
     points2D1_refrac pd =
       map (\<lambda>i. fst (snd (midpoint_sample nl (nat \<lfloor>round_double (round_double (real N) * round_double r)\<rfloor>) i))) [0..<N]"
proof -
  let ?cl = "pd0\<lparr>points2D1 := [], points2D1_refrac := [], points2D2 := [],
      points2D2_refrac := [], cam2_from_cam1_gt := sideways_pose\<rparr>"
  let ?qs = "map (midpoint_sample nl (nat \<lfloor>round_double (round_double (real N) * round_double r)\<rfloor>)) [0..<N]"
  from sample_loop_midpoint obtain g' where
    loop: "sample_loop midpoint_random reference_models harness_camera N sideways_pose nl
       (nat \<lfloor>round_double (round_double (real N) * round_double r)\<rfloor>) 0 ?cl g = Some (Inr (push_all ?qs ?cl, g'))"
    by blast
  from compute_all_virtuals_returns [OF ComputeVirtual_reference] obtain pd where
    cv: "compute_all_virtuals reference_models harness_camera (push_all ?qs ?cl) = Inr pd"
    by blast
  from loop cv have gen: "GenerateRandom2D2DPoints midpoint_random reference_models
      harness_camera N sideways_pose pd0 nl r g = Some (Inr (pd, g'))"
    by (simp add: GenerateRandom2D2DPoints_def Let_def e_bind_def)
  note f = push_all_fields [of ?qs ?cl]
  note c = compute_all_virtuals_fields [OF cv]
  from f c have "points2D1 pd = map (\<lambda>i. fst (midpoint_sample nl (nat \<lfloor>round_double (round_double (real N) * round_double r)\<rfloor>) i)) [0..<N]"
    by (simp add: comp_def)
  moreover from f c have "points2D1_refrac pd =
      map (\<lambda>i. fst (snd (midpoint_sample nl (nat \<lfloor>round_double (round_double (real N) * round_double r)\<rfloor>) i))) [0..<N]"
    by (simp add: comp_def)
  ultimately show ?thesis using gen by blast
qed

text \<open>
  The claim as stated counts \<open>floor (num_points * inlier_ratio)\<close> inliers. For ten
  points and the double nearest to 0.7 that is 6, and yet the accepted point with
  counter 6 is stored as an inlier, without noise: the product rounds to the double 7.
  For fifty points and the double nearest to 0.58 the product of the decimal numbers is
  29, and yet the accepted point with counter 28 is stored as an outlier, shifted by the
  200 pixels of this generator's draws: the product of the doubles lies below 29.
\<close>

theorem inlier_count_not_floor:
  "(\<exists>pd g'.
      GenerateRandom2D2DPoints midpoint_random reference_models harness_camera 10 sideways_pose
        empty_points 0 (3152519739159347 / 4503599627370496) 0 = Some (Inr (pd, g')) \<and>
      points2D1_refrac pd ! 6 = (1113 / 2, 835 / 2)) \<and>
   round_double (7 / 10) = 3152519739159347 / 4503599627370496 \<and>
   nat \<lfloor>real 10 * (3152519739159347 / 4503599627370496)\<rfloor> = 6 \<and>
   (\<exists>pd g'.
      GenerateRandom2D2DPoints midpoint_random reference_models harness_camera 50 sideways_pose
        empty_points 0 (29 / 50) 0 = Some (Inr (pd, g')) \<and>
      points2D1_refrac pd ! 28 = (1513 / 2, 1235 / 2)) \<and>
   nat \<lfloor>real 50 * (29 / 50)\<rfloor> = 29"
proof (intro conjI)
  from GenerateRandom2D2DPoints_midpoint [of 10 empty_points 0
      "3152519739159347 / 4503599627370496" 0]
  obtain pd g' where g: "GenerateRandom2D2DPoints midpoint_random reference_models harness_camera
      10 sideways_pose empty_points 0 (3152519739159347 / 4503599627370496) 0 = Some (Inr (pd, g'))"
    and p: "points2D1_refrac pd = map (\<lambda>i. fst (snd (midpoint_sample 0 (nat \<lfloor>round_double
      (round_double (real 10) * round_double (3152519739159347 / 4503599627370496))\<rfloor>) i))) [0..<10]"
    by blast
  have "points2D1_refrac pd ! 6 = (1113 / 2, 835 / 2)"
    unfolding p num_inliers_examples by (simp add: midpoint_sample_def)
  with g show "\<exists>pd g'.
      GenerateRandom2D2DPoints midpoint_random reference_models harness_camera 10 sideways_pose
        empty_points 0 (3152519739159347 / 4503599627370496) 0 = Some (Inr (pd, g')) \<and>
      points2D1_refrac pd ! 6 = (1113 / 2, 835 / 2)"
    by blast
next
  from GenerateRandom2D2DPoints_midpoint [of 50 empty_points 0 "29 / 50" 0]
  obtain pd g' where g: "GenerateRandom2D2DPoints midpoint_random reference_models harness_camera
      50 sideways_pose empty_points 0 (29 / 50) 0 = Some (Inr (pd, g'))"
    and p: "points2D1_refrac pd = map (\<lambda>i. fst (snd (midpoint_sample 0 (nat \<lfloor>round_double
      (round_double (real 50) * round_double (29 / 50))\<rfloor>) i))) [0..<50]"
    by blast
  have "points2D1_refrac pd ! 28 = (1513 / 2, 1235 / 2)"
    unfolding p num_inliers_examples by (simp add: midpoint_sample_def)
  with g show "\<exists>pd g'.
      GenerateRandom2D2DPoints midpoint_random reference_models harness_camera 50 sideways_pose
        empty_points 0 (29 / 50) 0 = Some (Inr (pd, g')) \<and>
      points2D1_refrac pd ! 28 = (1513 / 2, 1235 / 2)"
    by blast
next
  show "round_double (7 / 10) = 3152519739159347 / 4503599627370496"
    by (rule round_double_examples)
  show "nat \<lfloor>real 10 * (3152519739159347 / 4503599627370496)\<rfloor> = 6" by simp
  show "nat \<lfloor>real 50 * (29 / 50)\<rfloor> = 29" by simp
qed

lemma front_reference:
  "\<forall>p d.
     \<not> rejected harness_camera
         (ImgFromCamRefrac reference_models harness_camera
            (Rigid3d_apply sideways_pose (At (CamFromImgRefrac reference_models harness_camera p) d))) \<longrightarrow>
     snd (snd (At (CamFromImgRefrac reference_models harness_camera p) d)) \<noteq> 0 \<and>
     snd (snd (Rigid3d_apply sideways_pose
       (At (CamFromImgRefrac reference_models harness_camera p) d))) \<noteq> 0"
proof (intro allI impI)
  fix p :: vec2 and d :: real
  obtain px py where p: "p = (px, py)" by (cases p) auto
  have X1: "At (CamFromImgRefrac reference_models harness_camera p) d =
      (d * ((px - 556) / 340), d * ((py - 417) / 340), d)"
    by (simp add: p CamFromImgRefrac_def reference_models_def harness_camera_sel
        pinhole_unproject_def At_def)
  have X2: "Rigid3d_apply sideways_pose (d * ((px - 556) / 340), d * ((py - 417) / 340), d) =
      (d * ((px - 556) / 340) + 1, d * ((py - 417) / 340), d)"
    by (simp add: Rigid3d_apply_def sideways_pose_def qrotate_def qvec_def)
  assume "\<not> rejected harness_camera
         (ImgFromCamRefrac reference_models harness_camera
            (Rigid3d_apply sideways_pose (At (CamFromImgRefrac reference_models harness_camera p) d)))"
  then have "d \<noteq> 0"
    unfolding X1 X2
    by (auto simp: ImgFromCamRefrac_def reference_models_def rejected_def)
  then show "snd (snd (At (CamFromImgRefrac reference_models harness_camera p) d)) \<noteq> 0 \<and>
     snd (snd (Rigid3d_apply sideways_pose
       (At (CamFromImgRefrac reference_models harness_camera p) d))) \<noteq> 0"
    unfolding X1 X2 by simp
qed

lemma rays_reference:
  "\<forall>p. snd (snd (qrotate (VirtualFromRealRotation reference_models harness_camera)
     (dir (CamFromImgRefrac reference_models harness_camera p)))) \<noteq> 0"
proof
  fix p :: vec2
  have d: "dir (CamFromImgRefrac reference_models harness_camera p) =
      ((fst p - 556) / 340, (snd p - 417) / 340, 1)"
    by (simp add: CamFromImgRefrac_def reference_models_def harness_camera_sel
        pinhole_unproject_def)
  show "snd (snd (qrotate (VirtualFromRealRotation reference_models harness_camera)
     (dir (CamFromImgRefrac reference_models harness_camera p)))) \<noteq> 0"
    unfolding VirtualFromRealRotation_example d by (simp add: qrotate_def qvec_def)
qed

theorem GenerateRandom2D2DPoints_collects_witness:
  "passes midpoint_random reference_models harness_camera sideways_pose 0 \<and>
   ExistsCameraModelWithName reference_models ''SIMPLE_PINHOLE'' \<and>
   FocalLengthIdxs reference_models harness_camera = [0, 1] \<and>
   (\<exists>pd g'.
      GenerateRandom2D2DPoints midpoint_random reference_models harness_camera 2 sideways_pose
        empty_points (1 / 2) (1 / 2) 0 = Some (Inr (pd, g')) \<and>
      length (points2D1 pd) = 2 \<and> length (points2D1_refrac pd) = 2 \<and>
      length (points2D2 pd) = 2 \<and> length (points2D2_refrac pd) = 2 \<and>
      points2D1_refrac pd = [(557, 418), (1513 / 2, 1235 / 2)])"
proof -
  have fair: "\<forall>g. \<exists>n. passes midpoint_random reference_models harness_camera sideways_pose
      ((next_state midpoint_random reference_models harness_camera sideways_pose ^^ n) g)"
  proof
    fix g
    have "passes midpoint_random reference_models harness_camera sideways_pose
      ((next_state midpoint_random reference_models harness_camera sideways_pose ^^ 0) g)"
      by (simp add: passes_example)
    then show "\<exists>n. passes midpoint_random reference_models harness_camera sideways_pose
      ((next_state midpoint_random reference_models harness_camera sideways_pose ^^ n) g)" ..
  qed
  have ex: "ExistsCameraModelWithName reference_models ''SIMPLE_PINHOLE''"
    by (simp add: reference_models_def)
  have cnt: "length (FocalLengthIdxs reference_models harness_camera) = 1 \<or>
      length (FocalLengthIdxs reference_models harness_camera) = 2"
    by (simp add: reference_idxs)
  have idx: "\<forall>i \<in> set (FocalLengthIdxs reference_models harness_camera).
      i < length (params harness_camera)"
    by (simp add: reference_idxs harness_camera_sel)
  note t = GenerateRandom2D2DPoints_collects [of midpoint_random reference_models harness_camera 2
      sideways_pose empty_points "1 / 2" "1 / 2" 0]
  from t fair front_reference ex cnt idx rays_reference obtain pd g' where
    gen: "GenerateRandom2D2DPoints midpoint_random reference_models harness_camera 2 sideways_pose
        empty_points (1 / 2) (1 / 2) 0 = Some (Inr (pd, g'))"
    by blast
  from t [of pd g'] gen have len: "length (points2D1 pd) = 2" "length (points2D1_refrac pd) = 2"
    "length (points2D2 pd) = 2" "length (points2D2_refrac pd) = 2"
    by blast+
  from GenerateRandom2D2DPoints_midpoint [of 2 empty_points "1 / 2" "1 / 2" 0] gen
  have "points2D1_refrac pd = map (\<lambda>i. fst (snd (midpoint_sample (1 / 2) (nat \<lfloor>round_double
      (round_double (real 2) * round_double (1 / 2))\<rfloor>) i))) [0..<2]"
    by auto
  then have pts: "points2D1_refrac pd = [(557, 418), (1513 / 2, 1235 / 2)]"
    unfolding num_inliers_examples
    by (simp add: midpoint_sample_def upt_conv_Cons)
  from gen len pts have "\<exists>pd g'.
      GenerateRandom2D2DPoints midpoint_random reference_models harness_camera 2 sideways_pose
        empty_points (1 / 2) (1 / 2) 0 = Some (Inr (pd, g')) \<and>
      length (points2D1 pd) = 2 \<and> length (points2D1_refrac pd) = 2 \<and>
      length (points2D2 pd) = 2 \<and> length (points2D2_refrac pd) = 2 \<and>
      points2D1_refrac pd = [(557, 418), (1513 / 2, 1235 / 2)]"
    by blast
  with ex show ?thesis by (simp add: passes_example reference_idxs)
qed

theorem GenerateRandom2D2DPoints_unbounded_witness:
  "GenerateRandom2D2DPoints midpoint_random blind_models harness_camera 1 sideways_pose
     empty_points 0 1 0 = None"
  by (rule GenerateRandom2D2DPoints_unbounded) (simp_all add: blind_never_passes)

theorem ComputeVirtuals_appends_to_outputs_witness:
  "ComputeVirtuals reference_models harness_camera [(1, 2), (3, 4)]
     ([virtual_pinhole], [identity_transform]) =
     Inr ([virtual_pinhole, virtual_pinhole, virtual_pinhole],
          [identity_transform, identity_transform, identity_transform]) \<and>
   length [virtual_pinhole, virtual_pinhole, virtual_pinhole] =
     length [virtual_pinhole] + length [(1 :: real, 2 :: real), (3, 4)] \<and>
   length [virtual_pinhole, virtual_pinhole, virtual_pinhole] \<noteq> length [(1 :: real, 2 :: real), (3, 4)] \<and>
   GenerateRandom2D2DPoints midpoint_random reference_models harness_camera 2 sideways_pose
     generated_points 0 (1 / 2) 0 = Some (Inr (regenerated_points, 14)) \<and>
   length (virtual_cameras1 regenerated_points) = length (virtual_cameras1 generated_points) + 2 \<and>
   length (points2D1_refrac regenerated_points) = 2"
proof -
  have cv: "ComputeVirtuals reference_models harness_camera [(1, 2), (3, 4)]
     ([virtual_pinhole], [identity_transform]) =
     Inr ([virtual_pinhole, virtual_pinhole, virtual_pinhole],
          [identity_transform, identity_transform, identity_transform])"
    by (simp add: ComputeVirtuals_example del: ComputeVirtuals.simps)
  note t = ComputeVirtuals_appends_to_outputs [of reference_models harness_camera "[(1, 2), (3, 4)]"
      "[virtual_pinhole]" "[identity_transform]"
      "[virtual_pinhole, virtual_pinhole, virtual_pinhole]"
      "[identity_transform, identity_transform, identity_transform]"
      midpoint_random 2 sideways_pose generated_points 0 "1 / 2" 0 regenerated_points 14]
  have l: "length (points2D1_refrac regenerated_points) = 2"
    by (simp add: regenerated_points_def sampled_points_def)
  have ne: "[virtual_pinhole] \<noteq> []" by simp
  from t cv GenerateRandom2D2DPoints_again l ne show ?thesis by blast
qed

section \<open>Error computation\<close>

lemma squaredNorm_smul: "squaredNorm (smul s v) = s * s * squaredNorm v"
  by (cases v) (simp add: squaredNorm_def algebra_simps)

lemma squaredNorm_nonneg: "0 \<le> squaredNorm v"
  by (cases v) (simp add: squaredNorm_def)

lemma squaredNorm_zero: "squaredNorm v = 0 \<longleftrightarrow> v = (0, 0, 0)"
proof (cases v)
  case (fields x y z)
  have "x * x + y * y + z * z = 0 \<longleftrightarrow> x = 0 \<and> y = 0 \<and> z = 0"
    by (metis add_nonneg_eq_0_iff mult_eq_0_iff zero_le_square add_nonneg_nonneg)
  with fields show ?thesis by (simp add: squaredNorm_def)
qed

lemma normalize_smul:
  assumes "0 < s"
  shows "normalize_vec (smul s v) = normalize_vec v"
proof (cases "squaredNorm v = 0")
  case True
  then have "v = (0, 0, 0)" by (simp add: squaredNorm_zero)
  then show ?thesis by (simp add: normalize_vec_def squaredNorm_def)
next
  case False
  with squaredNorm_nonneg [of v] have pos: "0 < squaredNorm v" by simp
  with assms have pos': "0 < s * s * squaredNorm v" by simp
  from assms have sq: "sqrt (s * s * squaredNorm v) = s * sqrt (squaredNorm v)"
    by (simp add: real_sqrt_mult)
  from pos have nz: "sqrt (squaredNorm v) \<noteq> 0" by simp
  obtain x y z where v: "v = (x, y, z)" by (cases v) auto
  have "vdiv (smul s v) (s * sqrt (squaredNorm v)) = vdiv v (sqrt (squaredNorm v))"
    using assms nz by (simp add: v)
  with pos pos' sq show ?thesis
    by (simp add: normalize_vec_def squaredNorm_smul Let_def)
qed

lemma unit_translation_smul:
  "0 < s \<Longrightarrow> unit_translation (est\<lparr>translation := smul s (translation est)\<rparr>) = unit_translation est"
  by (simp add: unit_translation_def normalize_smul)

lemma rotation_of_difference:
  "rotation (Rigid3d_mul a (Inverse b)) = qnormalized (qmul (rotation a) (qinverse (rotation b)))"
  by (simp add: Rigid3d_mul_def Inverse_def Let_def)

lemma rotation_unit_translation: "rotation (unit_translation t) = rotation t"
  by (simp add: unit_translation_def)

lemma camera_center_alt:
  "camera_center t = qrotate (qinverse (rotation t)) (vneg (translation t))"
  by (simp add: camera_center_def Inverse_def Let_def)

lemma translation_unit_translation: "translation (unit_translation t) = normalize_vec (translation t)"
  by (simp add: unit_translation_def)

text \<open>
  Claim C1, as amended. For every ground-truth pose and every estimate of the refractive
  estimator, the rotation error is the angle in degrees of the relative rotation between
  the two, the rotation of the ground truth composed with the inverse rotation of the
  estimate. In the second version of the harness the loop normalises the translation of
  the estimate and calls \<open>PoseError\<close> on its non-refractive branch, which normalises
  the translation of the ground truth: the position error is 1000 times the distance
  between the camera centres of the two poses with unit translations, so it does not
  change when the estimate's translation is scaled by a positive factor, and no scale
  error is computed. In the first version the refractive path reports the rotation
  error; the angular error, which is the arccosine, in degrees, of the absolute value of
  the dot product of the two translations scaled to unit length, so that opposite
  translations are 0 degrees apart and not 180; and the scale error, the absolute
  difference of the two baseline lengths of the poses as they are.
\<close>

theorem refractive_errors_up_to_scale:
  "fst (Evaluate_refractive_errors gt est) =
     RadToDeg (AngleAxis_angle (qnormalized (qmul (rotation gt) (qinverse (rotation est))))) \<and>
   snd (Evaluate_refractive_errors gt est) =
     vnorm (vsub (camera_center (unit_translation gt)) (camera_center (unit_translation est))) * 1000 \<and>
   (0 < s \<longrightarrow>
      Evaluate_refractive_errors gt (est\<lparr>translation := smul s (translation est)\<rparr>) =
        Evaluate_refractive_errors gt est) \<and>
   Evaluate_refractive_errors_first gt est =
     (RadToDeg (AngleAxis_angle (qnormalized (qmul (rotation gt) (qinverse (rotation est))))),
      RadToDeg_double (acos \<bar>dot (normalize_vec (translation gt)) (normalize_vec (translation est))\<bar>),
      \<bar>vnorm (camera_center gt) - vnorm (camera_center est)\<bar>)"
proof (intro conjI impI)
  show "fst (Evaluate_refractive_errors gt est) =
     RadToDeg (AngleAxis_angle (qnormalized (qmul (rotation gt) (qinverse (rotation est)))))"
    by (simp add: Evaluate_refractive_errors_def PoseError_def Let_def rotation_of_difference
        rotation_unit_translation)
  show "snd (Evaluate_refractive_errors gt est) =
     vnorm (vsub (camera_center (unit_translation gt)) (camera_center (unit_translation est))) * 1000"
    by (simp add: Evaluate_refractive_errors_def PoseError_def Let_def camera_center_def)
  show "Evaluate_refractive_errors_first gt est =
     (RadToDeg (AngleAxis_angle (qnormalized (qmul (rotation gt) (qinverse (rotation est))))),
      RadToDeg_double (acos \<bar>dot (normalize_vec (translation gt)) (normalize_vec (translation est))\<bar>),
      \<bar>vnorm (camera_center gt) - vnorm (camera_center est)\<bar>)"
    by (simp add: Evaluate_refractive_errors_first_def RelativePoseError_def Let_def
        rotation_of_difference rotation_unit_translation translation_unit_translation
        camera_center_alt abs_if)
next
  assume "0 < s"
  then show "Evaluate_refractive_errors gt (est\<lparr>translation := smul s (translation est)\<rparr>) =
        Evaluate_refractive_errors gt est"
    by (simp only: Evaluate_refractive_errors_def unit_translation_smul)
qed

lemma sqrt_nine: "sqrt 9 = 3"
  by (rule real_sqrt_unique) simp_all

lemma camera_center_examples:
  "camera_center sideways_pose = (- 1, 0, 0)" "camera_center farther_pose = (- 3, 0, 0)"
  "camera_center (unit_translation sideways_pose) = (- 1, 0, 0)"
  "camera_center (unit_translation farther_pose) = (- 1, 0, 0)"
  by (simp_all add: camera_center_def Inverse_def sideways_pose_def farther_pose_def qinverse_def
      qsquaredNorm_def qrotate_def qvec_def unit_translation_def normalize_vec_def squaredNorm_def
      sqrt_nine)

text \<open>
  The claim as stated says that the position error of the refractive path is the
  distance between the two camera centres, with the estimate's translation not
  normalised away. For a ground truth one unit to the side and an estimate three units
  to the side, the centres are two units apart and the reported position error is zero.
\<close>

theorem refractive_position_error_not_metric:
  "snd (Evaluate_refractive_errors sideways_pose farther_pose) = 0 \<and>
   vnorm (vsub (camera_center sideways_pose) (camera_center farther_pose)) = 2"
proof -
  have "snd (Evaluate_refractive_errors sideways_pose farther_pose) =
     vnorm (vsub (camera_center (unit_translation sideways_pose))
       (camera_center (unit_translation farther_pose))) * 1000"
    by (simp add: Evaluate_refractive_errors_def PoseError_def Let_def camera_center_def)
  then show ?thesis
    by (simp add: camera_center_examples vnorm_def squaredNorm_def sqrt_nine)
qed

theorem refractive_errors_up_to_scale_witness:
  "(0 :: real) < 3 \<and>
   Evaluate_refractive_errors sideways_pose
     (sideways_pose\<lparr>translation := smul 3 (translation sideways_pose)\<rparr>) =
     Evaluate_refractive_errors sideways_pose sideways_pose \<and>
   snd (Evaluate_refractive_errors sideways_pose sideways_pose) = 0"
proof -
  have p: "(0 :: real) < 3" by simp
  note t = refractive_errors_up_to_scale [of sideways_pose sideways_pose 3]
  from t p have a: "Evaluate_refractive_errors sideways_pose
     (sideways_pose\<lparr>translation := smul 3 (translation sideways_pose)\<rparr>) =
     Evaluate_refractive_errors sideways_pose sideways_pose" by blast
  from t have "snd (Evaluate_refractive_errors sideways_pose sideways_pose) =
     vnorm (vsub (camera_center (unit_translation sideways_pose))
       (camera_center (unit_translation sideways_pose))) * 1000" by blast
  then have b: "snd (Evaluate_refractive_errors sideways_pose sideways_pose) = 0"
    by (simp add: camera_center_examples vnorm_def squaredNorm_def)
  from p a b show ?thesis by blast
qed

section \<open>Refraction disabled\<close>

text \<open>
  Claim C8. Against the dispatch modelled from the specification: for a camera with no
  refraction model selected, \<open>CamFromImgRefrac\<close> returns the ray from the nominal
  centre along the intrinsic unprojection of the pixel, whose normalised direction is
  what \<open>CamFromImg\<close> returns; and \<open>ImgFromCamRefrac\<close> of a point in front of the camera
  is a finite pixel within 1e-9 (here: equal) of \<open>ImgFromCam\<close> of the normalised point.
\<close>

theorem refraction_disabled_is_noop:
  assumes "\<not> IsCameraRefractive c"
  shows "CamFromImgRefrac (spec_refraction M bend refract) c p =
       \<lparr>ori = (0, 0, 0), dir = CameraModelCamFromImg M (model_id c) (params c) p\<rparr> \<and>
     hnormalized (dir (CamFromImgRefrac (spec_refraction M bend refract) c p)) =
       CamFromImg (spec_refraction M bend refract) c p \<and>
     (\<forall>h. hnormalized x = Inr h \<longrightarrow>
        (\<exists>a b. ImgFromCamRefrac (spec_refraction M bend refract) c x = (Fin a, Fin b) \<and>
           \<bar>a - fst (ImgFromCam (spec_refraction M bend refract) c h)\<bar> \<le> 1 / 10 ^ 9 \<and>
           \<bar>b - snd (ImgFromCam (spec_refraction M bend refract) c h)\<bar> \<le> 1 / 10 ^ 9))"
proof -
  from assms have r: "refrac_model_id c = kInvalidRefractiveCameraModelId"
    by (simp add: IsCameraRefractive_def)
  have ray: "CamFromImgRefrac (spec_refraction M bend refract) c p =
       \<lparr>ori = (0, 0, 0), dir = CameraModelCamFromImg M (model_id c) (params c) p\<rparr>"
    by (simp add: CamFromImgRefrac_def spec_refraction_def spec_CameraRefracModelCamFromImg_def r)
  have un: "hnormalized (dir (CamFromImgRefrac (spec_refraction M bend refract) c p)) =
       CamFromImg (spec_refraction M bend refract) c p"
    unfolding ray by (simp add: CamFromImg_def spec_refraction_def)
  have pr: "\<exists>a b. ImgFromCamRefrac (spec_refraction M bend refract) c x = (Fin a, Fin b) \<and>
           \<bar>a - fst (ImgFromCam (spec_refraction M bend refract) c h)\<bar> \<le> 1 / 10 ^ 9 \<and>
           \<bar>b - snd (ImgFromCam (spec_refraction M bend refract) c h)\<bar> \<le> 1 / 10 ^ 9"
    if h: "hnormalized x = Inr h" for h
  proof -
    have "ImgFromCamRefrac (spec_refraction M bend refract) c x =
        (Fin (fst (ImgFromCam (spec_refraction M bend refract) c h)),
         Fin (snd (ImgFromCam (spec_refraction M bend refract) c h)))"
      using h
      by (simp add: ImgFromCamRefrac_def ImgFromCam_def spec_refraction_def
          spec_CameraRefracModelImgFromCam_def r)
    then show ?thesis by simp
  qed
  from ray un pr show ?thesis by blast
qed

theorem refraction_disabled_is_noop_witness:
  "\<not> IsCameraRefractive in_air_camera \<and>
   CamFromImgRefrac in_air_models in_air_camera (896, 757) = \<lparr>ori = (0, 0, 0), dir = (1, 1, 1)\<rparr> \<and>
   CamFromImg in_air_models in_air_camera (896, 757) = Inr (1, 1) \<and>
   ImgFromCamRefrac in_air_models in_air_camera (2, 2, 2) = (Fin 896, Fin 757) \<and>
   ImgFromCam in_air_models in_air_camera (1, 1) = (896, 757)"
proof -
  have a: "\<not> IsCameraRefractive in_air_camera"
    by (simp add: IsCameraRefractive_def in_air_camera_def)
  note t = refraction_disabled_is_noop [OF a, of reference_models
      "\<lambda>rid rps d. \<lparr>ori = (0, 0, 0), dir = d\<rparr>" "\<lambda>mid rid ps rps x. (NaN, NaN)" "(896, 757)"
      "(2, 2, 2)", folded in_air_models_def]
  have sel: "model_id in_air_camera = 1" "params in_air_camera = [340, 340, 556, 417]"
    by (simp_all add: in_air_camera_def harness_camera_def)
  have d: "CameraModelCamFromImg reference_models 1 [340, 340, 556, 417] (896, 757) = (1, 1, 1)"
    by (simp add: reference_models_def pinhole_unproject_def)
  from t have ray: "CamFromImgRefrac in_air_models in_air_camera (896, 757) =
      \<lparr>ori = (0, 0, 0), dir = (1, 1, 1)\<rparr>"
    by (simp add: sel d)
  from t ray have un: "CamFromImg in_air_models in_air_camera (896, 757) = Inr (1, 1)"
    by simp
  have img: "ImgFromCam in_air_models in_air_camera (1, 1) = (896, 757)"
    by (simp add: ImgFromCam_def in_air_models_def spec_refraction_def reference_models_def sel)
  have h: "hnormalized (2, 2, 2) = Inr (1, 1)" by simp
  from t h obtain a b where ab: "ImgFromCamRefrac in_air_models in_air_camera (2, 2, 2) = (Fin a, Fin b)"
    by blast
  have "ImgFromCamRefrac in_air_models in_air_camera (2, 2, 2) = (Fin 896, Fin 757)"
    by (simp add: ImgFromCamRefrac_def in_air_models_def spec_refraction_def
        spec_CameraRefracModelImgFromCam_def reference_models_def sel in_air_camera_def
        harness_camera_def)
  with a ray un img show ?thesis by simp
qed

end
